theory Spec2Isabelle
  imports Main "HOL-Library.Multiset"
begin

section \<open>OpenStack route reconciliation (openstack\_routes.go)\<close>

text \<open>
  A shallow embedding of \<^verbatim>\<open>pkg/cloudprovider/providers/openstack/openstack_routes.go\<close>:
  \<^verbatim>\<open>NewRoutes\<close>, \<^verbatim>\<open>ListRoutes\<close>, \<^verbatim>\<open>updateRoutes\<close>, \<^verbatim>\<open>updateAllowedAddressPairs\<close>,
  \<^verbatim>\<open>CreateRoute\<close>, \<^verbatim>\<open>DeleteRoute\<close>, \<^verbatim>\<open>getPortIDByIP\<close> and \<^verbatim>\<open>getPortByID\<close>.
  Remote calls are state transformers on a \<open>world\<close>; a Go error is a value of \<open>error\<close>;
  Go slices are headers into an explicit store of backing arrays, because
  \<^verbatim>\<open>DeleteRoute\<close> writes through a slice that shares its array with \<^verbatim>\<open>router.Routes\<close>.
\<close>

subsection \<open>Errors and data\<close>

text \<open>
  \<open>errNoRouterID\<close> is declared in the file; \<open>ErrNoAddressFound\<close> and \<open>ErrNotFound\<close> are the
  package's sentinels. \<open>ErrRemote\<close> stands for any error a remote call reports
  (transport, authorisation, validation). \<open>Panic\<close> stands for a Go runtime panic
  (index out of range).
\<close>

datatype error =
    errNoRouterID
  | ErrNoAddressFound
  | ErrNotFound
  | ErrRemote string
  | Panic string

text \<open>\<^verbatim>\<open>routers.Route\<close>: the two fields the file reads and writes.\<close>

record RouterRoute =
  rt_NextHop :: string
  rt_DestinationCIDR :: string

text \<open>\<^verbatim>\<open>neutronports.AddressPair\<close>; the file sets and compares \<open>IPAddress\<close> only.\<close>

record AddressPair =
  IPAddress :: string
  MACAddress :: string

text \<open>\<^verbatim>\<open>v1.NodeAddress\<close> and its \<^verbatim>\<open>v1.NodeAddressType\<close>.\<close>

datatype NodeAddressType =
  NodeHostName | NodeExternalIP | NodeInternalIP | NodeExternalDNS | NodeInternalDNS

record NodeAddress =
  na_Type :: NodeAddressType
  na_Address :: string

text \<open>\<^verbatim>\<open>cloudprovider.Route\<close>.\<close>

record Route =
  Name :: string
  TargetNode :: string
  DestinationCIDR :: string
  Blackhole :: bool

text \<open>\<^verbatim>\<open>RouterOpts\<close>, the two service clients and the \<^verbatim>\<open>Routes\<close> struct.\<close>

record RouterOpts =
  RouterID :: string

datatype ServiceClient = ServiceClient string

record Routes =
  compute :: ServiceClient
  network :: ServiceClient
  opts :: RouterOpts

text \<open>
  Modelled from the spec: the instance and interface shapes of section 6
  (\<^verbatim>\<open>Instance{ID, Name, Addresses[]}\<close>, \<^verbatim>\<open>Interface{PortID, FixedIPs[]}\<close>); their
  declarations are not under src/. \<open>srv_Addresses\<close> is what \<^verbatim>\<open>nodeAddresses(srv)\<close> yields for
  the instance, an error when its address data cannot be decoded.
\<close>

record Server =
  srv_ID :: string
  srv_Name :: string
  srv_Addresses :: "error + NodeAddress list"

record FixedIP =
  fip_SubnetID :: string
  fip_IPAddress :: string

record Interface =
  PortID :: string
  FixedIPs :: "FixedIP list"

text \<open>
  The library functions the file calls on addresses, taken as parameters:
  \<^verbatim>\<open>net.ParseCIDR\<close> (\<open>None\<close> when it reports an error; otherwise the text of the parsed IP,
  that is \<^verbatim>\<open>IP.String()\<close>), \<^verbatim>\<open>govalidator.IsIPv4\<close> and \<^verbatim>\<open>govalidator.IsIPv6\<close>.
\<close>

record netlib =
  ParseCIDR :: "string \<Rightarrow> string option"
  IsIPv4 :: "string \<Rightarrow> bool"
  IsIPv6 :: "string \<Rightarrow> bool"

text \<open>\<^verbatim>\<open>IP.String()\<close>; Go prints the nil IP that a failed parse leaves as \<^verbatim>\<open><nil>\<close>.\<close>

definition IP_String :: "string option \<Rightarrow> string" where
  "IP_String ip = (case ip of None \<Rightarrow> ''<nil>'' | Some s \<Rightarrow> s)"

subsection \<open>Go slices over an explicit store\<close>

text \<open>
  A slice is a header (array address, length, capacity); the arrays live in a store.
  Two headers with the same address share their elements, as in Go. All slices of the
  file start at index 0 of their array.
\<close>

record slice =
  s_ptr :: nat
  s_len :: nat
  s_cap :: nat

record 'a heap =
  cells :: "nat \<Rightarrow> 'a list"
  fresh :: nat

definition elems :: "'a heap \<Rightarrow> slice \<Rightarrow> 'a list" where
  "elems h s = take (s_len s) (cells h (s_ptr s))"

text \<open>A new array holding \<open>xs\<close> with \<open>extra\<close> unused capacity (zero values \<open>z\<close>).\<close>

definition make_slice :: "'a list \<Rightarrow> nat \<Rightarrow> 'a \<Rightarrow> 'a heap \<Rightarrow> slice \<times> 'a heap" where
  "make_slice xs extra z h =
     (\<lparr>s_ptr = fresh h, s_len = length xs, s_cap = length xs + extra\<rparr>,
      h\<lparr>cells := (cells h)(fresh h := xs @ replicate extra z), fresh := Suc (fresh h)\<rparr>)"

text \<open>
  \<^verbatim>\<open>append(s, v)\<close>: in place when the capacity allows, otherwise into a new array of
  \<open>extra\<close> spare capacity.
\<close>

definition append1 :: "slice \<Rightarrow> 'a \<Rightarrow> nat \<Rightarrow> 'a heap \<Rightarrow> slice \<times> 'a heap" where
  "append1 s v extra h =
     (if s_len s < s_cap s
      then (s\<lparr>s_len := s_len s + 1\<rparr>,
            h\<lparr>cells := (cells h)(s_ptr s := (cells h (s_ptr s))[s_len s := v])\<rparr>)
      else make_slice (elems h s @ [v]) extra v h)"

text \<open>
  The two statements \<^verbatim>\<open>s[index] = s[len(s)-1]; s = s[:len(s)-1]\<close>. The assignment
  writes into the shared array; only the local header is shortened. \<open>None\<close> is the
  runtime panic for an index out of range.
\<close>

definition delete_at :: "slice \<Rightarrow> nat \<Rightarrow> 'a heap \<Rightarrow> (slice \<times> 'a heap) option" where
  "delete_at s index h =
     (if s_len s = 0 \<or> s_len s \<le> index then None
      else Some (s\<lparr>s_len := s_len s - 1\<rparr>,
                 h\<lparr>cells := (cells h)(s_ptr s :=
                      (cells h (s_ptr s))[index := cells h (s_ptr s) ! (s_len s - 1)])\<rparr>))"

subsection \<open>The remote control plane\<close>

text \<open>\<^verbatim>\<open>routers.Router\<close> and \<^verbatim>\<open>neutronports.Port\<close> as the client decodes them.\<close>

record Router =
  r_ID :: string
  r_Routes :: slice

record Port =
  p_ID :: string
  p_AllowedAddressPairs :: slice

datatype request =
    ServerGet string
  | ServerList
  | InterfacesGet string
  | RouterGet string
  | RouterUpdate string "RouterRoute list"
  | PortGet string
  | PortUpdate string "AddressPair list"

type_synonym event = "request \<times> error option"

text \<open>
  Modelled from the spec: the collaborators of section 6, whose code is not under src/.
  The remote state is the instances, their interfaces, the routers' route tables and the
  ports' address filters. \<open>faults\<close> scripts the outcome of the n-th remote call (each call
  either returns or fails, and a failed call changes nothing); \<open>trace\<close> records every
  remote call with its outcome; \<open>warnings\<close> are the \<^verbatim>\<open>glog.Warning\<close> lines. The process's
  own memory is \<open>route_mem\<close> and \<open>pair_mem\<close>; \<open>spare n\<close> is the unused capacity the runtime
  leaves behind a fresh array of \<open>n\<close> elements.
\<close>

record world =
  servers :: "Server list"
  interfaces :: "string \<Rightarrow> Interface list option"
  routers :: "string \<Rightarrow> RouterRoute list option"
  ports :: "string \<Rightarrow> AddressPair list option"
  faults :: "nat \<Rightarrow> error option"
  trace :: "event list"
  warnings :: "(string \<times> error) list"
  route_mem :: "RouterRoute heap"
  pair_mem :: "AddressPair heap"
  spare :: "nat \<Rightarrow> nat"

definition outcome :: "error + 'a \<Rightarrow> error option" where
  "outcome res = (case res of Inl e \<Rightarrow> Some e | Inr _ \<Rightarrow> None)"

definition remote_call :: "request \<Rightarrow> (world \<Rightarrow> error + 'a) \<Rightarrow> world \<Rightarrow> (error + 'a) \<times> world" where
  "remote_call req answer w =
     (let res = (case faults w (length (trace w)) of Some e \<Rightarrow> Inl e | None \<Rightarrow> answer w)
      in (res, w\<lparr>trace := trace w @ [(req, outcome res)]\<rparr>))"

text \<open>The events a run from \<open>w\<close> to \<open>w'\<close> added to the trace.\<close>

definition events_of :: "world \<Rightarrow> world \<Rightarrow> event list" where
  "events_of w w' = drop (length (trace w)) (trace w')"

definition is_write :: "event \<Rightarrow> bool" where
  "is_write ev = (case fst ev of RouterUpdate _ _ \<Rightarrow> True | PortUpdate _ _ \<Rightarrow> True | _ \<Rightarrow> False)"

definition glog_Warning :: "string \<Rightarrow> error \<Rightarrow> world \<Rightarrow> world" where
  "glog_Warning msg err w = w\<lparr>warnings := warnings w @ [(msg, err)]\<rparr>"

text \<open>
  Modelled from the spec: \<^verbatim>\<open>getServerByName\<close>, \<^verbatim>\<open>nodeAddresses\<close>, \<^verbatim>\<open>getAddressesByName\<close>,
  \<^verbatim>\<open>mapServerToNodeName\<close>, \<^verbatim>\<open>getAttachedInterfacesByID\<close> and \<^verbatim>\<open>foreachServer\<close> (not under src/):
  "resolving a node identifier to its backing instance", "returns its known network
  addresses", \<^verbatim>\<open>GetAttachedInterfaces(instanceID)\<close>, \<^verbatim>\<open>ListInstances(filter)\<close>.
\<close>

definition getServerByName :: "string \<Rightarrow> world \<Rightarrow> (error + Server) \<times> world" where
  "getServerByName name =
     remote_call (ServerGet name)
       (\<lambda>w. case find (\<lambda>s. srv_Name s = name) (servers w) of
               None \<Rightarrow> Inl ErrNotFound | Some s \<Rightarrow> Inr s)"

definition nodeAddresses :: "Server \<Rightarrow> error + NodeAddress list" where
  "nodeAddresses srv = srv_Addresses srv"

definition mapServerToNodeName :: "Server \<Rightarrow> string" where
  "mapServerToNodeName srv = srv_Name srv"

definition getAddressesByName :: "string \<Rightarrow> world \<Rightarrow> (error + NodeAddress list) \<times> world" where
  "getAddressesByName name w =
     (case getServerByName name w of
        (Inl err, w1) \<Rightarrow> (Inl err, w1)
      | (Inr srv, w1) \<Rightarrow> (nodeAddresses srv, w1))"

definition getAttachedInterfacesByID :: "string \<Rightarrow> world \<Rightarrow> (error + Interface list) \<times> world" where
  "getAttachedInterfacesByID serverID =
     remote_call (InterfacesGet serverID)
       (\<lambda>w. case interfaces w serverID of None \<Rightarrow> Inl ErrNotFound | Some intfs \<Rightarrow> Inr intfs)"

text \<open>
  \<open>foreachServer\<close> lists the instances and runs the handler on each, in order, until the
  handler returns false or an error. The handler's captured variables are the
  accumulator \<open>acc\<close>.
\<close>

fun foreachServer_loop ::
  "(Server \<Rightarrow> 'm \<Rightarrow> (bool \<times> error option) \<times> 'm) \<Rightarrow> Server list \<Rightarrow> 'm \<Rightarrow> error option \<times> 'm" where
  "foreachServer_loop handler [] acc = (None, acc)"
| "foreachServer_loop handler (srv # rest) acc =
     (case handler srv acc of
        ((_, Some err), acc1) \<Rightarrow> (Some err, acc1)
      | ((False, None), acc1) \<Rightarrow> (None, acc1)
      | ((True, None), acc1) \<Rightarrow> foreachServer_loop handler rest acc1)"

definition foreachServer ::
  "(Server \<Rightarrow> 'm \<Rightarrow> (bool \<times> error option) \<times> 'm) \<Rightarrow> 'm \<Rightarrow> world \<Rightarrow> (error option \<times> 'm) \<times> world" where
  "foreachServer handler acc w =
     (case remote_call ServerList (\<lambda>w. Inr (servers w)) w of
        (Inl err, w1) \<Rightarrow> ((Some err, acc), w1)
      | (Inr srvs, w1) \<Rightarrow> (foreachServer_loop handler srvs acc, w1))"

text \<open>
  Modelled from the spec: \<^verbatim>\<open>routers.Get\<close>, \<^verbatim>\<open>routers.Update\<close>, \<^verbatim>\<open>neutronports.Get\<close> and
  \<^verbatim>\<open>neutronports.Update\<close> (not under src/): \<^verbatim>\<open>GetRouter\<close>, \<^verbatim>\<open>UpdateRouter\<close>, \<^verbatim>\<open>GetPort\<close>,
  \<^verbatim>\<open>UpdatePort\<close> with "whole-collection replace semantics", \<^verbatim>\<open>NotFound\<close> for an absent
  router or port. A fetch decodes the collection into a fresh array of the process.
\<close>

definition zeroRoute :: RouterRoute where
  "zeroRoute = \<lparr>rt_NextHop = [], rt_DestinationCIDR = []\<rparr>"

definition zeroPair :: AddressPair where
  "zeroPair = \<lparr>IPAddress = [], MACAddress = []\<rparr>"

definition routers_Get :: "string \<Rightarrow> world \<Rightarrow> (error + Router) \<times> world" where
  "routers_Get rid w =
     (case remote_call (RouterGet rid)
             (\<lambda>w. case routers w rid of None \<Rightarrow> Inl ErrNotFound | Some rs \<Rightarrow> Inr rs) w of
        (Inl err, w1) \<Rightarrow> (Inl err, w1)
      | (Inr rs, w1) \<Rightarrow>
          (case make_slice rs (spare w1 (length rs)) zeroRoute (route_mem w1) of
             (s, mem) \<Rightarrow> (Inr \<lparr>r_ID = rid, r_Routes = s\<rparr>, w1\<lparr>route_mem := mem\<rparr>)))"

definition routers_Update :: "string \<Rightarrow> RouterRoute list \<Rightarrow> world \<Rightarrow> error option \<times> world" where
  "routers_Update rid newRoutes w =
     (case remote_call (RouterUpdate rid newRoutes)
             (\<lambda>w. case routers w rid of None \<Rightarrow> Inl ErrNotFound | Some _ \<Rightarrow> Inr ()) w of
        (Inl err, w1) \<Rightarrow> (Some err, w1)
      | (Inr _, w1) \<Rightarrow> (None, w1\<lparr>routers := (routers w1)(rid \<mapsto> newRoutes)\<rparr>))"

definition ports_Get :: "string \<Rightarrow> world \<Rightarrow> (error + Port option) \<times> world" where
  "ports_Get pid w =
     (case remote_call (PortGet pid)
             (\<lambda>w. case ports w pid of None \<Rightarrow> Inl ErrNotFound | Some ps \<Rightarrow> Inr ps) w of
        (Inl err, w1) \<Rightarrow> (Inl err, w1)
      | (Inr ps, w1) \<Rightarrow>
          (case make_slice ps (spare w1 (length ps)) zeroPair (pair_mem w1) of
             (s, mem) \<Rightarrow> (Inr (Some \<lparr>p_ID = pid, p_AllowedAddressPairs = s\<rparr>), w1\<lparr>pair_mem := mem\<rparr>)))"

definition ports_Update :: "string \<Rightarrow> AddressPair list \<Rightarrow> world \<Rightarrow> error option \<times> world" where
  "ports_Update pid newPairs w =
     (case remote_call (PortUpdate pid newPairs)
             (\<lambda>w. case ports w pid of None \<Rightarrow> Inl ErrNotFound | Some _ \<Rightarrow> Inr ()) w of
        (Inl err, w1) \<Rightarrow> (Some err, w1)
      | (Inr _, w1) \<Rightarrow> (None, w1\<lparr>ports := (ports w1)(pid \<mapsto> newPairs)\<rparr>))"

text \<open>
  Modelled from the spec: the \<^verbatim>\<open>caller\<close> type behind \<^verbatim>\<open>newCaller\<close>, \<^verbatim>\<open>call\<close> and \<^verbatim>\<open>disarm\<close>
  (not under src/), section 4.4: armed when created, \<^verbatim>\<open>disarm\<close> "clears it permanently",
  and a pushed action runs on return only while it is armed.
\<close>

type_synonym caller = bool

definition newCaller :: caller where
  "newCaller = True"

definition disarm :: "caller \<Rightarrow> caller" where
  "disarm c = False"

definition call :: "caller \<Rightarrow> (world \<Rightarrow> world) \<Rightarrow> world \<Rightarrow> world" where
  "call c f w = (if c then f w else w)"

text \<open>
  A function body ends in a frame: the value it returns, \<^verbatim>\<open>onFailure\<close> as it stands at
  the return, and the closures handed to \<^verbatim>\<open>defer onFailure.call(...)\<close>, most recent first.
  Go runs the deferred calls in that order after the return value is set; they return
  nothing, so they cannot change it.
\<close>

type_synonym frame = "error option \<times> caller \<times> (world \<Rightarrow> world) list"

definition run_deferred :: "caller \<Rightarrow> (world \<Rightarrow> world) list \<Rightarrow> world \<Rightarrow> world" where
  "run_deferred c ds w = fold (call c) ds w"

definition finish :: "frame \<times> world \<Rightarrow> error option \<times> world" where
  "finish fw = (case fw of ((ret, c, ds), w) \<Rightarrow> (ret, run_deferred c ds w))"

subsection \<open>NewRoutes\<close>

definition NewRoutes :: "ServiceClient \<Rightarrow> ServiceClient \<Rightarrow> RouterOpts \<Rightarrow> error + Routes" where
  "NewRoutes compute_client network_client router_opts =
     (if RouterID router_opts = []
      then Inl errNoRouterID
      else Inr \<lparr>compute = compute_client, network = network_client, opts = router_opts\<rparr>)"

subsection \<open>ListRoutes\<close>

text \<open>The inner loop of the handler: \<^verbatim>\<open>nodeNamesByAddr[addr.Address] = name\<close> for each address.\<close>

fun record_addrs :: "string \<Rightarrow> NodeAddress list \<Rightarrow> (string \<rightharpoonup> string) \<Rightarrow> (string \<rightharpoonup> string)" where
  "record_addrs name [] nodeNamesByAddr = nodeNamesByAddr"
| "record_addrs name (addr # rest) nodeNamesByAddr =
     record_addrs name rest (nodeNamesByAddr(na_Address addr \<mapsto> name))"

text \<open>The closure passed to \<^verbatim>\<open>foreachServer\<close> (lines 63-75).\<close>

definition ListRoutes_handler ::
  "Server \<Rightarrow> (string \<rightharpoonup> string) \<Rightarrow> (bool \<times> error option) \<times> (string \<rightharpoonup> string)" where
  "ListRoutes_handler srv nodeNamesByAddr =
     (case nodeAddresses srv of
        Inl err \<Rightarrow> ((False, Some err), nodeNamesByAddr)
      | Inr addrs \<Rightarrow> ((True, None), record_addrs (mapServerToNodeName srv) addrs nodeNamesByAddr))"

text \<open>
  The loop over \<^verbatim>\<open>router.Routes\<close> (lines 85-95). A missing key reads as the empty name and
  \<^verbatim>\<open>foundNode = false\<close>.
\<close>

fun ListRoutes_loop :: "(string \<rightharpoonup> string) \<Rightarrow> RouterRoute list \<Rightarrow> Route list \<Rightarrow> Route list" where
  "ListRoutes_loop nodeNamesByAddr [] routes = routes"
| "ListRoutes_loop nodeNamesByAddr (item # rest) routes =
     (let nodeName = (case nodeNamesByAddr (rt_NextHop item) of None \<Rightarrow> [] | Some n \<Rightarrow> n);
          foundNode = (nodeNamesByAddr (rt_NextHop item) \<noteq> None);
          route = \<lparr>Name = rt_DestinationCIDR item,
                   TargetNode = nodeName,
                   DestinationCIDR = rt_DestinationCIDR item,
                   Blackhole = (\<not> foundNode)\<rparr>
      in ListRoutes_loop nodeNamesByAddr rest (routes @ [route]))"

definition ListRoutes :: "Routes \<Rightarrow> world \<Rightarrow> (error + Route list) \<times> world" where
  "ListRoutes r w =
     (case foreachServer ListRoutes_handler Map.empty w of
        ((Some err, _), w1) \<Rightarrow> (Inl err, w1)
      | ((None, nodeNamesByAddr), w1) \<Rightarrow>
          (case routers_Get (RouterID (opts r)) w1 of
             (Inl err, w2) \<Rightarrow> (Inl err, w2)
           | (Inr router, w2) \<Rightarrow>
               (Inr (ListRoutes_loop nodeNamesByAddr (elems (route_mem w2) (r_Routes router)) []), w2)))"

subsection \<open>updateRoutes and updateAllowedAddressPairs\<close>

text \<open>
  \<^verbatim>\<open>origRoutes := router.Routes\<close> copies the slice header only; the unwinder reads the
  elements when it runs.
\<close>

definition updateRoutes :: "Router \<Rightarrow> slice \<Rightarrow> world \<Rightarrow> (error + (world \<Rightarrow> world)) \<times> world" where
  "updateRoutes router newRoutes w =
     (let origRoutes = r_Routes router in
      case routers_Update (r_ID router) (elems (route_mem w) newRoutes) w of
        (Some err, w1) \<Rightarrow> (Inl err, w1)
      | (None, w1) \<Rightarrow>
          (Inr (\<lambda>u. case routers_Update (r_ID router) (elems (route_mem u) origRoutes) u of
                       (Some err, u1) \<Rightarrow> glog_Warning ''Unable to reset routes during error unwind: '' err u1
                     | (None, u1) \<Rightarrow> u1),
           w1))"

definition updateAllowedAddressPairs :: "Port \<Rightarrow> slice \<Rightarrow> world \<Rightarrow> (error + (world \<Rightarrow> world)) \<times> world" where
  "updateAllowedAddressPairs port newPairs w =
     (let origPairs = p_AllowedAddressPairs port in
      case ports_Update (p_ID port) (elems (pair_mem w) newPairs) w of
        (Some err, w1) \<Rightarrow> (Inl err, w1)
      | (None, w1) \<Rightarrow>
          (Inr (\<lambda>u. case ports_Update (p_ID port) (elems (pair_mem u) origPairs) u of
                       (Some err, u1) \<Rightarrow>
                         glog_Warning ''Unable to reset allowed-address-pairs during error unwind: '' err u1
                     | (None, u1) \<Rightarrow> u1),
           w1))"

subsection \<open>getPortIDByIP and getPortByID\<close>

fun has_fixedIP :: "string \<Rightarrow> FixedIP list \<Rightarrow> bool" where
  "has_fixedIP ipAddress [] = False"
| "has_fixedIP ipAddress (fixedIP # rest) =
     (if fip_IPAddress fixedIP = ipAddress then True else has_fixedIP ipAddress rest)"

fun port_of_ip :: "string \<Rightarrow> Interface list \<Rightarrow> error + string" where
  "port_of_ip ipAddress [] = Inl ErrNotFound"
| "port_of_ip ipAddress (intf # rest) =
     (if has_fixedIP ipAddress (FixedIPs intf) then Inr (PortID intf) else port_of_ip ipAddress rest)"

definition getPortIDByIP :: "string \<Rightarrow> string \<Rightarrow> world \<Rightarrow> (error + string) \<times> world" where
  "getPortIDByIP targetNode ipAddress w =
     (case getServerByName targetNode w of
        (Inl err, w1) \<Rightarrow> (Inl err, w1)
      | (Inr srv, w1) \<Rightarrow>
          (case getAttachedInterfacesByID (srv_ID srv) w1 of
             (Inl err, w2) \<Rightarrow> (Inl err, w2)
           | (Inr intfs, w2) \<Rightarrow> (port_of_ip ipAddress intfs, w2)))"

definition getPortByID :: "string \<Rightarrow> world \<Rightarrow> (error + Port) \<times> world" where
  "getPortByID portID w =
     (case ports_Get portID w of
        (Inl err, w1) \<Rightarrow> (Inl err, w1)
      | (Inr None, w1) \<Rightarrow> (Inl ErrNotFound, w1)
      | (Inr (Some targetPort), w1) \<Rightarrow> (Inr targetPort, w1))"

subsection \<open>The loops of CreateRoute and DeleteRoute\<close>

text \<open>Lines 165-172 and 259-266: the first internal address of the CIDR's family.\<close>

fun nexthop_loop :: "netlib \<Rightarrow> bool \<Rightarrow> bool \<Rightarrow> NodeAddress list \<Rightarrow> string \<Rightarrow> string" where
  "nexthop_loop lib CIDRisV4 CIDRisV6 [] nexthop = nexthop"
| "nexthop_loop lib CIDRisV4 CIDRisV6 (addr # rest) nexthop =
     (if na_Type addr = NodeInternalIP
      then (if (IsIPv4 lib (na_Address addr) \<and> CIDRisV4) \<or> (IsIPv6 lib (na_Address addr) \<and> CIDRisV6)
            then na_Address addr
            else nexthop_loop lib CIDRisV4 CIDRisV6 rest nexthop)
      else nexthop_loop lib CIDRisV4 CIDRisV6 rest nexthop)"

text \<open>Lines 186-191: is the route already in the table?\<close>

fun route_exists :: "string \<Rightarrow> string \<Rightarrow> RouterRoute list \<Rightarrow> bool" where
  "route_exists cidr nexthop [] = False"
| "route_exists cidr nexthop (item # rest) =
     (if rt_DestinationCIDR item = cidr \<and> rt_NextHop item = nexthop then True
      else route_exists cidr nexthop rest)"

text \<open>Lines 277-283: the index of the first matching route; \<open>None\<close> is \<^verbatim>\<open>index == -1\<close>.\<close>

fun route_index :: "string \<Rightarrow> string \<Rightarrow> RouterRoute list \<Rightarrow> nat \<Rightarrow> nat option" where
  "route_index cidr nexthop [] i = None"
| "route_index cidr nexthop (item # rest) i =
     (if rt_DestinationCIDR item = cidr \<and> rt_NextHop item = nexthop then Some i
      else route_index cidr nexthop rest (Suc i))"

text \<open>Lines 214-221 and 311-317, the same two loops over the allowed address pairs.\<close>

fun pair_exists :: "string \<Rightarrow> AddressPair list \<Rightarrow> bool" where
  "pair_exists cidr [] = False"
| "pair_exists cidr (item # rest) =
     (if IPAddress item = cidr then True else pair_exists cidr rest)"

fun pair_index :: "string \<Rightarrow> AddressPair list \<Rightarrow> nat \<Rightarrow> nat option" where
  "pair_index cidr [] i = None"
| "pair_index cidr (item # rest) i =
     (if IPAddress item = cidr then Some i else pair_index cidr rest (Suc i))"

subsection \<open>CreateRoute\<close>

text \<open>
  Lines 177-236, from the fetch of the router on, for the next hop chosen above. The
  context, cluster name and name hint are only logged and are left out.
\<close>

definition CreateRoute_tail :: "Routes \<Rightarrow> Route \<Rightarrow> string \<Rightarrow> caller \<Rightarrow> world \<Rightarrow> frame \<times> world" where
  "CreateRoute_tail r route nexthop onFailure w =
     (case routers_Get (RouterID (opts r)) w of
        (Inl err, w1) \<Rightarrow> ((Some err, onFailure, []), w1)
      | (Inr router, w1) \<Rightarrow>
          (let routes = r_Routes router in
           if route_exists (DestinationCIDR route) nexthop (elems (route_mem w1) routes)
           then ((None, onFailure, []), w1)
           else
             (case append1 routes \<lparr>rt_NextHop = nexthop, rt_DestinationCIDR = DestinationCIDR route\<rparr>
                     (spare w1 (s_len routes + 1)) (route_mem w1) of
                (routes1, mem) \<Rightarrow>
                  (case updateRoutes router routes1 (w1\<lparr>route_mem := mem\<rparr>) of
                     (Inl err, w2) \<Rightarrow> ((Some err, onFailure, []), w2)
                   | (Inr unwind, w2) \<Rightarrow>
                       (case getPortIDByIP (TargetNode route) nexthop w2 of
                          (Inl err, w3) \<Rightarrow> ((Some err, onFailure, [unwind]), w3)
                        | (Inr portID, w3) \<Rightarrow>
                            (case getPortByID portID w3 of
                               (Inl err, w4) \<Rightarrow> ((Some err, onFailure, [unwind]), w4)
                             | (Inr port, w4) \<Rightarrow>
                                 (if pair_exists (DestinationCIDR route)
                                       (elems (pair_mem w4) (p_AllowedAddressPairs port))
                                  then ((None, disarm onFailure, [unwind]), w4)
                                  else
                                    (case append1 (p_AllowedAddressPairs port)
                                            \<lparr>IPAddress = DestinationCIDR route, MACAddress = []\<rparr>
                                            (spare w4 (s_len (p_AllowedAddressPairs port) + 1))
                                            (pair_mem w4) of
                                       (newPairs, pmem) \<Rightarrow>
                                         (case updateAllowedAddressPairs port newPairs
                                                 (w4\<lparr>pair_mem := pmem\<rparr>) of
                                            (Inl err, w5) \<Rightarrow> ((Some err, onFailure, [unwind]), w5)
                                          | (Inr unwind2, w5) \<Rightarrow>
                                              ((None, disarm onFailure, [unwind2, unwind]), w5))))))))))"

text \<open>Lines 150-175, then the rest.\<close>

definition CreateRoute_body :: "netlib \<Rightarrow> Routes \<Rightarrow> Route \<Rightarrow> world \<Rightarrow> frame \<times> world" where
  "CreateRoute_body lib r route w =
     (let onFailure = newCaller;
          IP = ParseCIDR lib (DestinationCIDR route);
          CIDRisV4 = IsIPv4 lib (IP_String IP);
          CIDRisV6 = IsIPv6 lib (IP_String IP)
      in case getAddressesByName (TargetNode route) w of
           (Inl err, w1) \<Rightarrow> ((Some err, onFailure, []), w1)
         | (Inr addrs, w1) \<Rightarrow>
             (if length addrs = 0 then ((Some ErrNoAddressFound, onFailure, []), w1)
              else
                (let nexthop = nexthop_loop lib CIDRisV4 CIDRisV6 addrs [] in
                 if nexthop = [] then ((Some ErrNoAddressFound, onFailure, []), w1)
                 else CreateRoute_tail r route nexthop onFailure w1)))"

definition CreateRoute :: "netlib \<Rightarrow> Routes \<Rightarrow> Route \<Rightarrow> world \<Rightarrow> error option \<times> world" where
  "CreateRoute lib r route w = finish (CreateRoute_body lib r route w)"

subsection \<open>DeleteRoute\<close>

text \<open>Lines 271-333, from the fetch of the router on.\<close>

definition DeleteRoute_tail :: "Routes \<Rightarrow> Route \<Rightarrow> string \<Rightarrow> caller \<Rightarrow> world \<Rightarrow> frame \<times> world" where
  "DeleteRoute_tail r route nexthop onFailure w =
     (case routers_Get (RouterID (opts r)) w of
        (Inl err, w1) \<Rightarrow> ((Some err, onFailure, []), w1)
      | (Inr router, w1) \<Rightarrow>
          (let routes = r_Routes router in
           case route_index (DestinationCIDR route) nexthop (elems (route_mem w1) routes) 0 of
             None \<Rightarrow> ((None, onFailure, []), w1)
           | Some index \<Rightarrow>
               (case delete_at routes index (route_mem w1) of
                  None \<Rightarrow> ((Some (Panic ''index out of range''), onFailure, []), w1)
                | Some (routes1, mem) \<Rightarrow>
                    (case updateRoutes router routes1 (w1\<lparr>route_mem := mem\<rparr>) of
                       (Inl err, w2) \<Rightarrow> ((Some err, onFailure, []), w2)
                     | (Inr unwind, w2) \<Rightarrow>
                         (case getPortIDByIP (TargetNode route) nexthop w2 of
                            (Inl err, w3) \<Rightarrow> ((Some err, onFailure, [unwind]), w3)
                          | (Inr portID, w3) \<Rightarrow>
                              (case getPortByID portID w3 of
                                 (Inl err, w4) \<Rightarrow> ((Some err, onFailure, [unwind]), w4)
                               | (Inr port, w4) \<Rightarrow>
                                   (let addrPairs = p_AllowedAddressPairs port in
                                    case pair_index (DestinationCIDR route)
                                           (elems (pair_mem w4) addrPairs) 0 of
                                      None \<Rightarrow> ((None, disarm onFailure, [unwind]), w4)
                                    | Some index2 \<Rightarrow>
                                        (case delete_at addrPairs index2 (pair_mem w4) of
                                           None \<Rightarrow>
                                             ((Some (Panic ''index out of range''), onFailure, [unwind]), w4)
                                         | Some (addrPairs1, pmem) \<Rightarrow>
                                             (case updateAllowedAddressPairs port addrPairs1
                                                     (w4\<lparr>pair_mem := pmem\<rparr>) of
                                                (Inl err, w5) \<Rightarrow> ((Some err, onFailure, [unwind]), w5)
                                              | (Inr unwind2, w5) \<Rightarrow>
                                                  ((None, disarm onFailure, [unwind2, unwind]), w5))))))))))"

text \<open>Lines 243-269, then the rest.\<close>

definition DeleteRoute_body :: "netlib \<Rightarrow> Routes \<Rightarrow> Route \<Rightarrow> world \<Rightarrow> frame \<times> world" where
  "DeleteRoute_body lib r route w =
     (let onFailure = newCaller;
          IP = ParseCIDR lib (DestinationCIDR route);
          CIDRisV4 = IsIPv4 lib (IP_String IP);
          CIDRisV6 = IsIPv6 lib (IP_String IP)
      in case getAddressesByName (TargetNode route) w of
           (Inl err, w1) \<Rightarrow> ((Some err, onFailure, []), w1)
         | (Inr addrs, w1) \<Rightarrow>
             (if length addrs = 0 then ((Some ErrNoAddressFound, onFailure, []), w1)
              else
                (let nexthop = nexthop_loop lib CIDRisV4 CIDRisV6 addrs [] in
                 if nexthop = [] then ((Some ErrNoAddressFound, onFailure, []), w1)
                 else DeleteRoute_tail r route nexthop onFailure w1)))"

definition DeleteRoute :: "netlib \<Rightarrow> Routes \<Rightarrow> Route \<Rightarrow> world \<Rightarrow> error option \<times> world" where
  "DeleteRoute lib r route w = finish (DeleteRoute_body lib r route w)"

subsection \<open>What a run does to the remote state\<close>

text \<open>
  The functions of this section are not part of the program. They describe, as pure
  functions of the world a call starts in, the value a call returns, the remote calls it
  makes and the remote state it leaves. The lemmas \<open>CreateRoute_refines\<close> and
  \<open>DeleteRoute_refines\<close> below prove that the code behaves so; the theorems about the code
  are then read off these descriptions.
\<close>

text \<open>The next hop the loop of lines 165-172 yields for an address list.\<close>

definition chosen_nexthop :: "netlib \<Rightarrow> Route \<Rightarrow> NodeAddress list \<Rightarrow> string" where
  "chosen_nexthop lib route addrs =
     nexthop_loop lib (IsIPv4 lib (IP_String (ParseCIDR lib (DestinationCIDR route))))
       (IsIPv6 lib (IP_String (ParseCIDR lib (DestinationCIDR route)))) addrs []"

text \<open>An address the loop accepts: internal, and of the family of the route's CIDR.\<close>

definition usable :: "netlib \<Rightarrow> Route \<Rightarrow> NodeAddress \<Rightarrow> bool" where
  "usable lib route addr =
     (na_Type addr = NodeInternalIP \<and>
      ((IsIPv4 lib (na_Address addr) \<and> IsIPv4 lib (IP_String (ParseCIDR lib (DestinationCIDR route)))) \<or>
       (IsIPv6 lib (na_Address addr) \<and> IsIPv6 lib (IP_String (ParseCIDR lib (DestinationCIDR route))))))"

text \<open>The number of route entries for a (CIDR, next hop) pair, and of filter entries for a CIDR.\<close>

definition route_count :: "string \<Rightarrow> string \<Rightarrow> RouterRoute list \<Rightarrow> nat" where
  "route_count cidr nh tbl =
     length (filter (\<lambda>item. rt_DestinationCIDR item = cidr \<and> rt_NextHop item = nh) tbl)"

definition pair_count :: "string \<Rightarrow> AddressPair list \<Rightarrow> nat" where
  "pair_count cidr ps = length (filter (\<lambda>item. IPAddress item = cidr) ps)"

text \<open>
  The next hop a call resolves for the route's node, and the port that owns an address
  of a node, as the remote state determines them.
\<close>

definition node_nexthop :: "netlib \<Rightarrow> Route \<Rightarrow> world \<Rightarrow> string option" where
  "node_nexthop lib route w =
     (case find (\<lambda>s. srv_Name s = TargetNode route) (servers w) of
        None \<Rightarrow> None
      | Some srv \<Rightarrow>
          (case srv_Addresses srv of
             Inl _ \<Rightarrow> None
           | Inr addrs \<Rightarrow>
               if chosen_nexthop lib route addrs = [] then None
               else Some (chosen_nexthop lib route addrs)))"

definition owning_port :: "string \<Rightarrow> string \<Rightarrow> world \<Rightarrow> string option" where
  "owning_port node nh w =
     (case find (\<lambda>s. srv_Name s = node) (servers w) of
        None \<Rightarrow> None
      | Some srv \<Rightarrow>
          (case interfaces w (srv_ID srv) of
             None \<Rightarrow> None
           | Some intfs \<Rightarrow> (case port_of_ip nh intfs of Inl _ \<Rightarrow> None | Inr pid \<Rightarrow> Some pid)))"

text \<open>
  The outcome of a run: the value returned, the remote calls made, the route tables and
  address filters left behind, and the warnings logged.
\<close>

record run_outcome =
  o_ret :: "error option"
  o_events :: "event list"
  o_routers :: "string \<Rightarrow> RouterRoute list option"
  o_ports :: "string \<Rightarrow> AddressPair list option"
  o_warnings :: "(string \<times> error) list"

text \<open>
  A run up to its return statement: \<open>a_undo\<close> holds the table the deferred unwinder will
  write when the run fails after its route-table write.
\<close>

record attempt =
  a_ret :: "error option"
  a_events :: "event list"
  a_routers :: "string \<Rightarrow> RouterRoute list option"
  a_ports :: "string \<Rightarrow> AddressPair list option"
  a_undo :: "RouterRoute list option"

text \<open>The deferred unwinder, run when \<open>a_undo\<close> is set: one more remote call.\<close>

definition settle :: "world \<Rightarrow> string \<Rightarrow> attempt \<Rightarrow> run_outcome" where
  "settle w rid a =
     (case a_undo a of
        None \<Rightarrow> \<lparr>o_ret = a_ret a, o_events = a_events a, o_routers = a_routers a,
                  o_ports = a_ports a, o_warnings = []\<rparr>
      | Some payload \<Rightarrow>
          (case faults w (length (trace w) + length (a_events a)) of
             None \<Rightarrow> \<lparr>o_ret = a_ret a, o_events = a_events a @ [(RouterUpdate rid payload, None)],
                       o_routers = (a_routers a)(rid \<mapsto> payload), o_ports = a_ports a, o_warnings = []\<rparr>
           | Some e \<Rightarrow> \<lparr>o_ret = a_ret a, o_events = a_events a @ [(RouterUpdate rid payload, Some e)],
                       o_routers = a_routers a, o_ports = a_ports a,
                       o_warnings = [(''Unable to reset routes during error unwind: '', e)]\<rparr>))"

text \<open>
  Lines 204-212 and 300-308: find the instance, its interfaces, the port of the address,
  and fetch the port; \<open>k\<close> is the number of remote calls made before.
\<close>

definition locate_port :: "string \<Rightarrow> string \<Rightarrow> world \<Rightarrow> nat \<Rightarrow> (error + string \<times> AddressPair list) \<times> event list" where
  "locate_port node nh w k =
     (case faults w k of
        Some e \<Rightarrow> (Inl e, [(ServerGet node, Some e)])
      | None \<Rightarrow>
     (case find (\<lambda>s. srv_Name s = node) (servers w) of
        None \<Rightarrow> (Inl ErrNotFound, [(ServerGet node, Some ErrNotFound)])
      | Some srv \<Rightarrow>
     (case faults w (Suc k) of
        Some e \<Rightarrow> (Inl e, [(ServerGet node, None), (InterfacesGet (srv_ID srv), Some e)])
      | None \<Rightarrow>
     (case interfaces w (srv_ID srv) of
        None \<Rightarrow> (Inl ErrNotFound, [(ServerGet node, None), (InterfacesGet (srv_ID srv), Some ErrNotFound)])
      | Some intfs \<Rightarrow>
     (case port_of_ip nh intfs of
        Inl err \<Rightarrow> (Inl err, [(ServerGet node, None), (InterfacesGet (srv_ID srv), None)])
      | Inr pid \<Rightarrow>
     (case faults w (Suc (Suc k)) of
        Some e \<Rightarrow> (Inl e, [(ServerGet node, None), (InterfacesGet (srv_ID srv), None), (PortGet pid, Some e)])
      | None \<Rightarrow>
     (case ports w pid of
        None \<Rightarrow> (Inl ErrNotFound, [(ServerGet node, None), (InterfacesGet (srv_ID srv), None), (PortGet pid, Some ErrNotFound)])
      | Some ps \<Rightarrow> (Inr (pid, ps), [(ServerGet node, None), (InterfacesGet (srv_ID srv), None), (PortGet pid, None)]))))))))"

text \<open>Lines 179-236 of CreateRoute as an attempt.\<close>

definition create_attempt :: "Routes \<Rightarrow> Route \<Rightarrow> string \<Rightarrow> world \<Rightarrow> attempt" where
  "create_attempt r route nh w =
     (let rid = RouterID (opts r); t = length (trace w); cidr = DestinationCIDR route;
          new = \<lparr>rt_NextHop = nh, rt_DestinationCIDR = cidr\<rparr>;
          newPair = \<lparr>IPAddress = cidr, MACAddress = []\<rparr>
      in case faults w t of
           Some e \<Rightarrow> \<lparr>a_ret = Some e, a_events = [(RouterGet rid, Some e)],
                       a_routers = routers w, a_ports = ports w, a_undo = None\<rparr>
         | None \<Rightarrow>
        (case routers w rid of
           None \<Rightarrow> \<lparr>a_ret = Some ErrNotFound, a_events = [(RouterGet rid, Some ErrNotFound)],
                     a_routers = routers w, a_ports = ports w, a_undo = None\<rparr>
         | Some tbl \<Rightarrow>
        (if route_exists cidr nh tbl
         then \<lparr>a_ret = None, a_events = [(RouterGet rid, None)],
               a_routers = routers w, a_ports = ports w, a_undo = None\<rparr>
         else
        (case faults w (Suc t) of
           Some e \<Rightarrow> \<lparr>a_ret = Some e,
                       a_events = [(RouterGet rid, None), (RouterUpdate rid (tbl @ [new]), Some e)],
                       a_routers = routers w, a_ports = ports w, a_undo = None\<rparr>
         | None \<Rightarrow>
        (case locate_port (TargetNode route) nh w (Suc (Suc t)) of
           (Inl err, evs) \<Rightarrow>
             \<lparr>a_ret = Some err,
              a_events = [(RouterGet rid, None), (RouterUpdate rid (tbl @ [new]), None)] @ evs,
              a_routers = (routers w)(rid \<mapsto> tbl @ [new]), a_ports = ports w, a_undo = Some tbl\<rparr>
         | (Inr (pid, ps), evs) \<Rightarrow>
        (if pair_exists cidr ps
         then \<lparr>a_ret = None,
               a_events = [(RouterGet rid, None), (RouterUpdate rid (tbl @ [new]), None)] @ evs,
               a_routers = (routers w)(rid \<mapsto> tbl @ [new]), a_ports = ports w, a_undo = None\<rparr>
         else
        (case faults w (t + 5) of
           Some e \<Rightarrow>
             \<lparr>a_ret = Some e,
              a_events = [(RouterGet rid, None), (RouterUpdate rid (tbl @ [new]), None)] @ evs @
                         [(PortUpdate pid (ps @ [newPair]), Some e)],
              a_routers = (routers w)(rid \<mapsto> tbl @ [new]), a_ports = ports w, a_undo = Some tbl\<rparr>
         | None \<Rightarrow>
             \<lparr>a_ret = None,
              a_events = [(RouterGet rid, None), (RouterUpdate rid (tbl @ [new]), None)] @ evs @
                         [(PortUpdate pid (ps @ [newPair]), None)],
              a_routers = (routers w)(rid \<mapsto> tbl @ [new]),
              a_ports = (ports w)(pid \<mapsto> ps @ [newPair]), a_undo = None\<rparr>)))))))"

text \<open>Lines 271-333 of DeleteRoute as an attempt.\<close>

definition delete_attempt :: "Routes \<Rightarrow> Route \<Rightarrow> string \<Rightarrow> world \<Rightarrow> attempt" where
  "delete_attempt r route nh w =
     (let rid = RouterID (opts r); t = length (trace w); cidr = DestinationCIDR route
      in case faults w t of
           Some e \<Rightarrow> \<lparr>a_ret = Some e, a_events = [(RouterGet rid, Some e)],
                       a_routers = routers w, a_ports = ports w, a_undo = None\<rparr>
         | None \<Rightarrow>
        (case routers w rid of
           None \<Rightarrow> \<lparr>a_ret = Some ErrNotFound, a_events = [(RouterGet rid, Some ErrNotFound)],
                     a_routers = routers w, a_ports = ports w, a_undo = None\<rparr>
         | Some tbl \<Rightarrow>
        (case route_index cidr nh tbl 0 of
           None \<Rightarrow> \<lparr>a_ret = None, a_events = [(RouterGet rid, None)],
                     a_routers = routers w, a_ports = ports w, a_undo = None\<rparr>
         | Some i \<Rightarrow>
        (let moved = tbl[i := tbl ! (length tbl - 1)]; kept = take (length tbl - 1) moved
         in case faults w (Suc t) of
           Some e \<Rightarrow> \<lparr>a_ret = Some e,
                       a_events = [(RouterGet rid, None), (RouterUpdate rid kept, Some e)],
                       a_routers = routers w, a_ports = ports w, a_undo = None\<rparr>
         | None \<Rightarrow>
        (case locate_port (TargetNode route) nh w (Suc (Suc t)) of
           (Inl err, evs) \<Rightarrow>
             \<lparr>a_ret = Some err,
              a_events = [(RouterGet rid, None), (RouterUpdate rid kept, None)] @ evs,
              a_routers = (routers w)(rid \<mapsto> kept), a_ports = ports w, a_undo = Some moved\<rparr>
         | (Inr (pid, ps), evs) \<Rightarrow>
        (case pair_index cidr ps 0 of
           None \<Rightarrow>
             \<lparr>a_ret = None,
              a_events = [(RouterGet rid, None), (RouterUpdate rid kept, None)] @ evs,
              a_routers = (routers w)(rid \<mapsto> kept), a_ports = ports w, a_undo = None\<rparr>
         | Some j \<Rightarrow>
        (let pkept = take (length ps - 1) (ps[j := ps ! (length ps - 1)])
         in case faults w (t + 5) of
           Some e \<Rightarrow>
             \<lparr>a_ret = Some e,
              a_events = [(RouterGet rid, None), (RouterUpdate rid kept, None)] @ evs @
                         [(PortUpdate pid pkept, Some e)],
              a_routers = (routers w)(rid \<mapsto> kept), a_ports = ports w, a_undo = Some moved\<rparr>
         | None \<Rightarrow>
             \<lparr>a_ret = None,
              a_events = [(RouterGet rid, None), (RouterUpdate rid kept, None)] @ evs @
                         [(PortUpdate pid pkept, None)],
              a_routers = (routers w)(rid \<mapsto> kept),
              a_ports = (ports w)(pid \<mapsto> pkept), a_undo = None\<rparr>)))))))"

text \<open>Lines 152-175 and 245-269: the resolution of the next hop.\<close>

definition resolve :: "netlib \<Rightarrow> Route \<Rightarrow> world \<Rightarrow> (error + string) \<times> event list" where
  "resolve lib route w =
     (let node = TargetNode route
      in case faults w (length (trace w)) of
           Some e \<Rightarrow> (Inl e, [(ServerGet node, Some e)])
         | None \<Rightarrow>
        (case find (\<lambda>s. srv_Name s = node) (servers w) of
           None \<Rightarrow> (Inl ErrNotFound, [(ServerGet node, Some ErrNotFound)])
         | Some srv \<Rightarrow>
        (case srv_Addresses srv of
           Inl err \<Rightarrow> (Inl err, [(ServerGet node, None)])
         | Inr addrs \<Rightarrow>
             if addrs = [] \<or> chosen_nexthop lib route addrs = []
             then (Inl ErrNoAddressFound, [(ServerGet node, None)])
             else (Inr (chosen_nexthop lib route addrs), [(ServerGet node, None)]))))"

definition whole_run ::
  "(Routes \<Rightarrow> Route \<Rightarrow> string \<Rightarrow> world \<Rightarrow> attempt) \<Rightarrow> netlib \<Rightarrow> Routes \<Rightarrow> Route \<Rightarrow> world \<Rightarrow> run_outcome" where
  "whole_run attempt_of lib r route w =
     (case resolve lib route w of
        (Inl err, evs) \<Rightarrow>
          \<lparr>o_ret = Some err, o_events = evs, o_routers = routers w, o_ports = ports w,
           o_warnings = []\<rparr>
      | (Inr nh, evs) \<Rightarrow>
          (let w1 = w\<lparr>trace := trace w @ evs\<rparr>;
               out = settle w1 (RouterID (opts r)) (attempt_of r route nh w1)
           in out\<lparr>o_events := evs @ o_events out\<rparr>))"

definition CreateRoute_outcome :: "netlib \<Rightarrow> Routes \<Rightarrow> Route \<Rightarrow> world \<Rightarrow> run_outcome" where
  "CreateRoute_outcome = whole_run create_attempt"

definition DeleteRoute_outcome :: "netlib \<Rightarrow> Routes \<Rightarrow> Route \<Rightarrow> world \<Rightarrow> run_outcome" where
  "DeleteRoute_outcome = whole_run delete_attempt"

text \<open>A result and final world agree with an outcome; the process's own memory is not observed.\<close>

definition observes :: "world \<Rightarrow> error option \<times> world \<Rightarrow> run_outcome \<Rightarrow> bool" where
  "observes w rw out =
     (fst rw = o_ret out \<and> trace (snd rw) = trace w @ o_events out \<and>
      routers (snd rw) = o_routers out \<and> ports (snd rw) = o_ports out \<and>
      warnings (snd rw) = warnings w @ o_warnings out \<and>
      servers (snd rw) = servers w \<and> interfaces (snd rw) = interfaces w \<and>
      faults (snd rw) = faults w \<and> spare (snd rw) = spare w)"

text \<open>The two lookups of lines 204-212 as one step.\<close>

definition lookup_port :: "string \<Rightarrow> string \<Rightarrow> world \<Rightarrow> (error + Port) \<times> world" where
  "lookup_port targetNode nexthop w =
     (case getPortIDByIP targetNode nexthop w of
        (Inl err, w1) \<Rightarrow> (Inl err, w1)
      | (Inr portID, w1) \<Rightarrow> getPortByID portID w1)"


subsection \<open>A small cloud\<close>

text \<open>
  One node \<open>n1\<close> with the internal address 10.0.0.5 on port \<open>p1\<close>, one router \<open>r1\<close>, and
  address checks that tell the families apart by their separator. Used to instantiate the
  theorems below.
\<close>

definition ex_lib :: netlib where
  "ex_lib = \<lparr>ParseCIDR = (\<lambda>s. if CHR ''/'' \<in> set s then Some (takeWhile (\<lambda>c. c \<noteq> CHR ''/'') s) else None),
             IsIPv4 = (\<lambda>s. CHR ''.'' \<in> set s),
             IsIPv6 = (\<lambda>s. CHR '':'' \<in> set s)\<rparr>"

definition ex_engine :: Routes where
  "ex_engine = \<lparr>compute = ServiceClient ''compute'', network = ServiceClient ''network'',
                opts = \<lparr>RouterID = ''r1''\<rparr>\<rparr>"

definition ex_route :: Route where
  "ex_route = \<lparr>Name = ''10.1.0.0/24'', TargetNode = ''n1'', DestinationCIDR = ''10.1.0.0/24'',
               Blackhole = False\<rparr>"

definition ex_world :: world where
  "ex_world =
     \<lparr>servers = [\<lparr>srv_ID = ''s1'', srv_Name = ''n1'',
                  srv_Addresses = Inr [\<lparr>na_Type = NodeInternalIP, na_Address = ''10.0.0.5''\<rparr>]\<rparr>],
      interfaces = [''s1'' \<mapsto> [\<lparr>PortID = ''p1'',
                                 FixedIPs = [\<lparr>fip_SubnetID = ''sub1'', fip_IPAddress = ''10.0.0.5''\<rparr>]\<rparr>]],
      routers = [''r1'' \<mapsto> []],
      ports = [''p1'' \<mapsto> []],
      faults = (\<lambda>n. None),
      trace = [],
      warnings = [],
      route_mem = \<lparr>cells = (\<lambda>a. []), fresh = 0\<rparr>,
      pair_mem = \<lparr>cells = (\<lambda>a. []), fresh = 0\<rparr>,
      spare = (\<lambda>n. 0)\<rparr>"

text \<open>The addresses of an instance, and of all instances, as \<^verbatim>\<open>ListRoutes\<close> enumerates them.\<close>

definition addresses_of :: "Server \<Rightarrow> string set" where
  "addresses_of srv = (case srv_Addresses srv of Inl _ \<Rightarrow> {} | Inr addrs \<Rightarrow> set (map na_Address addrs))"

definition instance_addresses :: "world \<Rightarrow> string set" where
  "instance_addresses w = (\<Union>srv \<in> set (servers w). addresses_of srv)"

text \<open>The small cloud with two routes on the router, the second to an unknown address.\<close>

definition ex_listed :: world where
  "ex_listed = ex_world\<lparr>routers :=
     [''r1'' \<mapsto> [\<lparr>rt_NextHop = ''10.0.0.5'', rt_DestinationCIDR = ''10.1.0.0/24''\<rparr>,
                 \<lparr>rt_NextHop = ''10.0.0.99'', rt_DestinationCIDR = ''10.9.0.0/24''\<rparr>]]\<rparr>"

text \<open>The small cloud where the seventh and the eighth remote call fail.\<close>

definition ex_faulty :: world where
  "ex_faulty = ex_world\<lparr>faults := (\<lambda>n. None)(6 := Some (ErrRemote ''filter write refused''),
                                               7 := Some (ErrRemote ''router write refused''))\<rparr>"

text \<open>The small cloud where only the seventh remote call fails.\<close>

definition ex_filter_fails :: world where
  "ex_filter_fails = ex_world\<lparr>faults := (\<lambda>n. None)(6 := Some (ErrRemote ''filter write refused''))\<rparr>"

text \<open>
  The small cloud with two routes, the first through \<open>n1\<close>, and the matching filter on
  \<open>p1\<close>; in \<open>ex_two_routes_filter_fails\<close> the seventh remote call fails.
\<close>

definition ex_two_routes :: world where
  "ex_two_routes = ex_world\<lparr>
     routers := [''r1'' \<mapsto> [\<lparr>rt_NextHop = ''10.0.0.5'', rt_DestinationCIDR = ''10.1.0.0/24''\<rparr>,
                            \<lparr>rt_NextHop = ''10.0.0.9'', rt_DestinationCIDR = ''10.2.0.0/24''\<rparr>]],
     ports := [''p1'' \<mapsto> [\<lparr>IPAddress = ''10.1.0.0/24'', MACAddress = []\<rparr>]]\<rparr>"

definition ex_two_routes_filter_fails :: world where
  "ex_two_routes_filter_fails =
     ex_two_routes\<lparr>faults := (\<lambda>n. None)(6 := Some (ErrRemote ''filter write refused''))\<rparr>"

text \<open>The small cloud where the route is on the router but its filter is missing.\<close>

definition ex_route_without_filter :: world where
  "ex_route_without_filter = ex_world\<lparr>
     routers := [''r1'' \<mapsto> [\<lparr>rt_NextHop = ''10.0.0.5'', rt_DestinationCIDR = ''10.1.0.0/24''\<rparr>]]\<rparr>"

text \<open>The cloud with two routes where the seventh and the eighth remote call fail.\<close>

definition ex_two_routes_faulty :: world where
  "ex_two_routes_faulty =
     ex_two_routes\<lparr>faults := (\<lambda>n. None)(6 := Some (ErrRemote ''filter write refused''),
                                          7 := Some (ErrRemote ''router write refused''))\<rparr>"

section \<open>Lemmas\<close>

subsection \<open>The code meets its description\<close>

lemma remote_call_cases:
  "remote_call req answer w =
     (case faults w (length (trace w)) of
        Some e \<Rightarrow> (Inl e, w\<lparr>trace := trace w @ [(req, Some e)]\<rparr>)
      | None \<Rightarrow> (answer w, w\<lparr>trace := trace w @ [(req, outcome (answer w))]\<rparr>))"
  by (simp add: remote_call_def outcome_def Let_def split: option.splits)

lemma lookup_port_locate:
  "lookup_port node nh w =
     (case locate_port node nh w (length (trace w)) of
        (Inl err, evs) \<Rightarrow> (Inl err, w\<lparr>trace := trace w @ evs\<rparr>)
      | (Inr (pid, ps), evs) \<Rightarrow>
          (Inr \<lparr>p_ID = pid,
                p_AllowedAddressPairs =
                  \<lparr>s_ptr = fresh (pair_mem w), s_len = length ps,
                   s_cap = length ps + spare w (length ps)\<rparr>\<rparr>,
           w\<lparr>trace := trace w @ evs,
             pair_mem := (pair_mem w)\<lparr>cells := (cells (pair_mem w))
                            (fresh (pair_mem w) := ps @ replicate (spare w (length ps)) zeroPair),
                          fresh := Suc (fresh (pair_mem w))\<rparr>\<rparr>))"
  unfolding lookup_port_def locate_port_def getPortIDByIP_def getPortByID_def getServerByName_def
    getAttachedInterfacesByID_def ports_Get_def
  by (simp add: remote_call_cases outcome_def make_slice_def split: option.split sum.split)

lemma locate_port_frame [simp]:
  "locate_port node nh (w\<lparr>trace := tr\<rparr>) k = locate_port node nh w k"
  "locate_port node nh (w\<lparr>route_mem := rm\<rparr>) k = locate_port node nh w k"
  "locate_port node nh (w\<lparr>pair_mem := pm\<rparr>) k = locate_port node nh w k"
  "locate_port node nh (w\<lparr>routers := rs\<rparr>) k = locate_port node nh w k"
  "locate_port node nh (w\<lparr>warnings := ws\<rparr>) k = locate_port node nh w k"
  by (simp_all add: locate_port_def cong: option.case_cong sum.case_cong)

lemma locate_port_length:
  "locate_port node nh w k = (Inr pp, evs) \<Longrightarrow> length evs = 3"
  by (auto simp: locate_port_def split: option.splits sum.splits)

lemma locate_port_Inr:
  "locate_port node nh w k = (Inr (pid, ps), evs) \<Longrightarrow>
     ports w pid = Some ps \<and> faults w k = None \<and> faults w (Suc k) = None \<and>
     faults w (Suc (Suc k)) = None \<and>
     (\<exists>srv intfs. find (\<lambda>s. srv_Name s = node) (servers w) = Some srv \<and>
        interfaces w (srv_ID srv) = Some intfs \<and> port_of_ip nh intfs = Inr pid \<and>
        evs = [(ServerGet node, None), (InterfacesGet (srv_ID srv), None), (PortGet pid, None)])"
  by (auto simp: locate_port_def split: option.splits sum.splits)

lemma CreateRoute_tail_lookup:
  "CreateRoute_tail r route nexthop onFailure w =
     (case routers_Get (RouterID (opts r)) w of
        (Inl err, w1) \<Rightarrow> ((Some err, onFailure, []), w1)
      | (Inr router, w1) \<Rightarrow>
          (let routes = r_Routes router in
           if route_exists (DestinationCIDR route) nexthop (elems (route_mem w1) routes)
           then ((None, onFailure, []), w1)
           else
             (case append1 routes \<lparr>rt_NextHop = nexthop, rt_DestinationCIDR = DestinationCIDR route\<rparr>
                     (spare w1 (s_len routes + 1)) (route_mem w1) of
                (routes1, mem) \<Rightarrow>
                  (case updateRoutes router routes1 (w1\<lparr>route_mem := mem\<rparr>) of
                     (Inl err, w2) \<Rightarrow> ((Some err, onFailure, []), w2)
                   | (Inr unwind, w2) \<Rightarrow>
                       (case lookup_port (TargetNode route) nexthop w2 of
                          (Inl err, w4) \<Rightarrow> ((Some err, onFailure, [unwind]), w4)
                        | (Inr port, w4) \<Rightarrow>
                                 (if pair_exists (DestinationCIDR route)
                                       (elems (pair_mem w4) (p_AllowedAddressPairs port))
                                  then ((None, disarm onFailure, [unwind]), w4)
                                  else
                                    (case append1 (p_AllowedAddressPairs port)
                                            \<lparr>IPAddress = DestinationCIDR route, MACAddress = []\<rparr>
                                            (spare w4 (s_len (p_AllowedAddressPairs port) + 1))
                                            (pair_mem w4) of
                                       (newPairs, pmem) \<Rightarrow>
                                         (case updateAllowedAddressPairs port newPairs
                                                 (w4\<lparr>pair_mem := pmem\<rparr>) of
                                            (Inl err, w5) \<Rightarrow> ((Some err, onFailure, [unwind]), w5)
                                          | (Inr unwind2, w5) \<Rightarrow>
                                              ((None, disarm onFailure, [unwind2, unwind]), w5)))))))))"
  unfolding CreateRoute_tail_def lookup_port_def
  by (simp add: Let_def split: prod.split sum.split)

lemma take_append_update_end:
  "take (Suc (length xs)) ((xs @ y # ys)[length xs := v]) = xs @ [v]"
  by (simp add: list_update_append)

lemma take_append_update_keep:
  "take (length xs) ((xs @ ys)[length xs := v]) = xs"
  by (simp add: list_update_append)

lemmas run_defs = routers_Get_def routers_Update_def ports_Update_def remote_call_cases outcome_def
  make_slice_def append1_def delete_at_def elems_def
  updateRoutes_def updateAllowedAddressPairs_def glog_Warning_def
  newCaller_def disarm_def call_def run_deferred_def finish_def
  settle_def observes_def Let_def lookup_port_locate

lemma CreateRoute_tail_refines:
  "observes w (finish (CreateRoute_tail r route nh newCaller w))
     (settle w (RouterID (opts r)) (create_attempt r route nh w))"
proof (cases "faults w (length (trace w))")
  case (Some e)
  then show ?thesis
    by (simp add: CreateRoute_tail_lookup create_attempt_def run_defs)
next
  case f0: None
  show ?thesis
  proof (cases "routers w (RouterID (opts r))")
    case None
    with f0 show ?thesis
      by (simp add: CreateRoute_tail_lookup create_attempt_def run_defs)
  next
    case tbl: (Some tbl)
    show ?thesis
    proof (cases "route_exists (DestinationCIDR route) nh tbl")
      case True
      with f0 tbl show ?thesis
        by (simp add: CreateRoute_tail_lookup create_attempt_def run_defs)
    next
      case nex: False
      show ?thesis
      proof (cases "faults w (Suc (length (trace w)))")
        case (Some e)
        with f0 tbl nex show ?thesis
          by (cases "spare w (length tbl)")
             (simp_all add: CreateRoute_tail_lookup create_attempt_def run_defs list_update_append)
      next
        case f1: None
        show ?thesis
        proof (cases "locate_port (TargetNode route) nh w (Suc (Suc (length (trace w))))")
          case (Pair res evs)
          show ?thesis
          proof (cases res)
            case (Inl err)
            with f0 tbl nex f1 Pair show ?thesis
              by (cases "spare w (length tbl)")
                 (simp_all add: CreateRoute_tail_lookup create_attempt_def run_defs list_update_append
                    split: option.split)
          next
            case (Inr pp)
            obtain pid ps where pp: "pp = (pid, ps)" by (cases pp)
            have len: "length evs = 3"
              using Pair Inr by (simp add: locate_port_length)
            have port: "ports w pid = Some ps"
              using Pair Inr pp locate_port_Inr by blast
            show ?thesis
            proof (cases "pair_exists (DestinationCIDR route) ps")
              case True
              with f0 tbl nex f1 Pair Inr pp len show ?thesis
                by (cases "spare w (length tbl)")
                   (simp_all add: CreateRoute_tail_lookup create_attempt_def run_defs list_update_append)
            next
              case npx: False
              show ?thesis
              proof (cases "faults w (length (trace w) + 5)")
                case None
                with f0 tbl nex f1 Pair Inr pp len npx port show ?thesis
                  by (cases "spare w (length tbl)"; cases "spare w (length ps)")
                     (simp_all add: CreateRoute_tail_lookup create_attempt_def run_defs list_update_append
                        eval_nat_numeral)
              next
                case (Some e)
                with f0 tbl nex f1 Pair Inr pp len npx port show ?thesis
                  by (cases "spare w (length tbl)"; cases "spare w (length ps)")
                     (simp_all add: CreateRoute_tail_lookup create_attempt_def run_defs list_update_append
                        eval_nat_numeral split: option.split)
              qed
            qed
          qed
        qed
      qed
    qed
  qed
qed


lemma route_index_Some:
  "route_index cidr nh xs k = Some i \<Longrightarrow>
     k \<le> i \<and> i - k < length xs \<and>
     rt_DestinationCIDR (xs ! (i - k)) = cidr \<and> rt_NextHop (xs ! (i - k)) = nh \<and>
     (\<forall>j < i - k. \<not> (rt_DestinationCIDR (xs ! j) = cidr \<and> rt_NextHop (xs ! j) = nh))"
proof (induction xs arbitrary: k)
  case Nil
  then show ?case by simp
next
  case (Cons x xs)
  show ?case
  proof (cases "rt_DestinationCIDR x = cidr \<and> rt_NextHop x = nh")
    case True
    with Cons.prems show ?thesis by simp
  next
    case False
    with Cons.prems have rec: "route_index cidr nh xs (Suc k) = Some i" by simp
    from Cons.IH[OF rec] have ih: "Suc k \<le> i" "i - Suc k < length xs"
      "rt_DestinationCIDR (xs ! (i - Suc k)) = cidr" "rt_NextHop (xs ! (i - Suc k)) = nh"
      "\<forall>j < i - Suc k. \<not> (rt_DestinationCIDR (xs ! j) = cidr \<and> rt_NextHop (xs ! j) = nh)"
      by simp_all
    from ih(1) obtain d where d: "i - k = Suc d" "i - Suc k = d"
      by (cases "i - k") auto
    show ?thesis
      using ih False d by (auto simp: nth_Cons less_Suc_eq_0_disj)
  qed
qed

lemma pair_index_Some:
  "pair_index cidr xs k = Some i \<Longrightarrow>
     k \<le> i \<and> i - k < length xs \<and> IPAddress (xs ! (i - k)) = cidr \<and>
     (\<forall>j < i - k. IPAddress (xs ! j) \<noteq> cidr)"
proof (induction xs arbitrary: k)
  case Nil
  then show ?case by simp
next
  case (Cons x xs)
  show ?case
  proof (cases "IPAddress x = cidr")
    case True
    with Cons.prems show ?thesis by simp
  next
    case False
    with Cons.prems have rec: "pair_index cidr xs (Suc k) = Some i" by simp
    from Cons.IH[OF rec] have ih: "Suc k \<le> i" "i - Suc k < length xs"
      "IPAddress (xs ! (i - Suc k)) = cidr"
      "\<forall>j < i - Suc k. IPAddress (xs ! j) \<noteq> cidr"
      by simp_all
    from ih(1) obtain d where d: "i - k = Suc d" "i - Suc k = d"
      by (cases "i - k") auto
    show ?thesis
      using ih False d by (auto simp: nth_Cons less_Suc_eq_0_disj)
  qed
qed

lemma DeleteRoute_tail_lookup:
  "DeleteRoute_tail r route nexthop onFailure w =
     (case routers_Get (RouterID (opts r)) w of
        (Inl err, w1) \<Rightarrow> ((Some err, onFailure, []), w1)
      | (Inr router, w1) \<Rightarrow>
          (let routes = r_Routes router in
           case route_index (DestinationCIDR route) nexthop (elems (route_mem w1) routes) 0 of
             None \<Rightarrow> ((None, onFailure, []), w1)
           | Some index \<Rightarrow>
               (case delete_at routes index (route_mem w1) of
                  None \<Rightarrow> ((Some (Panic ''index out of range''), onFailure, []), w1)
                | Some (routes1, mem) \<Rightarrow>
                    (case updateRoutes router routes1 (w1\<lparr>route_mem := mem\<rparr>) of
                       (Inl err, w2) \<Rightarrow> ((Some err, onFailure, []), w2)
                     | (Inr unwind, w2) \<Rightarrow>
                         (case lookup_port (TargetNode route) nexthop w2 of
                            (Inl err, w4) \<Rightarrow> ((Some err, onFailure, [unwind]), w4)
                          | (Inr port, w4) \<Rightarrow>
                                   (let addrPairs = p_AllowedAddressPairs port in
                                    case pair_index (DestinationCIDR route)
                                           (elems (pair_mem w4) addrPairs) 0 of
                                      None \<Rightarrow> ((None, disarm onFailure, [unwind]), w4)
                                    | Some index2 \<Rightarrow>
                                        (case delete_at addrPairs index2 (pair_mem w4) of
                                           None \<Rightarrow>
                                             ((Some (Panic ''index out of range''), onFailure, [unwind]), w4)
                                         | Some (addrPairs1, pmem) \<Rightarrow>
                                             (case updateAllowedAddressPairs port addrPairs1
                                                     (w4\<lparr>pair_mem := pmem\<rparr>) of
                                                (Inl err, w5) \<Rightarrow> ((Some err, onFailure, [unwind]), w5)
                                              | (Inr unwind2, w5) \<Rightarrow>
                                                  ((None, disarm onFailure, [unwind2, unwind]), w5)))))))))"
  unfolding DeleteRoute_tail_def lookup_port_def
  by (simp add: Let_def split: prod.split sum.split option.split)

lemma DeleteRoute_tail_refines:
  "observes w (finish (DeleteRoute_tail r route nh newCaller w))
     (settle w (RouterID (opts r)) (delete_attempt r route nh w))"
proof (cases "faults w (length (trace w))")
  case (Some e)
  then show ?thesis
    by (simp add: DeleteRoute_tail_lookup delete_attempt_def run_defs)
next
  case f0: None
  show ?thesis
  proof (cases "routers w (RouterID (opts r))")
    case None
    with f0 show ?thesis
      by (simp add: DeleteRoute_tail_lookup delete_attempt_def run_defs)
  next
    case tbl: (Some tbl)
    show ?thesis
    proof (cases "route_index (DestinationCIDR route) nh tbl 0")
      case None
      with f0 tbl show ?thesis
        by (simp add: DeleteRoute_tail_lookup delete_attempt_def run_defs)
    next
      case idx: (Some i)
      have i: "i < length tbl" using route_index_Some[OF idx] by simp
      then have pos: "0 < length tbl" "length tbl - Suc 0 < length tbl" by (cases tbl; simp)+
      show ?thesis
      proof (cases "faults w (Suc (length (trace w)))")
        case (Some e)
        with f0 tbl idx i pos show ?thesis
          by (simp add: DeleteRoute_tail_lookup delete_attempt_def run_defs list_update_append nth_append)
      next
        case f1: None
        show ?thesis
        proof (cases "locate_port (TargetNode route) nh w (Suc (Suc (length (trace w))))")
          case (Pair res evs)
          show ?thesis
          proof (cases res)
            case (Inl err)
            with f0 tbl idx i pos f1 Pair show ?thesis
              by (simp add: DeleteRoute_tail_lookup delete_attempt_def run_defs list_update_append
                    nth_append split: option.split)
          next
            case (Inr pp)
            obtain pid ps where pp: "pp = (pid, ps)" by (cases pp)
            have len: "length evs = 3"
              using Pair Inr by (simp add: locate_port_length)
            have port: "ports w pid = Some ps"
              using Pair Inr pp locate_port_Inr by blast
            show ?thesis
            proof (cases "pair_index (DestinationCIDR route) ps 0")
              case None
              with f0 tbl idx i pos f1 Pair Inr pp len show ?thesis
                by (simp add: DeleteRoute_tail_lookup delete_attempt_def run_defs list_update_append
                      nth_append)
            next
              case pidx: (Some j)
              have j: "j < length ps" using pair_index_Some[OF pidx] by simp
              then have ppos: "0 < length ps" "length ps - Suc 0 < length ps" by (cases ps; simp)+
              show ?thesis
              proof (cases "faults w (length (trace w) + 5)")
                case None
                with f0 tbl idx i pos f1 Pair Inr pp len pidx j ppos port show ?thesis
                  by (simp add: DeleteRoute_tail_lookup delete_attempt_def run_defs list_update_append
                        nth_append eval_nat_numeral)
              next
                case (Some e)
                with f0 tbl idx i pos f1 Pair Inr pp len pidx j ppos port show ?thesis
                  by (simp add: DeleteRoute_tail_lookup delete_attempt_def run_defs list_update_append
                        nth_append eval_nat_numeral split: option.split)
              qed
            qed
          qed
        qed
      qed
    qed
  qed
qed

subsection \<open>Whole runs\<close>

lemma head_step:
  "getAddressesByName node w =
     (case faults w (length (trace w)) of
        Some e \<Rightarrow> (Inl e, w\<lparr>trace := trace w @ [(ServerGet node, Some e)]\<rparr>)
      | None \<Rightarrow>
          (case find (\<lambda>s. srv_Name s = node) (servers w) of
             None \<Rightarrow> (Inl ErrNotFound, w\<lparr>trace := trace w @ [(ServerGet node, Some ErrNotFound)]\<rparr>)
           | Some srv \<Rightarrow> (srv_Addresses srv, w\<lparr>trace := trace w @ [(ServerGet node, None)]\<rparr>)))"
  by (simp add: getAddressesByName_def getServerByName_def remote_call_cases outcome_def
      nodeAddresses_def split: option.split)

lemma observes_prefix:
  assumes "observes (w\<lparr>trace := trace w @ evs\<rparr>) rw out"
  shows "observes w rw (out\<lparr>o_events := evs @ o_events out\<rparr>)"
  using assms by (simp add: observes_def)

lemma body_refines:
  assumes tail: "\<And>nh v. observes v (finish (tl_of r route nh newCaller v))
                    (settle v (RouterID (opts r)) (att r route nh v))"
      and body: "\<And>w. body w =
        (let onFailure = newCaller;
             IP = ParseCIDR lib (DestinationCIDR route);
             CIDRisV4 = IsIPv4 lib (IP_String IP);
             CIDRisV6 = IsIPv6 lib (IP_String IP)
         in case getAddressesByName (TargetNode route) w of
              (Inl err, w1) \<Rightarrow> ((Some err, onFailure, []), w1)
            | (Inr addrs, w1) \<Rightarrow>
                (if length addrs = 0 then ((Some ErrNoAddressFound, onFailure, []), w1)
                 else
                   (let nexthop = nexthop_loop lib CIDRisV4 CIDRisV6 addrs [] in
                    if nexthop = [] then ((Some ErrNoAddressFound, onFailure, []), w1)
                    else tl_of r route nexthop onFailure w1)))"
  shows "observes w (finish (body w)) (whole_run att lib r route w)"
proof (cases "faults w (length (trace w))")
  case (Some e)
  then show ?thesis
    by (simp add: body head_step whole_run_def resolve_def observes_def finish_def
        run_deferred_def Let_def)
next
  case f0: None
  show ?thesis
  proof (cases "find (\<lambda>s. srv_Name s = TargetNode route) (servers w)")
    case None
    with f0 show ?thesis
      by (simp add: body head_step whole_run_def resolve_def observes_def finish_def
          run_deferred_def Let_def)
  next
    case srv: (Some srv)
    show ?thesis
    proof (cases "srv_Addresses srv")
      case (Inl err)
      with f0 srv show ?thesis
        by (simp add: body head_step whole_run_def resolve_def observes_def finish_def
            run_deferred_def Let_def)
    next
      case addrs: (Inr addrs)
      show ?thesis
      proof (cases "addrs = [] \<or> chosen_nexthop lib route addrs = []")
        case True
        with f0 srv addrs show ?thesis
          by (auto simp: body head_step whole_run_def resolve_def observes_def finish_def
              run_deferred_def Let_def chosen_nexthop_def)
      next
        case False
        let ?nh = "chosen_nexthop lib route addrs"
        let ?w1 = "w\<lparr>trace := trace w @ [(ServerGet (TargetNode route), None)]\<rparr>"
        have run: "finish (body w) = finish (tl_of r route ?nh newCaller ?w1)"
          using f0 srv addrs False
          by (simp add: body head_step Let_def chosen_nexthop_def)
        have res: "resolve lib route w = (Inr ?nh, [(ServerGet (TargetNode route), None)])"
          using f0 srv addrs False by (simp add: resolve_def Let_def)
        show ?thesis
          unfolding run whole_run_def res
          using observes_prefix[OF tail[of ?w1 ?nh]]
          by (simp add: Let_def)
      qed
    qed
  qed
qed

lemma CreateRoute_refines:
  "observes w (CreateRoute lib r route w) (CreateRoute_outcome lib r route w)"
  unfolding CreateRoute_def CreateRoute_outcome_def
  by (rule body_refines[where tl_of = CreateRoute_tail]) (simp_all add: CreateRoute_tail_refines CreateRoute_body_def)

lemma DeleteRoute_refines:
  "observes w (DeleteRoute lib r route w) (DeleteRoute_outcome lib r route w)"
  unfolding DeleteRoute_def DeleteRoute_outcome_def
  by (rule body_refines[where tl_of = DeleteRoute_tail]) (simp_all add: DeleteRoute_tail_refines DeleteRoute_body_def)

lemma run_facts:
  assumes "observes w rw out" and "rw = (res, w')"
  shows "res = o_ret out" "events_of w w' = o_events out" "routers w' = o_routers out"
    "ports w' = o_ports out" "warnings w' = warnings w @ o_warnings out"
  using assms by (simp_all add: observes_def events_of_def)

lemma route_index_None_iff:
  "route_index cidr nh xs k = None \<longleftrightarrow> route_count cidr nh xs = 0"
  by (induction xs arbitrary: k) (auto simp: route_count_def)

lemma resolve_Inr:
  "resolve lib route w = (Inr nh, evs) \<Longrightarrow>
     node_nexthop lib route w = Some nh \<and> evs = [(ServerGet (TargetNode route), None)] \<and>
     faults w (length (trace w)) = None"
  by (auto simp: resolve_def node_nexthop_def Let_def split: option.splits sum.splits if_splits)

lemma resolve_Inl:
  "resolve lib route w = (Inl err, evs) \<Longrightarrow> \<exists>out. evs = [(ServerGet (TargetNode route), out)]"
  by (auto simp: resolve_def Let_def split: option.splits sum.splits if_splits)

lemmas ex_defs = ex_lib_def ex_engine_def ex_route_def ex_world_def
lemmas outcome_defs = CreateRoute_outcome_def DeleteRoute_outcome_def whole_run_def resolve_def
  chosen_nexthop_def settle_def create_attempt_def delete_attempt_def locate_port_def Let_def
  IP_String_def node_nexthop_def owning_port_def route_count_def pair_count_def

lemma DeleteRoute_view:
  "fst (DeleteRoute lib r route w) = o_ret (DeleteRoute_outcome lib r route w)"
  "events_of w (snd (DeleteRoute lib r route w)) = o_events (DeleteRoute_outcome lib r route w)"
  "routers (snd (DeleteRoute lib r route w)) = o_routers (DeleteRoute_outcome lib r route w)"
  "ports (snd (DeleteRoute lib r route w)) = o_ports (DeleteRoute_outcome lib r route w)"
  "warnings (snd (DeleteRoute lib r route w)) = warnings w @ o_warnings (DeleteRoute_outcome lib r route w)"
  using DeleteRoute_refines[of w lib r route] by (simp_all add: observes_def events_of_def)

lemma ex_delete:
  "DeleteRoute_outcome ex_lib ex_engine ex_route ex_world =
     \<lparr>o_ret = None, o_events = [(ServerGet ''n1'', None), (RouterGet ''r1'', None)],
      o_routers = routers ex_world, o_ports = ports ex_world, o_warnings = []\<rparr>"
  by (simp add: outcome_defs ex_defs)


subsection \<open>The choice of the next hop\<close>

lemma nexthop_loop_no_family:
  "nexthop_loop lib False False addrs acc = acc"
  by (induction addrs) simp_all

lemma nexthop_loop_none:
  "\<forall>a \<in> set addrs. \<not> (na_Type a = NodeInternalIP \<and> ((IsIPv4 lib (na_Address a) \<and> v4) \<or> (IsIPv6 lib (na_Address a) \<and> v6)))
     \<Longrightarrow> nexthop_loop lib v4 v6 addrs acc = acc"
  by (induction addrs) auto

lemma nexthop_loop_first:
  "i < length addrs \<Longrightarrow>
   na_Type (addrs ! i) = NodeInternalIP \<and>
     ((IsIPv4 lib (na_Address (addrs ! i)) \<and> v4) \<or> (IsIPv6 lib (na_Address (addrs ! i)) \<and> v6)) \<Longrightarrow>
   \<forall>j < i. \<not> (na_Type (addrs ! j) = NodeInternalIP \<and>
     ((IsIPv4 lib (na_Address (addrs ! j)) \<and> v4) \<or> (IsIPv6 lib (na_Address (addrs ! j)) \<and> v6))) \<Longrightarrow>
   nexthop_loop lib v4 v6 addrs acc = na_Address (addrs ! i)"
proof (induction addrs arbitrary: i)
  case Nil
  then show ?case by simp
next
  case (Cons a addrs)
  show ?case
  proof (cases i)
    case 0
    with Cons.prems show ?thesis by auto
  next
    case (Suc k)
    with Cons.prems have "k < length addrs" by simp
    moreover from Cons.prems Suc have "na_Type (addrs ! k) = NodeInternalIP \<and>
     ((IsIPv4 lib (na_Address (addrs ! k)) \<and> v4) \<or> (IsIPv6 lib (na_Address (addrs ! k)) \<and> v6))"
      by simp
    moreover from Cons.prems(3) Suc have "\<forall>j < k. \<not> (na_Type (addrs ! j) = NodeInternalIP \<and>
     ((IsIPv4 lib (na_Address (addrs ! j)) \<and> v4) \<or> (IsIPv6 lib (na_Address (addrs ! j)) \<and> v6)))"
      by (metis Suc_less_eq nth_Cons_Suc)
    ultimately have "nexthop_loop lib v4 v6 addrs acc = na_Address (addrs ! k)"
      by (rule Cons.IH)
    moreover from Cons.prems(3) Suc have "\<not> (na_Type a = NodeInternalIP \<and>
     ((IsIPv4 lib (na_Address a) \<and> v4) \<or> (IsIPv6 lib (na_Address a) \<and> v6)))"
      by (metis nth_Cons_0 zero_less_Suc)
    ultimately show ?thesis using Suc by auto
  qed
qed

lemma chosen_nexthop_none:
  "\<forall>a \<in> set addrs. \<not> usable lib route a \<Longrightarrow> chosen_nexthop lib route addrs = []"
  unfolding chosen_nexthop_def usable_def by (rule nexthop_loop_none) 

lemma chosen_nexthop_first:
  "i < length addrs \<Longrightarrow> usable lib route (addrs ! i) \<Longrightarrow>
   \<forall>j < i. \<not> usable lib route (addrs ! j) \<Longrightarrow>
   chosen_nexthop lib route addrs = na_Address (addrs ! i)"
  unfolding chosen_nexthop_def usable_def by (rule nexthop_loop_first)

lemma body_no_address:
  assumes addrs: "getAddressesByName (TargetNode route) w = (Inr addrs, w1)"
      and none: "addrs = [] \<or> chosen_nexthop lib route addrs = []"
  shows "CreateRoute lib r route w = (Some ErrNoAddressFound, w1)"
    and "DeleteRoute lib r route w = (Some ErrNoAddressFound, w1)"
  using none
  by (auto simp: CreateRoute_def CreateRoute_body_def DeleteRoute_def DeleteRoute_body_def addrs
      chosen_nexthop_def Let_def finish_def run_deferred_def)

lemma body_with_nexthop:
  assumes addrs: "getAddressesByName (TargetNode route) w = (Inr addrs, w1)"
      and some: "chosen_nexthop lib route addrs \<noteq> []"
  shows "CreateRoute lib r route w = finish (CreateRoute_tail r route (chosen_nexthop lib route addrs) newCaller w1)"
    and "DeleteRoute lib r route w = finish (DeleteRoute_tail r route (chosen_nexthop lib route addrs) newCaller w1)"
proof -
  have ne: "addrs \<noteq> []" using some by (auto simp: chosen_nexthop_def)
  show "CreateRoute lib r route w = finish (CreateRoute_tail r route (chosen_nexthop lib route addrs) newCaller w1)"
    using some ne by (simp add: CreateRoute_def CreateRoute_body_def addrs chosen_nexthop_def Let_def)
  show "DeleteRoute lib r route w = finish (DeleteRoute_tail r route (chosen_nexthop lib route addrs) newCaller w1)"
    using some ne by (simp add: DeleteRoute_def DeleteRoute_body_def addrs chosen_nexthop_def Let_def)
qed

lemma getAddressesByName_Inr:
  assumes "getAddressesByName name w = (Inr addrs, w1)"
  shows "w1 = w\<lparr>trace := trace w @ [(ServerGet name, None)]\<rparr>"
  using assms by (auto simp: head_step split: option.splits)

subsection \<open>ListRoutes\<close>

lemma record_addrs_lookup:
  "record_addrs name addrs m a = (if a \<in> set (map na_Address addrs) then Some name else m a)"
  by (induction addrs arbitrary: m) auto

lemma ListRoutes_handler_apply:
  "ListRoutes_handler srv m =
     (case srv_Addresses srv of
        Inl err \<Rightarrow> ((False, Some err), m)
      | Inr addrs \<Rightarrow> ((True, None), record_addrs (srv_Name srv) addrs m))"
  by (simp add: ListRoutes_handler_def nodeAddresses_def mapServerToNodeName_def split: sum.split)

lemma foreachServer_loop_index:
  assumes "foreachServer_loop ListRoutes_handler srvs m = (None, m')"
  shows "(\<forall>a. m' a = None \<longleftrightarrow> (m a = None \<and> a \<notin> (\<Union>srv \<in> set srvs. addresses_of srv))) \<and>
         (\<forall>a n. m' a = Some n \<longrightarrow>
            (m a = Some n \<or> (\<exists>srv \<in> set srvs. a \<in> addresses_of srv \<and> n = srv_Name srv)))"
  using assms
proof (induction srvs arbitrary: m)
  case Nil
  then show ?case by simp
next
  case (Cons srv srvs)
  show ?case
  proof (cases "srv_Addresses srv")
    case (Inl err)
    then have hv: "ListRoutes_handler srv m = ((False, Some err), m)"
      by (simp add: ListRoutes_handler_apply)
    with Cons.prems show ?thesis
      by (simp add: hv)
  next
    case (Inr addrs)
    let ?m1 = "record_addrs (srv_Name srv) addrs m"
    from Inr have hv: "ListRoutes_handler srv m = ((True, None), ?m1)"
      by (simp add: ListRoutes_handler_apply)
    from Cons.prems have rec: "foreachServer_loop ListRoutes_handler srvs ?m1 = (None, m')"
      by (simp add: hv)
    note ih = Cons.IH[OF rec]
    have here: "addresses_of srv = set (map na_Address addrs)"
      using Inr by (simp add: addresses_of_def)
    show ?thesis
    proof (intro conjI allI impI)
      fix a
      show "m' a = None \<longleftrightarrow> (m a = None \<and> a \<notin> (\<Union>s \<in> set (srv # srvs). addresses_of s))"
        using ih here by (auto simp: record_addrs_lookup split: if_splits)
    next
      fix a n
      assume "m' a = Some n"
      with ih have "?m1 a = Some n \<or> (\<exists>s \<in> set srvs. a \<in> addresses_of s \<and> n = srv_Name s)"
        by blast
      then show "m a = Some n \<or> (\<exists>s \<in> set (srv # srvs). a \<in> addresses_of s \<and> n = srv_Name s)"
        using here by (auto simp: record_addrs_lookup split: if_splits)
    qed
  qed
qed

lemma ListRoutes_loop_map:
  "ListRoutes_loop m items acc =
     acc @ map (\<lambda>item. \<lparr>Name = rt_DestinationCIDR item,
                          TargetNode = (case m (rt_NextHop item) of None \<Rightarrow> [] | Some n \<Rightarrow> n),
                          DestinationCIDR = rt_DestinationCIDR item,
                          Blackhole = (m (rt_NextHop item) = None)\<rparr>) items"
  by (induction items arbitrary: acc) (simp_all add: Let_def)

lemma routers_Get_Inr:
  assumes "routers_Get rid w = (Inr router, w1)"
  shows "routers w rid = Some (elems (route_mem w1) (r_Routes router))"
  using assms
  by (auto simp: routers_Get_def remote_call_cases outcome_def make_slice_def elems_def
      split: option.splits)

lemma foreachServer_None:
  assumes "foreachServer handler acc w = ((None, m), w1)"
  shows "foreachServer_loop handler (servers w) acc = (None, m) \<and> routers w1 = routers w"
  using assms
  by (auto simp: foreachServer_def remote_call_cases outcome_def split: option.splits)

subsection \<open>The shapes of a run\<close>

lemma locate_port_events:
  assumes "locate_port node nh w k = (x, evs)"
  shows "\<not> is_write ev \<or> ev \<notin> set evs"
  using assms
  by (auto simp: locate_port_def is_write_def split: option.splits sum.splits)

lemma locate_port_no_update:
  assumes "locate_port node nh w k = (x, evs)"
  shows "(PortUpdate pid q, out) \<notin> set evs" "(RouterUpdate rid p, out) \<notin> set evs"
  using locate_port_events[OF assms, of "(PortUpdate pid q, out)"]
    locate_port_events[OF assms, of "(RouterUpdate rid p, out)"]
  by (simp_all add: is_write_def)

lemma locate_port_Inl:
  "locate_port node nh w k = (Inl err, evs) \<Longrightarrow> evs \<noteq> [] \<and> length evs \<le> 3"
  by (auto simp: locate_port_def split: option.splits sum.splits)

lemma whole_run_cases [case_names unresolved resolved]:
  obtains (unresolved) err out where
      "whole_run att lib r route w =
         \<lparr>o_ret = Some err, o_events = [(ServerGet (TargetNode route), out)],
          o_routers = routers w, o_ports = ports w, o_warnings = []\<rparr>"
  | (resolved) nh where
      "node_nexthop lib route w = Some nh"
      "faults w (length (trace w)) = None"
      "whole_run att lib r route w =
         (settle (w\<lparr>trace := trace w @ [(ServerGet (TargetNode route), None)]\<rparr>) (RouterID (opts r))
            (att r route nh (w\<lparr>trace := trace w @ [(ServerGet (TargetNode route), None)]\<rparr>)))
         \<lparr>o_events := (ServerGet (TargetNode route), None) #
            o_events (settle (w\<lparr>trace := trace w @ [(ServerGet (TargetNode route), None)]\<rparr>) (RouterID (opts r))
              (att r route nh (w\<lparr>trace := trace w @ [(ServerGet (TargetNode route), None)]\<rparr>)))\<rparr>"
proof (cases "resolve lib route w")
  case (Pair x evs)
  show ?thesis
  proof (cases x)
    case (Inl err)
    with Pair resolve_Inl[of lib route w err evs] obtain out where "evs = [(ServerGet (TargetNode route), out)]"
      by auto
    with Pair Inl show ?thesis
      by (intro unresolved[of err out]) (simp add: whole_run_def)
  next
    case (Inr nh)
    with Pair resolve_Inr[of lib route w nh evs]
    have *: "node_nexthop lib route w = Some nh" "evs = [(ServerGet (TargetNode route), None)]"
      "faults w (length (trace w)) = None" by simp_all
    show ?thesis
      by (rule resolved[OF *(1) *(3)]) (simp add: whole_run_def Pair Inr * Let_def)
  qed
qed

lemma create_attempt_cases
  [case_names get_failed present write_failed lookup_failed filter_present filter_failed created]:
  fixes r route nh w
  defines "rid \<equiv> RouterID (opts r)"
      and "t \<equiv> length (trace w)"
      and "new \<equiv> \<lparr>rt_NextHop = nh, rt_DestinationCIDR = DestinationCIDR route\<rparr>"
      and "np \<equiv> \<lparr>IPAddress = DestinationCIDR route, MACAddress = []\<rparr>"
  obtains
    (get_failed) e where
      "create_attempt r route nh w =
         \<lparr>a_ret = Some e, a_events = [(RouterGet rid, Some e)],
          a_routers = routers w, a_ports = ports w, a_undo = None\<rparr>"
  | (present) tbl where
      "routers w rid = Some tbl" "route_exists (DestinationCIDR route) nh tbl"
      "faults w t = None"
      "create_attempt r route nh w =
         \<lparr>a_ret = None, a_events = [(RouterGet rid, None)],
          a_routers = routers w, a_ports = ports w, a_undo = None\<rparr>"
  | (write_failed) tbl e where
      "routers w rid = Some tbl" "\<not> route_exists (DestinationCIDR route) nh tbl"
      "create_attempt r route nh w =
         \<lparr>a_ret = Some e, a_events = [(RouterGet rid, None), (RouterUpdate rid (tbl @ [new]), Some e)],
          a_routers = routers w, a_ports = ports w, a_undo = None\<rparr>"
  | (lookup_failed) tbl err evs where
      "routers w rid = Some tbl" "\<not> route_exists (DestinationCIDR route) nh tbl"
      "locate_port (TargetNode route) nh w (Suc (Suc t)) = (Inl err, evs)"
      "create_attempt r route nh w =
         \<lparr>a_ret = Some err,
          a_events = [(RouterGet rid, None), (RouterUpdate rid (tbl @ [new]), None)] @ evs,
          a_routers = (routers w)(rid \<mapsto> tbl @ [new]), a_ports = ports w, a_undo = Some tbl\<rparr>"
  | (filter_present) tbl pid ps evs where
      "routers w rid = Some tbl" "\<not> route_exists (DestinationCIDR route) nh tbl"
      "locate_port (TargetNode route) nh w (Suc (Suc t)) = (Inr (pid, ps), evs)"
      "pair_exists (DestinationCIDR route) ps"
      "create_attempt r route nh w =
         \<lparr>a_ret = None,
          a_events = [(RouterGet rid, None), (RouterUpdate rid (tbl @ [new]), None)] @ evs,
          a_routers = (routers w)(rid \<mapsto> tbl @ [new]), a_ports = ports w, a_undo = None\<rparr>"
  | (filter_failed) tbl pid ps evs e where
      "routers w rid = Some tbl" "\<not> route_exists (DestinationCIDR route) nh tbl"
      "locate_port (TargetNode route) nh w (Suc (Suc t)) = (Inr (pid, ps), evs)"
      "\<not> pair_exists (DestinationCIDR route) ps"
      "create_attempt r route nh w =
         \<lparr>a_ret = Some e,
          a_events = [(RouterGet rid, None), (RouterUpdate rid (tbl @ [new]), None)] @ evs @
                     [(PortUpdate pid (ps @ [np]), Some e)],
          a_routers = (routers w)(rid \<mapsto> tbl @ [new]), a_ports = ports w, a_undo = Some tbl\<rparr>"
  | (created) tbl pid ps evs where
      "routers w rid = Some tbl" "\<not> route_exists (DestinationCIDR route) nh tbl"
      "locate_port (TargetNode route) nh w (Suc (Suc t)) = (Inr (pid, ps), evs)"
      "\<not> pair_exists (DestinationCIDR route) ps"
      "create_attempt r route nh w =
         \<lparr>a_ret = None,
          a_events = [(RouterGet rid, None), (RouterUpdate rid (tbl @ [new]), None)] @ evs @
                     [(PortUpdate pid (ps @ [np]), None)],
          a_routers = (routers w)(rid \<mapsto> tbl @ [new]),
          a_ports = (ports w)(pid \<mapsto> ps @ [np]), a_undo = None\<rparr>"
proof (cases "faults w t")
  case (Some e)
  then show ?thesis
    by (intro get_failed[of e]) (simp add: create_attempt_def Let_def rid_def t_def)
next
  case f0: None
  show ?thesis
  proof (cases "routers w rid")
    case None
    with f0 show ?thesis
      by (intro get_failed[of ErrNotFound]) (simp add: create_attempt_def Let_def rid_def t_def)
  next
    case tbl: (Some tbl)
    show ?thesis
    proof (cases "route_exists (DestinationCIDR route) nh tbl")
      case True
      with f0 tbl show ?thesis
        by (intro present[of tbl]) (simp_all add: create_attempt_def Let_def rid_def t_def)
    next
      case nex: False
      show ?thesis
      proof (cases "faults w (Suc t)")
        case (Some e)
        with f0 tbl nex show ?thesis
          by (intro write_failed[of tbl e])
             (simp_all add: create_attempt_def Let_def rid_def t_def new_def)
      next
        case f1: None
        show ?thesis
        proof (cases "locate_port (TargetNode route) nh w (Suc (Suc t))")
          case (Pair x evs)
          show ?thesis
          proof (cases x)
            case (Inl err)
            with f0 tbl nex f1 Pair show ?thesis
              by (intro lookup_failed[of tbl err evs])
                 (simp_all add: create_attempt_def Let_def rid_def t_def new_def)
          next
            case (Inr pp)
            obtain pid ps where pp: "pp = (pid, ps)" by (cases pp)
            show ?thesis
            proof (cases "pair_exists (DestinationCIDR route) ps")
              case True
              with f0 tbl nex f1 Pair Inr pp show ?thesis
                by (intro filter_present[of tbl pid ps evs])
                   (simp_all add: create_attempt_def Let_def rid_def t_def new_def)
            next
              case npx: False
              show ?thesis
              proof (cases "faults w (t + 5)")
                case (Some e)
                with f0 tbl nex f1 Pair Inr pp npx show ?thesis
                  by (intro filter_failed[of tbl pid ps evs e])
                     (simp_all add: create_attempt_def Let_def rid_def t_def new_def np_def)
              next
                case None
                with f0 tbl nex f1 Pair Inr pp npx show ?thesis
                  by (intro created[of tbl pid ps evs])
                     (simp_all add: create_attempt_def Let_def rid_def t_def new_def np_def)
              qed
            qed
          qed
        qed
      qed
    qed
  qed
qed

lemma CreateRoute_view:
  "fst (CreateRoute lib r route w) = o_ret (CreateRoute_outcome lib r route w)"
  "events_of w (snd (CreateRoute lib r route w)) = o_events (CreateRoute_outcome lib r route w)"
  "routers (snd (CreateRoute lib r route w)) = o_routers (CreateRoute_outcome lib r route w)"
  "ports (snd (CreateRoute lib r route w)) = o_ports (CreateRoute_outcome lib r route w)"
  "warnings (snd (CreateRoute lib r route w)) = warnings w @ o_warnings (CreateRoute_outcome lib r route w)"
  using CreateRoute_refines[of w lib r route] by (simp_all add: observes_def events_of_def)

lemma delete_attempt_cases
  [case_names get_failed absent write_failed lookup_failed filter_absent filter_failed deleted]:
  fixes r route nh w
  defines "rid \<equiv> RouterID (opts r)"
      and "t \<equiv> length (trace w)"
  obtains
    (get_failed) e where
      "delete_attempt r route nh w =
         \<lparr>a_ret = Some e, a_events = [(RouterGet rid, Some e)],
          a_routers = routers w, a_ports = ports w, a_undo = None\<rparr>"
  | (absent) tbl where
      "routers w rid = Some tbl" "route_index (DestinationCIDR route) nh tbl 0 = None"
      "faults w t = None"
      "delete_attempt r route nh w =
         \<lparr>a_ret = None, a_events = [(RouterGet rid, None)],
          a_routers = routers w, a_ports = ports w, a_undo = None\<rparr>"
  | (write_failed) tbl i e where
      "routers w rid = Some tbl" "route_index (DestinationCIDR route) nh tbl 0 = Some i"
      "delete_attempt r route nh w =
         \<lparr>a_ret = Some e,
          a_events = [(RouterGet rid, None),
                      (RouterUpdate rid (take (length tbl - 1) (tbl[i := tbl ! (length tbl - 1)])), Some e)],
          a_routers = routers w, a_ports = ports w, a_undo = None\<rparr>"
  | (lookup_failed) tbl i err evs where
      "routers w rid = Some tbl" "route_index (DestinationCIDR route) nh tbl 0 = Some i"
      "locate_port (TargetNode route) nh w (Suc (Suc t)) = (Inl err, evs)"
      "delete_attempt r route nh w =
         \<lparr>a_ret = Some err,
          a_events = [(RouterGet rid, None),
                      (RouterUpdate rid (take (length tbl - 1) (tbl[i := tbl ! (length tbl - 1)])), None)] @ evs,
          a_routers = (routers w)(rid \<mapsto> take (length tbl - 1) (tbl[i := tbl ! (length tbl - 1)])),
          a_ports = ports w, a_undo = Some (tbl[i := tbl ! (length tbl - 1)])\<rparr>"
  | (filter_absent) tbl i pid ps evs where
      "routers w rid = Some tbl" "route_index (DestinationCIDR route) nh tbl 0 = Some i"
      "locate_port (TargetNode route) nh w (Suc (Suc t)) = (Inr (pid, ps), evs)"
      "pair_index (DestinationCIDR route) ps 0 = None"
      "delete_attempt r route nh w =
         \<lparr>a_ret = None,
          a_events = [(RouterGet rid, None),
                      (RouterUpdate rid (take (length tbl - 1) (tbl[i := tbl ! (length tbl - 1)])), None)] @ evs,
          a_routers = (routers w)(rid \<mapsto> take (length tbl - 1) (tbl[i := tbl ! (length tbl - 1)])),
          a_ports = ports w, a_undo = None\<rparr>"
  | (filter_failed) tbl i pid ps evs j e where
      "routers w rid = Some tbl" "route_index (DestinationCIDR route) nh tbl 0 = Some i"
      "locate_port (TargetNode route) nh w (Suc (Suc t)) = (Inr (pid, ps), evs)"
      "pair_index (DestinationCIDR route) ps 0 = Some j"
      "delete_attempt r route nh w =
         \<lparr>a_ret = Some e,
          a_events = [(RouterGet rid, None),
                      (RouterUpdate rid (take (length tbl - 1) (tbl[i := tbl ! (length tbl - 1)])), None)] @ evs @
                     [(PortUpdate pid (take (length ps - 1) (ps[j := ps ! (length ps - 1)])), Some e)],
          a_routers = (routers w)(rid \<mapsto> take (length tbl - 1) (tbl[i := tbl ! (length tbl - 1)])),
          a_ports = ports w, a_undo = Some (tbl[i := tbl ! (length tbl - 1)])\<rparr>"
  | (deleted) tbl i pid ps evs j where
      "routers w rid = Some tbl" "route_index (DestinationCIDR route) nh tbl 0 = Some i"
      "locate_port (TargetNode route) nh w (Suc (Suc t)) = (Inr (pid, ps), evs)"
      "pair_index (DestinationCIDR route) ps 0 = Some j"
      "delete_attempt r route nh w =
         \<lparr>a_ret = None,
          a_events = [(RouterGet rid, None),
                      (RouterUpdate rid (take (length tbl - 1) (tbl[i := tbl ! (length tbl - 1)])), None)] @ evs @
                     [(PortUpdate pid (take (length ps - 1) (ps[j := ps ! (length ps - 1)])), None)],
          a_routers = (routers w)(rid \<mapsto> take (length tbl - 1) (tbl[i := tbl ! (length tbl - 1)])),
          a_ports = (ports w)(pid \<mapsto> take (length ps - 1) (ps[j := ps ! (length ps - 1)])),
          a_undo = None\<rparr>"
proof (cases "faults w t")
  case (Some e)
  then show ?thesis
    by (intro get_failed[of e]) (simp add: delete_attempt_def Let_def rid_def t_def)
next
  case f0: None
  show ?thesis
  proof (cases "routers w rid")
    case None
    with f0 show ?thesis
      by (intro get_failed[of ErrNotFound]) (simp add: delete_attempt_def Let_def rid_def t_def)
  next
    case tbl: (Some tbl)
    show ?thesis
    proof (cases "route_index (DestinationCIDR route) nh tbl 0")
      case None
      with f0 tbl show ?thesis
        by (intro absent[of tbl]) (simp_all add: delete_attempt_def Let_def rid_def t_def)
    next
      case idx: (Some i)
      show ?thesis
      proof (cases "faults w (Suc t)")
        case (Some e)
        with f0 tbl idx show ?thesis
          by (intro write_failed[of tbl i e])
             (simp_all add: delete_attempt_def Let_def rid_def t_def)
      next
        case f1: None
        show ?thesis
        proof (cases "locate_port (TargetNode route) nh w (Suc (Suc t))")
          case (Pair x evs)
          show ?thesis
          proof (cases x)
            case (Inl err)
            with f0 tbl idx f1 Pair show ?thesis
              by (intro lookup_failed[of tbl i err evs])
                 (simp_all add: delete_attempt_def Let_def rid_def t_def)
          next
            case (Inr pp)
            obtain pid ps where pp: "pp = (pid, ps)" by (cases pp)
            show ?thesis
            proof (cases "pair_index (DestinationCIDR route) ps 0")
              case None
              with f0 tbl idx f1 Pair Inr pp show ?thesis
                by (intro filter_absent[of tbl i pid ps evs])
                   (simp_all add: delete_attempt_def Let_def rid_def t_def)
            next
              case pidx: (Some j)
              show ?thesis
              proof (cases "faults w (t + 5)")
                case (Some e)
                with f0 tbl idx f1 Pair Inr pp pidx show ?thesis
                  by (intro filter_failed[of tbl i pid ps evs j e])
                     (simp_all add: delete_attempt_def Let_def rid_def t_def)
              next
                case None
                with f0 tbl idx f1 Pair Inr pp pidx show ?thesis
                  by (intro deleted[of tbl i pid ps evs j])
                     (simp_all add: delete_attempt_def Let_def rid_def t_def)
              qed
            qed
          qed
        qed
      qed
    qed
  qed
qed



subsection \<open>Repeated calls\<close>

lemma CreateRoute_frame:
  "trace (snd (CreateRoute lib r route w)) = trace w @ o_events (CreateRoute_outcome lib r route w)"
  "servers (snd (CreateRoute lib r route w)) = servers w"
  "interfaces (snd (CreateRoute lib r route w)) = interfaces w"
  "faults (snd (CreateRoute lib r route w)) = faults w"
  "spare (snd (CreateRoute lib r route w)) = spare w"
  using CreateRoute_refines[of w lib r route] by (simp_all add: observes_def)

lemma route_exists_count:
  "route_exists cidr nh tbl \<longleftrightarrow> route_count cidr nh tbl \<noteq> 0"
  by (induction tbl) (auto simp: route_count_def)

lemma pair_exists_count:
  "pair_exists cidr ps \<longleftrightarrow> pair_count cidr ps \<noteq> 0"
  by (induction ps) (auto simp: pair_count_def)

lemma locate_port_owner:
  "locate_port node nh w k = (Inr (pid, ps), evs) \<Longrightarrow> owning_port node nh w = Some pid \<and> ports w pid = Some ps"
  by (auto simp: locate_port_def owning_port_def split: option.splits sum.splits)

lemma owning_port_frame [simp]:
  "owning_port node nh (w\<lparr>trace := tr\<rparr>) = owning_port node nh w"
  by (simp add: owning_port_def cong: option.case_cong)

lemma CreateRoute_present_noop:
  assumes run: "CreateRoute lib r route w = (res, w')"
      and nh: "node_nexthop lib route w = Some nh"
      and tbl: "routers w (RouterID (opts r)) = Some tbl"
      and present: "route_count (DestinationCIDR route) nh tbl \<noteq> 0"
  shows "filter is_write (events_of w w') = [] \<and> routers w' = routers w \<and> ports w' = ports w \<and>
         ((RouterGet (RouterID (opts r)), None) \<in> set (events_of w w') \<longrightarrow>
            res = None \<and>
            events_of w w' = [(ServerGet (TargetNode route), None), (RouterGet (RouterID (opts r)), None)])"
proof -
  note facts = run_facts[OF CreateRoute_refines run]
  let ?w1 = "w\<lparr>trace := trace w @ [(ServerGet (TargetNode route), None)]\<rparr>"
  have ex: "route_exists (DestinationCIDR route) nh tbl"
    using present by (simp add: route_exists_count)
  show ?thesis
  proof (cases rule: whole_run_cases[of create_attempt lib r route w])
    case (unresolved err out)
    then show ?thesis
      by (simp add: facts CreateRoute_outcome_def is_write_def)
  next
    case (resolved nh')
    with nh have same: "nh' = nh" by simp
    note whole = resolved(3)[unfolded same]
    show ?thesis
    proof (cases rule: create_attempt_cases[of r route nh ?w1])
      case (get_failed e0)
      then show ?thesis
        by (simp add: facts CreateRoute_outcome_def whole settle_def is_write_def)
    next
      case (present tbl')
      then show ?thesis
        by (simp add: facts CreateRoute_outcome_def whole settle_def is_write_def)
    next
      case (write_failed tbl' e0)
      with tbl ex show ?thesis by simp
    next
      case (lookup_failed tbl' err evs)
      with tbl ex show ?thesis by simp
    next
      case (filter_present tbl' pid' ps evs)
      with tbl ex show ?thesis by simp
    next
      case (filter_failed tbl' pid' ps evs e0)
      with tbl ex show ?thesis by simp
    next
      case (created tbl' pid' ps evs)
      with tbl ex show ?thesis by simp
    qed
  qed
qed

lemma route_count_append_new:
  "route_count cidr nh (tbl @ [\<lparr>rt_NextHop = nh, rt_DestinationCIDR = cidr\<rparr>]) = Suc (route_count cidr nh tbl)"
  by (simp add: route_count_def)

lemma pair_count_append_new:
  "pair_count cidr (ps @ [\<lparr>IPAddress = cidr, MACAddress = m\<rparr>]) = Suc (pair_count cidr ps)"
  by (simp add: pair_count_def)

lemma CreateRoute_success_state:
  assumes run: "CreateRoute lib r route w = (None, w1)"
      and nh: "node_nexthop lib route w = Some nh"
      and tbl: "routers w (RouterID (opts r)) = Some tbl"
      and port: "owning_port (TargetNode route) nh w = Some pid"
      and ps: "ports w pid = Some ps"
      and uniq: "route_count (DestinationCIDR route) nh tbl \<le> 1" "pair_count (DestinationCIDR route) ps \<le> 1"
      and lockstep: "route_count (DestinationCIDR route) nh tbl = 1 \<longrightarrow> pair_count (DestinationCIDR route) ps = 1"
  shows "\<exists>tbl1 ps1. routers w1 (RouterID (opts r)) = Some tbl1 \<and>
            route_count (DestinationCIDR route) nh tbl1 = 1 \<and>
            ports w1 pid = Some ps1 \<and> pair_count (DestinationCIDR route) ps1 = 1"
proof -
  note facts = run_facts[OF CreateRoute_refines run]
  have ret: "o_ret (whole_run create_attempt lib r route w) = None"
    using facts(1) by (simp add: CreateRoute_outcome_def)
  let ?w1 = "w\<lparr>trace := trace w @ [(ServerGet (TargetNode route), None)]\<rparr>"
  show ?thesis
  proof (cases rule: whole_run_cases[of create_attempt lib r route w])
    case (unresolved err out)
    with ret show ?thesis
      by simp
  next
    case (resolved nh')
    with nh have same: "nh' = nh" by simp
    note whole = resolved(3)[unfolded same]
    show ?thesis
    proof (cases rule: create_attempt_cases[of r route nh ?w1])
      case (get_failed e0)
      with ret show ?thesis
        by (simp add: whole settle_def)
    next
      case (present tbl')
      with tbl have "route_count (DestinationCIDR route) nh tbl \<noteq> 0"
        by (simp add: route_exists_count)
      with uniq lockstep have "route_count (DestinationCIDR route) nh tbl = 1"
        "pair_count (DestinationCIDR route) ps = 1" by simp_all
      with present tbl ps show ?thesis
        by (simp add: facts(3,4) CreateRoute_outcome_def whole settle_def)
    next
      case (write_failed tbl' e0)
      with ret show ?thesis
        by (simp add: whole settle_def)
    next
      case (lookup_failed tbl' err evs)
      with ret show ?thesis
        by (simp add: whole settle_def split: option.splits)
    next
      case (filter_failed tbl' pid' ps' evs e0)
      with ret show ?thesis
        by (simp add: whole settle_def split: option.splits)
    next
      case (filter_present tbl' pid' ps' evs)
      with tbl have t: "tbl' = tbl" by simp
      from filter_present(2) t have zero: "route_count (DestinationCIDR route) nh tbl = 0"
        by (simp add: route_exists_count)
      from locate_port_owner[OF filter_present(3)] port ps
      have p: "pid' = pid" "ps' = ps" by simp_all
      from filter_present(4) p uniq have one: "pair_count (DestinationCIDR route) ps = 1"
        by (simp add: pair_exists_count)
      show ?thesis
        using zero one ps t
        by (simp add: facts(3,4) CreateRoute_outcome_def whole settle_def filter_present(5)
            route_count_append_new)
    next
      case (created tbl' pid' ps' evs)
      with tbl have t: "tbl' = tbl" by simp
      from created(2) t have zero: "route_count (DestinationCIDR route) nh tbl = 0"
        by (simp add: route_exists_count)
      from locate_port_owner[OF created(3)] port ps
      have p: "pid' = pid" "ps' = ps" by simp_all
      from created(4) p have pzero: "pair_count (DestinationCIDR route) ps = 0"
        by (simp add: pair_exists_count)
      show ?thesis
        using zero pzero t p
        by (simp add: facts(3,4) CreateRoute_outcome_def whole settle_def created(5)
            route_count_append_new pair_count_append_new)
    qed
  qed
qed

lemma node_nexthop_servers:
  "servers v = servers w \<Longrightarrow> node_nexthop lib route v = node_nexthop lib route w"
  by (simp add: node_nexthop_def)

lemma ex_simps:
  "ParseCIDR ex_lib s = (if CHR ''/'' \<in> set s then Some (takeWhile (\<lambda>c. c \<noteq> CHR ''/'') s) else None)"
  "IsIPv4 ex_lib s = (CHR ''.'' \<in> set s)"
  "IsIPv6 ex_lib s = (CHR '':'' \<in> set s)"
  "opts ex_engine = \<lparr>RouterID = ''r1''\<rparr>"
  "TargetNode ex_route = ''n1''"
  "DestinationCIDR ex_route = ''10.1.0.0/24''"
  "servers ex_world = [\<lparr>srv_ID = ''s1'', srv_Name = ''n1'',
                  srv_Addresses = Inr [\<lparr>na_Type = NodeInternalIP, na_Address = ''10.0.0.5''\<rparr>]\<rparr>]"
  "interfaces ex_world = [''s1'' \<mapsto> [\<lparr>PortID = ''p1'',
                                 FixedIPs = [\<lparr>fip_SubnetID = ''sub1'', fip_IPAddress = ''10.0.0.5''\<rparr>]\<rparr>]]"
  by (simp_all add: ex_defs)

subsection \<open>A run reads the script only up to its last remote call\<close>

lemma locate_port_local:
  assumes "locate_port node nh w k = (x, evs)"
      and "\<forall>k'. k' < k + length evs \<longrightarrow> f k' = faults w k'"
  shows "locate_port node nh (w\<lparr>faults := f\<rparr>) k = (x, evs)"
  using assms
  by (auto simp: locate_port_def split: option.splits sum.splits)


lemma create_attempt_local:
  assumes agree: "\<forall>k. k < length (trace w) + length (a_events (create_attempt r route nh w)) \<longrightarrow>
                      f k = faults w k"
  shows "create_attempt r route nh (w\<lparr>faults := f\<rparr>) = create_attempt r route nh w"
proof (cases "faults w (length (trace w))")
  case (Some e)
  with agree show ?thesis
    by (simp add: create_attempt_def Let_def)
next
  case f0: None
  show ?thesis
  proof (cases "routers w (RouterID (opts r))")
    case None
    with f0 agree show ?thesis
      by (simp add: create_attempt_def Let_def)
  next
    case tbl: (Some tbl)
    show ?thesis
    proof (cases "route_exists (DestinationCIDR route) nh tbl")
      case True
      with f0 tbl agree show ?thesis
        by (simp add: create_attempt_def Let_def)
    next
      case nex: False
      show ?thesis
      proof (cases "faults w (Suc (length (trace w)))")
        case (Some e)
        with f0 tbl nex agree show ?thesis
          by (simp add: create_attempt_def Let_def)
      next
        case f1: None
        show ?thesis
        proof (cases "locate_port (TargetNode route) nh w (Suc (Suc (length (trace w))))")
          case (Pair x evs)
          show ?thesis
          proof (cases x)
            case (Inl err)
            have ag: "\<forall>k. k < Suc (Suc (length (trace w))) + length evs \<longrightarrow> f k = faults w k"
              using agree f0 tbl nex f1 Pair Inl by (simp add: create_attempt_def Let_def)
            have loc: "locate_port (TargetNode route) nh (w\<lparr>faults := f\<rparr>) (Suc (Suc (length (trace w)))) =
                (Inl err, evs)"
              using locate_port_local[OF Pair[unfolded Inl]] ag by blast
            have fs: "f (length (trace w)) = None" "f (Suc (length (trace w))) = None"
              using ag f0 f1 by simp_all
            show ?thesis
              using f0 tbl nex f1 Pair Inl loc fs
              by (simp add: create_attempt_def Let_def)
          next
            case (Inr pp)
            obtain pid ps where pp: "pp = (pid, ps)" by (cases pp)
            have len: "length evs = 3"
              using Pair Inr by (simp add: locate_port_length)
            show ?thesis
            proof (cases "pair_exists (DestinationCIDR route) ps")
              case True
              have ag: "\<forall>k. k < Suc (Suc (length (trace w))) + length evs \<longrightarrow> f k = faults w k"
                using agree f0 tbl nex f1 Pair Inr pp True by (simp add: create_attempt_def Let_def)
              have loc: "locate_port (TargetNode route) nh (w\<lparr>faults := f\<rparr>) (Suc (Suc (length (trace w)))) =
                  (Inr (pid, ps), evs)"
                using locate_port_local[OF Pair[unfolded Inr pp]] ag by blast
              have fs: "f (length (trace w)) = None" "f (Suc (length (trace w))) = None"
                using ag f0 f1 by simp_all
              show ?thesis
                using f0 tbl nex f1 Pair Inr pp True loc fs
                by (simp add: create_attempt_def Let_def)
            next
              case npx: False
              have ag: "\<forall>k. k < length (trace w) + 6 \<longrightarrow> f k = faults w k"
                using agree f0 tbl nex f1 Pair Inr pp npx len
                by (cases "faults w (length (trace w) + 5)") (simp_all add: create_attempt_def Let_def)
              have loc: "locate_port (TargetNode route) nh (w\<lparr>faults := f\<rparr>) (Suc (Suc (length (trace w)))) =
                  (Inr (pid, ps), evs)"
                using locate_port_local[OF Pair[unfolded Inr pp]] ag len by simp
              have fs: "f (length (trace w)) = None" "f (Suc (length (trace w))) = None"
                "f (length (trace w) + 5) = faults w (length (trace w) + 5)"
                using ag f0 f1 by simp_all
              show ?thesis
                using f0 tbl nex f1 Pair Inr pp npx loc fs
                by (simp add: create_attempt_def Let_def cong: option.case_cong)
            qed
          qed
        qed
      qed
    qed
  qed
qed

lemma delete_attempt_local:
  assumes agree: "\<forall>k. k < length (trace w) + length (a_events (delete_attempt r route nh w)) \<longrightarrow>
                      f k = faults w k"
  shows "delete_attempt r route nh (w\<lparr>faults := f\<rparr>) = delete_attempt r route nh w"
proof (cases "faults w (length (trace w))")
  case (Some e)
  with agree show ?thesis
    by (simp add: delete_attempt_def Let_def)
next
  case f0: None
  show ?thesis
  proof (cases "routers w (RouterID (opts r))")
    case None
    with f0 agree show ?thesis
      by (simp add: delete_attempt_def Let_def)
  next
    case tbl: (Some tbl)
    show ?thesis
    proof (cases "route_index (DestinationCIDR route) nh tbl 0")
      case None
      with f0 tbl agree show ?thesis
        by (simp add: delete_attempt_def Let_def)
    next
      case idx: (Some i)
      show ?thesis
      proof (cases "faults w (Suc (length (trace w)))")
        case (Some e)
        with f0 tbl idx agree show ?thesis
          by (simp add: delete_attempt_def Let_def)
      next
        case f1: None
        show ?thesis
        proof (cases "locate_port (TargetNode route) nh w (Suc (Suc (length (trace w))))")
          case (Pair x evs)
          show ?thesis
          proof (cases x)
            case (Inl err)
            have ag: "\<forall>k. k < Suc (Suc (length (trace w))) + length evs \<longrightarrow> f k = faults w k"
              using agree f0 tbl idx f1 Pair Inl by (simp add: delete_attempt_def Let_def)
            have loc: "locate_port (TargetNode route) nh (w\<lparr>faults := f\<rparr>) (Suc (Suc (length (trace w)))) =
                (Inl err, evs)"
              using locate_port_local[OF Pair[unfolded Inl]] ag by blast
            have fs: "f (length (trace w)) = None" "f (Suc (length (trace w))) = None"
              using ag f0 f1 by simp_all
            show ?thesis
              using f0 tbl idx f1 Pair Inl loc fs
              by (simp add: delete_attempt_def Let_def)
          next
            case (Inr pp)
            obtain pid ps where pp: "pp = (pid, ps)" by (cases pp)
            have len: "length evs = 3"
              using Pair Inr by (simp add: locate_port_length)
            show ?thesis
            proof (cases "pair_index (DestinationCIDR route) ps 0")
              case None
              have ag: "\<forall>k. k < Suc (Suc (length (trace w))) + length evs \<longrightarrow> f k = faults w k"
                using agree f0 tbl idx f1 Pair Inr pp None by (simp add: delete_attempt_def Let_def)
              have loc: "locate_port (TargetNode route) nh (w\<lparr>faults := f\<rparr>) (Suc (Suc (length (trace w)))) =
                  (Inr (pid, ps), evs)"
                using locate_port_local[OF Pair[unfolded Inr pp]] ag by blast
              have fs: "f (length (trace w)) = None" "f (Suc (length (trace w))) = None"
                using ag f0 f1 by simp_all
              show ?thesis
                using f0 tbl idx f1 Pair Inr pp None loc fs
                by (simp add: delete_attempt_def Let_def)
            next
              case pidx: (Some j)
              have ag: "\<forall>k. k < length (trace w) + 6 \<longrightarrow> f k = faults w k"
                using agree f0 tbl idx f1 Pair Inr pp pidx len
                by (cases "faults w (length (trace w) + 5)") (simp_all add: delete_attempt_def Let_def)
              have loc: "locate_port (TargetNode route) nh (w\<lparr>faults := f\<rparr>) (Suc (Suc (length (trace w)))) =
                  (Inr (pid, ps), evs)"
                using locate_port_local[OF Pair[unfolded Inr pp]] ag len by simp
              have fs: "f (length (trace w)) = None" "f (Suc (length (trace w))) = None"
                "f (length (trace w) + 5) = faults w (length (trace w) + 5)"
                using ag f0 f1 by simp_all
              show ?thesis
                using f0 tbl idx f1 Pair Inr pp pidx loc fs
                by (simp add: delete_attempt_def Let_def cong: option.case_cong)
            qed
          qed
        qed
      qed
    qed
  qed
qed

lemma resolve_local:
  assumes "f (length (trace w)) = faults w (length (trace w))"
  shows "resolve lib route (w\<lparr>faults := f\<rparr>) = resolve lib route w"
  using assms by (simp add: resolve_def Let_def cong: option.case_cong)

lemma run_trace:
  assumes "observes w rw out" and "rw = (res, w')"
  shows "trace w' = trace w @ o_events out"
  using assms by (simp add: observes_def)

lemma settle_ret: "o_ret (settle w rid a) = a_ret a"
  by (simp add: settle_def split: option.splits)

lemma whole_run_ret_stable:
  assumes loc: "\<And>u g. (\<forall>k. k < length (trace u) + length (a_events (att r route nh u)) \<longrightarrow> g k = faults u k)
                  \<Longrightarrow> att r route nh (u\<lparr>faults := g\<rparr>) = att r route nh u"
      and res: "resolve lib route w = (Inr nh, [ev])"
      and undo: "a_undo (att r route nh (w\<lparr>trace := trace w @ [ev]\<rparr>)) = Some u"
  shows "o_ret (whole_run att lib r route
            (w\<lparr>faults := (faults w)(length (trace w) + length (o_events (whole_run att lib r route w)) - 1 := x)\<rparr>))
         = o_ret (whole_run att lib r route w)"
    and "last (o_events (whole_run att lib r route w)) =
           (RouterUpdate (RouterID (opts r)) u,
            faults w (length (trace w) + length (o_events (whole_run att lib r route w)) - 1))"
    and "o_warnings (whole_run att lib r route w) =
           (case faults w (length (trace w) + length (o_events (whole_run att lib r route w)) - 1) of
              None \<Rightarrow> [] | Some e \<Rightarrow> [(''Unable to reset routes during error unwind: '', e)])"
proof -
  let ?w1 = "w\<lparr>trace := trace w @ [ev]\<rparr>"
  let ?A = "att r route nh ?w1"
  let ?n = "length (a_events ?A)"
  let ?K = "Suc (length (trace w) + ?n)"
  have len: "length (o_events (whole_run att lib r route w)) = ?n + 2"
    using undo by (simp add: whole_run_def res Let_def settle_def split: option.splits)
  then have K: "length (trace w) + length (o_events (whole_run att lib r route w)) - 1 = ?K"
    by simp
  let ?f = "(faults w)(?K := x)"
  have r2: "resolve lib route (w\<lparr>faults := ?f\<rparr>) = (Inr nh, [ev])"
    using resolve_local[of ?f w lib route] res by simp
  have a1: "att r route nh (?w1\<lparr>faults := ?f\<rparr>) = ?A"
    by (rule loc) simp
  have swap: "w\<lparr>faults := ?f, trace := trace w @ [ev]\<rparr> = ?w1\<lparr>faults := ?f\<rparr>"
    by (cases w) simp
  have a2: "att r route nh (w\<lparr>faults := ?f, trace := trace w @ [ev]\<rparr>) = ?A"
    by (simp only: swap a1)
  show "o_ret (whole_run att lib r route
            (w\<lparr>faults := (faults w)(length (trace w) + length (o_events (whole_run att lib r route w)) - 1 := x)\<rparr>))
         = o_ret (whole_run att lib r route w)"
    unfolding K
    by (simp add: whole_run_def r2 res Let_def a2 settle_ret)
  show "last (o_events (whole_run att lib r route w)) =
           (RouterUpdate (RouterID (opts r)) u,
            faults w (length (trace w) + length (o_events (whole_run att lib r route w)) - 1))"
    unfolding K
    using undo by (simp add: whole_run_def res Let_def settle_def split: option.splits)
  show "o_warnings (whole_run att lib r route w) =
           (case faults w (length (trace w) + length (o_events (whole_run att lib r route w)) - 1) of
              None \<Rightarrow> [] | Some e \<Rightarrow> [(''Unable to reset routes during error unwind: '', e)])"
    unfolding K
    using undo by (simp add: whole_run_def res Let_def settle_def split: option.splits)
qed

lemma create_attempt_undo:
  assumes "find is_write (ev0 # a_events (create_attempt r route nh w)) = Some (RouterUpdate rid p, None)"
      and "\<not> is_write ev0"
      and "a_ret (create_attempt r route nh w) \<noteq> None"
  shows "\<exists>u. a_undo (create_attempt r route nh w) = Some u"
proof (cases rule: create_attempt_cases[of r route nh w])
  case (get_failed e)
  with assms show ?thesis by (simp add: is_write_def)
next
  case (present tbl)
  with assms show ?thesis by simp
next
  case (write_failed tbl e)
  with assms show ?thesis by (simp add: is_write_def)
next
  case (lookup_failed tbl err evs)
  then show ?thesis by simp
next
  case (filter_present tbl pid ps evs)
  with assms show ?thesis by simp
next
  case (filter_failed tbl pid ps evs e)
  then show ?thesis by simp
next
  case (created tbl pid ps evs)
  with assms show ?thesis by simp
qed

lemma delete_attempt_undo:
  assumes "find is_write (ev0 # a_events (delete_attempt r route nh w)) = Some (RouterUpdate rid p, None)"
      and "\<not> is_write ev0"
      and "a_ret (delete_attempt r route nh w) \<noteq> None"
  shows "\<exists>u. a_undo (delete_attempt r route nh w) = Some u"
proof (cases rule: delete_attempt_cases[of r route nh w])
  case (get_failed e)
  with assms show ?thesis by (simp add: is_write_def)
next
  case (absent tbl)
  with assms show ?thesis by simp
next
  case (write_failed tbl i e)
  with assms show ?thesis by (simp add: is_write_def)
next
  case (lookup_failed tbl i err evs)
  then show ?thesis by simp
next
  case (filter_absent tbl i pid ps evs)
  with assms show ?thesis by simp
next
  case (filter_failed tbl i pid ps evs j e)
  then show ?thesis by simp
next
  case (deleted tbl i pid ps evs j)
  with assms show ?thesis by simp
qed

lemma whole_run_compensated:
  assumes loc: "\<And>nh u g. (\<forall>k. k < length (trace u) + length (a_events (att r route nh u)) \<longrightarrow> g k = faults u k)
                  \<Longrightarrow> att r route nh (u\<lparr>faults := g\<rparr>) = att r route nh u"
      and undo: "\<And>nh u ev0 p. find is_write (ev0 # a_events (att r route nh u)) =
                     Some (RouterUpdate (RouterID (opts r)) p, None) \<Longrightarrow> \<not> is_write ev0 \<Longrightarrow>
                   a_ret (att r route nh u) \<noteq> None \<Longrightarrow> \<exists>x. a_undo (att r route nh u) = Some x"
      and committed: "find is_write (o_events (whole_run att lib r route w)) =
                        Some (RouterUpdate (RouterID (opts r)) p, None)"
      and failed: "o_ret (whole_run att lib r route w) \<noteq> None"
  shows "(\<forall>x. o_ret (whole_run att lib r route
            (w\<lparr>faults := (faults w)(length (trace w) + length (o_events (whole_run att lib r route w)) - 1 := x)\<rparr>))
         = o_ret (whole_run att lib r route w)) \<and>
         (\<exists>u. last (o_events (whole_run att lib r route w)) =
           (RouterUpdate (RouterID (opts r)) u,
            faults w (length (trace w) + length (o_events (whole_run att lib r route w)) - 1))) \<and>
         o_warnings (whole_run att lib r route w) =
           (case faults w (length (trace w) + length (o_events (whole_run att lib r route w)) - 1) of
              None \<Rightarrow> [] | Some e \<Rightarrow> [(''Unable to reset routes during error unwind: '', e)])"
proof (cases "resolve lib route w")
  case (Pair x evs)
  show ?thesis
  proof (cases x)
    case (Inl err)
    with Pair resolve_Inl[of lib route w err evs] committed show ?thesis
      by (auto simp: whole_run_def is_write_def)
  next
    case (Inr nh)
    with Pair resolve_Inr[of lib route w nh evs]
    have res: "resolve lib route w = (Inr nh, [(ServerGet (TargetNode route), None)])" by simp
    let ?ev = "(ServerGet (TargetNode route), None)"
    let ?w1 = "w\<lparr>trace := trace w @ [?ev]\<rparr>"
    let ?A = "att r route nh ?w1"
    have nw: "\<not> is_write ?ev" by (simp add: is_write_def)
    have ret: "a_ret ?A \<noteq> None"
      using failed by (simp add: whole_run_def res Let_def settle_def split: option.splits)
    have "\<exists>u. a_undo ?A = Some u"
    proof (cases "a_undo ?A")
      case None
      then have "find is_write (?ev # a_events ?A) = Some (RouterUpdate (RouterID (opts r)) p, None)"
        using committed by (simp add: whole_run_def res Let_def settle_def)
      from undo[OF this nw ret] show ?thesis .
    next
      case (Some u)
      then show ?thesis by simp
    qed
    then obtain u where u: "a_undo ?A = Some u" by blast
    have L: "\<And>u g. (\<forall>k. k < length (trace u) + length (a_events (att r route nh u)) \<longrightarrow> g k = faults u k)
                  \<Longrightarrow> att r route nh (u\<lparr>faults := g\<rparr>) = att r route nh u"
      by (rule loc)
    note st = whole_run_ret_stable[where att = att and r = r and route = route and nh = nh, OF L res u]
    from st(1) st(2) st(3) show ?thesis by blast
  qed
qed

subsection \<open>The error that triggers compensation\<close>

lemma port_of_ip_Inl: "port_of_ip ip intfs = Inl err \<Longrightarrow> err = ErrNotFound"
  by (induction intfs) (auto split: if_splits)

lemma locate_port_trigger:
  assumes "locate_port node nh w k = (Inl err, evs)"
  shows "evs \<noteq> []"
    and "\<forall>ev\<in>set (butlast evs). snd ev = None"
    and "err = (case snd (last evs) of Some e \<Rightarrow> e | None \<Rightarrow> ErrNotFound)"
    and "snd (last evs) = None \<longrightarrow> (\<exists>sid. fst (last evs) = InterfacesGet sid)"
  using assms
  by (auto simp: locate_port_def dest: port_of_ip_Inl split: option.splits sum.splits)

lemma locate_port_accepted:
  assumes "locate_port node nh w k = (Inr x, evs)"
  shows "\<forall>ev\<in>set evs. snd ev = None"
  using assms
  by (auto simp: locate_port_def split: option.splits sum.splits)

lemma create_attempt_trigger:
  assumes "a_undo (create_attempt r route nh w) = Some x"
  shows "a_events (create_attempt r route nh w) \<noteq> []"
    and "\<forall>ev\<in>set (butlast (a_events (create_attempt r route nh w))). snd ev = None"
    and "a_ret (create_attempt r route nh w) =
           Some (case snd (last (a_events (create_attempt r route nh w))) of
                   Some e \<Rightarrow> e | None \<Rightarrow> ErrNotFound)"
    and "snd (last (a_events (create_attempt r route nh w))) = None \<longrightarrow>
           (\<exists>sid. fst (last (a_events (create_attempt r route nh w))) = InterfacesGet sid)"
proof -
  let ?A = "create_attempt r route nh w"
  have "a_events ?A \<noteq> [] \<and> (\<forall>ev\<in>set (butlast (a_events ?A)). snd ev = None) \<and>
        a_ret ?A = Some (case snd (last (a_events ?A)) of Some e \<Rightarrow> e | None \<Rightarrow> ErrNotFound) \<and>
        (snd (last (a_events ?A)) = None \<longrightarrow> (\<exists>sid. fst (last (a_events ?A)) = InterfacesGet sid))"
  proof (cases rule: create_attempt_cases[of r route nh w])
    case (get_failed e)
    with assms show ?thesis by simp
  next
    case (present tbl)
    with assms show ?thesis by simp
  next
    case (write_failed tbl e)
    with assms show ?thesis by simp
  next
    case (lookup_failed tbl err evs)
    note t = locate_port_trigger[OF lookup_failed(3)]
    show ?thesis
      using t by (simp add: lookup_failed(4))
  next
    case (filter_present tbl pid ps evs)
    with assms show ?thesis by simp
  next
    case (filter_failed tbl pid ps evs e)
    note t = locate_port_accepted[OF filter_failed(3)]
    show ?thesis
      using t by (simp add: filter_failed(5) butlast_append)
  next
    case (created tbl pid ps evs)
    with assms show ?thesis by simp
  qed
  then show "a_events ?A \<noteq> []"
    and "\<forall>ev\<in>set (butlast (a_events ?A)). snd ev = None"
    and "a_ret ?A = Some (case snd (last (a_events ?A)) of Some e \<Rightarrow> e | None \<Rightarrow> ErrNotFound)"
    and "snd (last (a_events ?A)) = None \<longrightarrow> (\<exists>sid. fst (last (a_events ?A)) = InterfacesGet sid)"
    by blast+
qed

lemma delete_attempt_trigger:
  assumes "a_undo (delete_attempt r route nh w) = Some x"
  shows "a_events (delete_attempt r route nh w) \<noteq> []"
    and "\<forall>ev\<in>set (butlast (a_events (delete_attempt r route nh w))). snd ev = None"
    and "a_ret (delete_attempt r route nh w) =
           Some (case snd (last (a_events (delete_attempt r route nh w))) of
                   Some e \<Rightarrow> e | None \<Rightarrow> ErrNotFound)"
    and "snd (last (a_events (delete_attempt r route nh w))) = None \<longrightarrow>
           (\<exists>sid. fst (last (a_events (delete_attempt r route nh w))) = InterfacesGet sid)"
proof -
  let ?A = "delete_attempt r route nh w"
  have "a_events ?A \<noteq> [] \<and> (\<forall>ev\<in>set (butlast (a_events ?A)). snd ev = None) \<and>
        a_ret ?A = Some (case snd (last (a_events ?A)) of Some e \<Rightarrow> e | None \<Rightarrow> ErrNotFound) \<and>
        (snd (last (a_events ?A)) = None \<longrightarrow> (\<exists>sid. fst (last (a_events ?A)) = InterfacesGet sid))"
  proof (cases rule: delete_attempt_cases[of r route nh w])
    case (get_failed e)
    with assms show ?thesis by simp
  next
    case (absent tbl)
    with assms show ?thesis by simp
  next
    case (write_failed tbl i e)
    with assms show ?thesis by simp
  next
    case (lookup_failed tbl i err evs)
    note t = locate_port_trigger[OF lookup_failed(3)]
    show ?thesis
      using t by (simp add: lookup_failed(4))
  next
    case (filter_absent tbl i pid ps evs)
    with assms show ?thesis by simp
  next
    case (filter_failed tbl i pid ps evs j e)
    note t = locate_port_accepted[OF filter_failed(3)]
    show ?thesis
      using t by (simp add: filter_failed(5) butlast_append)
  next
    case (deleted tbl i pid ps evs j)
    with assms show ?thesis by simp
  qed
  then show "a_events ?A \<noteq> []"
    and "\<forall>ev\<in>set (butlast (a_events ?A)). snd ev = None"
    and "a_ret ?A = Some (case snd (last (a_events ?A)) of Some e \<Rightarrow> e | None \<Rightarrow> ErrNotFound)"
    and "snd (last (a_events ?A)) = None \<longrightarrow> (\<exists>sid. fst (last (a_events ?A)) = InterfacesGet sid)"
    by blast+
qed

lemma whole_run_trigger:
  assumes trig: "\<And>nh u x. a_undo (att r route nh u) = Some x \<Longrightarrow>
                   a_events (att r route nh u) \<noteq> [] \<and>
                   (\<forall>ev\<in>set (butlast (a_events (att r route nh u))). snd ev = None) \<and>
                   a_ret (att r route nh u) =
                     Some (case snd (last (a_events (att r route nh u))) of
                             Some e \<Rightarrow> e | None \<Rightarrow> ErrNotFound) \<and>
                   (snd (last (a_events (att r route nh u))) = None \<longrightarrow>
                     (\<exists>sid. fst (last (a_events (att r route nh u))) = InterfacesGet sid))"
      and undo: "\<And>nh u ev0 p. find is_write (ev0 # a_events (att r route nh u)) =
                     Some (RouterUpdate (RouterID (opts r)) p, None) \<Longrightarrow> \<not> is_write ev0 \<Longrightarrow>
                   a_ret (att r route nh u) \<noteq> None \<Longrightarrow> \<exists>x. a_undo (att r route nh u) = Some x"
      and committed: "find is_write (o_events (whole_run att lib r route w)) =
                        Some (RouterUpdate (RouterID (opts r)) p, None)"
      and failed: "o_ret (whole_run att lib r route w) \<noteq> None"
  shows "(\<forall>ev\<in>set (butlast (butlast (o_events (whole_run att lib r route w)))). snd ev = None) \<and>
         o_ret (whole_run att lib r route w) =
           Some (case snd (last (butlast (o_events (whole_run att lib r route w)))) of
                   Some e \<Rightarrow> e | None \<Rightarrow> ErrNotFound) \<and>
         (snd (last (butlast (o_events (whole_run att lib r route w)))) = None \<longrightarrow>
            (\<exists>sid. fst (last (butlast (o_events (whole_run att lib r route w)))) = InterfacesGet sid))"
proof (cases "resolve lib route w")
  case (Pair x evs)
  show ?thesis
  proof (cases x)
    case (Inl err)
    with Pair resolve_Inl[of lib route w err evs] committed show ?thesis
      by (auto simp: whole_run_def is_write_def)
  next
    case (Inr nh)
    with Pair resolve_Inr[of lib route w nh evs]
    have res: "resolve lib route w = (Inr nh, [(ServerGet (TargetNode route), None)])" by simp
    let ?ev = "(ServerGet (TargetNode route), None)"
    let ?w1 = "w\<lparr>trace := trace w @ [?ev]\<rparr>"
    let ?A = "att r route nh ?w1"
    have nw: "\<not> is_write ?ev" by (simp add: is_write_def)
    have ret: "a_ret ?A \<noteq> None"
      using failed by (simp add: whole_run_def res Let_def settle_ret)
    have "\<exists>u. a_undo ?A = Some u"
    proof (cases "a_undo ?A")
      case None
      then have "find is_write (?ev # a_events ?A) = Some (RouterUpdate (RouterID (opts r)) p, None)"
        using committed by (simp add: whole_run_def res Let_def settle_def)
      from undo[OF this nw ret] show ?thesis .
    next
      case (Some u)
      then show ?thesis by simp
    qed
    then obtain u where u: "a_undo ?A = Some u" by blast
    note t = trig[OF u]
    from t have ne: "a_events ?A \<noteq> []" by blast
    have "\<exists>c. o_events (whole_run att lib r route w) = (?ev # a_events ?A) @ [c]"
      using u by (simp add: whole_run_def res Let_def settle_def split: option.splits)
    then obtain c where ev: "o_events (whole_run att lib r route w) = (?ev # a_events ?A) @ [c]"
      by blast
    have b1: "butlast (o_events (whole_run att lib r route w)) = ?ev # a_events ?A"
      unfolding ev by (rule butlast_snoc)
    have b2: "butlast (?ev # a_events ?A) = ?ev # butlast (a_events ?A)"
      using ne by simp
    have l: "last (?ev # a_events ?A) = last (a_events ?A)"
      using ne by simp
    have r: "o_ret (whole_run att lib r route w) = a_ret ?A"
      by (simp add: whole_run_def res Let_def settle_ret)
    show ?thesis
      unfolding b1 b2 l r using t by simp
  qed
qed

section \<open>The claims\<close>

text \<open>
  Claim C4. A DeleteRoute call whose next hop resolves (to \<open>nh\<close>) and whose fetched route
  table holds no entry for the route's CIDR and that next hop returns success; its only
  remote calls are the two reads, so it writes nothing and leaves the route tables and the
  address filters as they were.
\<close>

theorem DeleteRoute_absent_route_is_noop:
  assumes run: "DeleteRoute lib r route w = (res, w')"
      and fetched: "(RouterGet (RouterID (opts r)), None) \<in> set (events_of w w')"
      and nh: "node_nexthop lib route w = Some nh"
      and tbl: "routers w (RouterID (opts r)) = Some tbl"
      and absent: "route_count (DestinationCIDR route) nh tbl = 0"
  shows "res = None \<and>
         events_of w w' = [(ServerGet (TargetNode route), None), (RouterGet (RouterID (opts r)), None)] \<and>
         routers w' = routers w \<and> ports w' = ports w"
proof -
  note facts = run_facts[OF DeleteRoute_refines run]
  show ?thesis
  proof (cases "resolve lib route w")
    case (Pair x evs)
    show ?thesis
    proof (cases x)
      case (Inl err)
      with Pair fetched facts resolve_Inl[of lib route w err evs] show ?thesis
        by (auto simp: DeleteRoute_outcome_def whole_run_def)
    next
      case (Inr nh')
      with Pair resolve_Inr[of lib route w nh' evs] nh
      have *: "nh' = nh" "evs = [(ServerGet (TargetNode route), None)]" by simp_all
      have idx: "route_index (DestinationCIDR route) nh tbl 0 = None"
        using absent by (simp add: route_index_None_iff)
      have f1: "faults w (Suc (length (trace w))) = None"
        using fetched unfolding facts
        by (simp add: DeleteRoute_outcome_def whole_run_def Pair Inr * Let_def settle_def
            delete_attempt_def tbl idx split: option.splits)
      show ?thesis
        unfolding facts
        by (simp add: DeleteRoute_outcome_def whole_run_def Pair Inr * Let_def settle_def
            delete_attempt_def tbl idx f1)
    qed
  qed
qed

theorem DeleteRoute_absent_route_is_noop_witness:
  "fst (DeleteRoute ex_lib ex_engine ex_route ex_world) = None \<and>
   events_of ex_world (snd (DeleteRoute ex_lib ex_engine ex_route ex_world)) =
     [(ServerGet ''n1'', None), (RouterGet ''r1'', None)] \<and>
   routers (snd (DeleteRoute ex_lib ex_engine ex_route ex_world)) = routers ex_world \<and>
   ports (snd (DeleteRoute ex_lib ex_engine ex_route ex_world)) = ports ex_world"
proof -
  have run: "DeleteRoute ex_lib ex_engine ex_route ex_world =
      (fst (DeleteRoute ex_lib ex_engine ex_route ex_world), snd (DeleteRoute ex_lib ex_engine ex_route ex_world))"
    by simp
  have fetched: "(RouterGet (RouterID (opts ex_engine)), None)
      \<in> set (events_of ex_world (snd (DeleteRoute ex_lib ex_engine ex_route ex_world)))"
    by (simp add: DeleteRoute_view ex_delete) (simp add: ex_engine_def)
  have nh: "node_nexthop ex_lib ex_route ex_world = Some ''10.0.0.5''"
    by (simp add: outcome_defs ex_defs)
  have tbl: "routers ex_world (RouterID (opts ex_engine)) = Some []"
    by (simp add: ex_defs)
  have absent: "route_count (DestinationCIDR ex_route) ''10.0.0.5'' [] = 0"
    by (simp add: route_count_def)
  from DeleteRoute_absent_route_is_noop[OF run fetched nh tbl absent] show ?thesis
    by (simp add: ex_engine_def ex_route_def)
qed


text \<open>
  Claim C9. \<open>NewRoutes\<close> with an empty router identifier fails with \<open>errNoRouterID\<close> and
  yields no engine; with a non-empty identifier it yields the engine that holds the two
  clients and the options.
\<close>

theorem NewRoutes_needs_router_id:
  "(RouterID router_opts = [] \<longrightarrow>
      NewRoutes compute_client network_client router_opts = Inl errNoRouterID) \<and>
   (RouterID router_opts \<noteq> [] \<longrightarrow>
      NewRoutes compute_client network_client router_opts =
        Inr \<lparr>compute = compute_client, network = network_client, opts = router_opts\<rparr>)"
  by (simp add: NewRoutes_def)

theorem NewRoutes_needs_router_id_witness:
  "NewRoutes (ServiceClient ''compute'') (ServiceClient ''network'') \<lparr>RouterID = []\<rparr> = Inl errNoRouterID \<and>
   NewRoutes (ServiceClient ''compute'') (ServiceClient ''network'') \<lparr>RouterID = ''r1''\<rparr> = Inr ex_engine"
  using NewRoutes_needs_router_id[of "\<lparr>RouterID = []\<rparr>" "ServiceClient ''compute''" "ServiceClient ''network''"]
    NewRoutes_needs_router_id[of "\<lparr>RouterID = ''r1''\<rparr>" "ServiceClient ''compute''" "ServiceClient ''network''"]
  by (simp add: ex_engine_def)

text \<open>
  Claim C10. A CreateRoute or DeleteRoute call whose CIDR does not parse, for a node that
  resolves to at least one address, returns \<open>ErrNoAddressFound\<close>: the parse error is
  dropped, the nil IP prints as \<^verbatim>\<open><nil>\<close>, which neither validator accepts, so both
  family flags are false and no address matches. The only remote call is the lookup of
  the node: nothing is written. The two validators are parameters; that they reject the
  text \<^verbatim>\<open><nil>\<close> is assumed of them.
\<close>

theorem unparseable_cidr_finds_no_address:
  assumes op: "op = CreateRoute \<or> op = DeleteRoute"
      and cidr: "ParseCIDR lib (DestinationCIDR route) = None"
      and nil4: "\<not> IsIPv4 lib ''<nil>''"
      and nil6: "\<not> IsIPv6 lib ''<nil>''"
      and addrs: "getAddressesByName (TargetNode route) w = (Inr addrs, w1)"
      and ne: "addrs \<noteq> []"
  shows "op lib r route w = (Some ErrNoAddressFound, w1) \<and>
         events_of w w1 = [(ServerGet (TargetNode route), None)] \<and>
         routers w1 = routers w \<and> ports w1 = ports w"
proof -
  have "chosen_nexthop lib route addrs = []"
    using nil4 nil6 by (simp add: chosen_nexthop_def cidr IP_String_def nexthop_loop_no_family)
  then have "CreateRoute lib r route w = (Some ErrNoAddressFound, w1)"
    and "DeleteRoute lib r route w = (Some ErrNoAddressFound, w1)"
    using body_no_address[OF addrs] by simp_all
  moreover have "w1 = w\<lparr>trace := trace w @ [(ServerGet (TargetNode route), None)]\<rparr>"
    using addrs by (rule getAddressesByName_Inr)
  ultimately show ?thesis using op by (auto simp: events_of_def)
qed

theorem unparseable_cidr_finds_no_address_witness:
  "CreateRoute ex_lib ex_engine (ex_route\<lparr>DestinationCIDR := ''not-a-cidr''\<rparr>) ex_world =
     (Some ErrNoAddressFound, snd (getAddressesByName ''n1'' ex_world)) \<and>
   DeleteRoute ex_lib ex_engine (ex_route\<lparr>DestinationCIDR := ''not-a-cidr''\<rparr>) ex_world =
     (Some ErrNoAddressFound, snd (getAddressesByName ''n1'' ex_world)) \<and>
   events_of ex_world (snd (getAddressesByName ''n1'' ex_world)) = [(ServerGet ''n1'', None)] \<and>
   routers (snd (getAddressesByName ''n1'' ex_world)) = routers ex_world \<and>
   ports (snd (getAddressesByName ''n1'' ex_world)) = ports ex_world"
proof -
  let ?route = "ex_route\<lparr>DestinationCIDR := ''not-a-cidr''\<rparr>"
  let ?addrs = "[\<lparr>na_Type = NodeInternalIP, na_Address = ''10.0.0.5''\<rparr>]"
  have cidr: "ParseCIDR ex_lib (DestinationCIDR ?route) = None"
    by (simp add: ex_lib_def)
  have nil4: "\<not> IsIPv4 ex_lib ''<nil>''" and nil6: "\<not> IsIPv6 ex_lib ''<nil>''"
    by (simp_all add: ex_lib_def)
  have addrs: "getAddressesByName (TargetNode ?route) ex_world =
      (Inr ?addrs, snd (getAddressesByName ''n1'' ex_world))"
    by (simp add: head_step ex_world_def ex_route_def)
  have ne: "?addrs \<noteq> []" by simp
  from unparseable_cidr_finds_no_address[OF _ cidr nil4 nil6 addrs ne, of CreateRoute ex_engine]
    unparseable_cidr_finds_no_address[OF _ cidr nil4 nil6 addrs ne, of DeleteRoute ex_engine]
  show ?thesis by (simp add: ex_route_def)
qed


text \<open>
  Claim C6. For CreateRoute and DeleteRoute alike: when the node has no address, or none
  that is internal and of the CIDR's family, the call fails with \<open>ErrNoAddressFound\<close>;
  otherwise the next hop is the first such address of the resolved list, and the call
  goes on with it. An accepted address is internal, and under a CIDR that is only v4
  (only v6) it is one the v4 (v6) check accepts.
\<close>

theorem nexthop_is_first_internal_address_of_family:
  assumes op: "(op = CreateRoute \<and> rest = CreateRoute_tail) \<or> (op = DeleteRoute \<and> rest = DeleteRoute_tail)"
      and addrs: "getAddressesByName (TargetNode route) w = (Inr addrs, w1)"
  shows "(addrs = [] \<or> (\<forall>a \<in> set addrs. \<not> usable lib route a) \<longrightarrow>
            op lib r route w = (Some ErrNoAddressFound, w1)) \<and>
         (\<forall>i < length addrs.
            usable lib route (addrs ! i) \<and> (\<forall>j < i. \<not> usable lib route (addrs ! j)) \<longrightarrow>
              chosen_nexthop lib route addrs = na_Address (addrs ! i) \<and>
              (na_Address (addrs ! i) \<noteq> [] \<longrightarrow>
                 op lib r route w = finish (rest r route (na_Address (addrs ! i)) newCaller w1))) \<and>
         (\<forall>a. usable lib route a \<longrightarrow>
            na_Type a = NodeInternalIP \<and>
            (IsIPv4 lib (IP_String (ParseCIDR lib (DestinationCIDR route))) \<and>
             \<not> IsIPv6 lib (IP_String (ParseCIDR lib (DestinationCIDR route))) \<longrightarrow>
               IsIPv4 lib (na_Address a)) \<and>
            (IsIPv6 lib (IP_String (ParseCIDR lib (DestinationCIDR route))) \<and>
             \<not> IsIPv4 lib (IP_String (ParseCIDR lib (DestinationCIDR route))) \<longrightarrow>
               IsIPv6 lib (na_Address a)))"
proof (intro conjI allI impI)
  assume "addrs = [] \<or> (\<forall>a \<in> set addrs. \<not> usable lib route a)"
  then have "addrs = [] \<or> chosen_nexthop lib route addrs = []"
    using chosen_nexthop_none by blast
  from body_no_address[OF addrs this] op
  show "op lib r route w = (Some ErrNoAddressFound, w1)" by auto
next
  fix i
  assume i: "i < length addrs"
    and first: "usable lib route (addrs ! i) \<and> (\<forall>j < i. \<not> usable lib route (addrs ! j))"
  from first show ch: "chosen_nexthop lib route addrs = na_Address (addrs ! i)"
    using chosen_nexthop_first[OF i] by blast
  assume "na_Address (addrs ! i) \<noteq> []"
  with ch have "chosen_nexthop lib route addrs \<noteq> []" by simp
  from body_with_nexthop[OF addrs this] op ch
  show "op lib r route w = finish (rest r route (na_Address (addrs ! i)) newCaller w1)" by auto
next
  fix a
  assume "usable lib route a"
  then show "na_Type a = NodeInternalIP" by (simp add: usable_def)
next
  fix a
  assume "usable lib route a"
    and "IsIPv4 lib (IP_String (ParseCIDR lib (DestinationCIDR route))) \<and>
         \<not> IsIPv6 lib (IP_String (ParseCIDR lib (DestinationCIDR route)))"
  then show "IsIPv4 lib (na_Address a)" by (auto simp: usable_def)
next
  fix a
  assume "usable lib route a"
    and "IsIPv6 lib (IP_String (ParseCIDR lib (DestinationCIDR route))) \<and>
         \<not> IsIPv4 lib (IP_String (ParseCIDR lib (DestinationCIDR route)))"
  then show "IsIPv6 lib (na_Address a)" by (auto simp: usable_def)
qed

theorem nexthop_is_first_internal_address_of_family_witness:
  "CreateRoute ex_lib ex_engine ex_route ex_world =
     finish (CreateRoute_tail ex_engine ex_route ''10.0.0.5'' newCaller (snd (getAddressesByName ''n1'' ex_world))) \<and>
   chosen_nexthop ex_lib ex_route [\<lparr>na_Type = NodeInternalIP, na_Address = ''10.0.0.5''\<rparr>] = ''10.0.0.5'' \<and>
   DeleteRoute ex_lib ex_engine (ex_route\<lparr>DestinationCIDR := ''fd00::/64''\<rparr>) ex_world =
     (Some ErrNoAddressFound, snd (getAddressesByName ''n1'' ex_world)) \<and>
   usable ex_lib ex_route \<lparr>na_Type = NodeInternalIP, na_Address = ''10.0.0.5''\<rparr> \<and>
   IsIPv4 ex_lib ''10.0.0.5''"
proof -
  let ?a = "\<lparr>na_Type = NodeInternalIP, na_Address = ''10.0.0.5''\<rparr>"
  let ?r6 = "ex_route\<lparr>DestinationCIDR := ''fd00::/64''\<rparr>"
  let ?w1 = "snd (getAddressesByName ''n1'' ex_world)"
  have addrs: "getAddressesByName (TargetNode ex_route) ex_world = (Inr [?a], ?w1)"
    by (simp add: head_step ex_world_def ex_route_def)
  have addrs6: "getAddressesByName (TargetNode ?r6) ex_world = (Inr [?a], ?w1)"
    by (simp add: head_step ex_world_def ex_route_def)
  have u: "usable ex_lib ex_route ?a"
    by (simp add: usable_def ex_lib_def ex_route_def IP_String_def)
  have nu: "\<forall>a \<in> set [?a]. \<not> usable ex_lib ?r6 a"
    by (simp add: usable_def ex_lib_def ex_route_def IP_String_def)
  have v4: "IsIPv4 ex_lib (IP_String (ParseCIDR ex_lib (DestinationCIDR ex_route))) \<and>
            \<not> IsIPv6 ex_lib (IP_String (ParseCIDR ex_lib (DestinationCIDR ex_route)))"
    by (simp add: ex_lib_def ex_route_def IP_String_def)
  have c: "(CreateRoute = CreateRoute \<and> CreateRoute_tail = CreateRoute_tail) \<or>
           (CreateRoute = DeleteRoute \<and> CreateRoute_tail = DeleteRoute_tail)" by simp
  have d: "(DeleteRoute = CreateRoute \<and> DeleteRoute_tail = CreateRoute_tail) \<or>
           (DeleteRoute = DeleteRoute \<and> DeleteRoute_tail = DeleteRoute_tail)" by simp
  note T1 = nexthop_is_first_internal_address_of_family[OF c addrs, of ex_lib ex_engine]
  note T2 = nexthop_is_first_internal_address_of_family[OF d addrs6, of ex_lib ex_engine]
  have first: "usable ex_lib ex_route ([?a] ! 0) \<and> (\<forall>j < 0. \<not> usable ex_lib ex_route ([?a] ! j))"
    using u by simp
  have len: "0 < length [?a]" by simp
  note step = T1[THEN conjunct2, THEN conjunct1, rule_format, OF len first]
  have chosen: "chosen_nexthop ex_lib ex_route [?a] = ''10.0.0.5''"
    using step[THEN conjunct1] by simp
  have run: "CreateRoute ex_lib ex_engine ex_route ex_world =
     finish (CreateRoute_tail ex_engine ex_route ''10.0.0.5'' newCaller ?w1)"
    using step[THEN conjunct2] by simp
  have none: "DeleteRoute ex_lib ex_engine ?r6 ex_world = (Some ErrNoAddressFound, ?w1)"
    using T2[THEN conjunct1] nu by blast
  have fam: "IsIPv4 ex_lib (na_Address ?a)"
    using T1[THEN conjunct2, THEN conjunct2, rule_format, OF u] v4 by blast
  show ?thesis
    using chosen run none u fam by simp
qed

text \<open>
  Claim C5. When \<open>ListRoutes\<close> succeeds it returns one route per entry of the router's
  table, in the table's order, named by the entry's CIDR. A route is a blackhole exactly
  when the entry's next hop is no address of any instance; then its target node is
  empty. Otherwise its target node is the name of an instance that has the address.
\<close>

theorem ListRoutes_one_route_per_entry:
  assumes run: "ListRoutes r w = (Inr routes, w')"
      and tbl: "routers w (RouterID (opts r)) = Some tbl"
  shows "length routes = length tbl \<and>
         (\<forall>i < length tbl.
            Name (routes ! i) = rt_DestinationCIDR (tbl ! i) \<and>
            DestinationCIDR (routes ! i) = rt_DestinationCIDR (tbl ! i) \<and>
            (Blackhole (routes ! i) \<longleftrightarrow> rt_NextHop (tbl ! i) \<notin> instance_addresses w) \<and>
            (Blackhole (routes ! i) \<longrightarrow> TargetNode (routes ! i) = []) \<and>
            (\<not> Blackhole (routes ! i) \<longrightarrow>
               (\<exists>srv \<in> set (servers w).
                  rt_NextHop (tbl ! i) \<in> addresses_of srv \<and> TargetNode (routes ! i) = srv_Name srv)))"
proof -
  from run obtain m w1 where fe: "foreachServer ListRoutes_handler Map.empty w = ((None, m), w1)"
    by (auto simp: ListRoutes_def split: prod.splits option.splits sum.splits)
  from run fe obtain router where get: "routers_Get (RouterID (opts r)) w1 = (Inr router, w')"
    and routes: "routes = ListRoutes_loop m (elems (route_mem w') (r_Routes router)) []"
    by (auto simp: ListRoutes_def split: prod.splits option.splits sum.splits)
  from foreachServer_None[OF fe]
  have loop: "foreachServer_loop ListRoutes_handler (servers w) Map.empty = (None, m)"
    and same: "routers w1 = routers w" by simp_all
  from routers_Get_Inr[OF get] same tbl
  have fetched: "elems (route_mem w') (r_Routes router) = tbl" by simp
  note idx = foreachServer_loop_index[OF loop]
  have none: "\<And>a. m a = None \<longleftrightarrow> a \<notin> instance_addresses w"
    using idx by (simp add: instance_addresses_def)
  have some: "\<And>a n. m a = Some n \<Longrightarrow> \<exists>srv \<in> set (servers w). a \<in> addresses_of srv \<and> n = srv_Name srv"
    using idx by simp
  have shape: "routes = map (\<lambda>item. \<lparr>Name = rt_DestinationCIDR item,
                          TargetNode = (case m (rt_NextHop item) of None \<Rightarrow> [] | Some n \<Rightarrow> n),
                          DestinationCIDR = rt_DestinationCIDR item,
                          Blackhole = (m (rt_NextHop item) = None)\<rparr>) tbl"
    using routes fetched by (simp add: ListRoutes_loop_map)
  show ?thesis
  proof (intro conjI allI impI)
    show "length routes = length tbl" by (simp add: shape)
  next
    fix i assume "i < length tbl"
    then show "Name (routes ! i) = rt_DestinationCIDR (tbl ! i)" by (simp add: shape)
  next
    fix i assume "i < length tbl"
    then show "DestinationCIDR (routes ! i) = rt_DestinationCIDR (tbl ! i)" by (simp add: shape)
  next
    fix i assume "i < length tbl"
    then show "Blackhole (routes ! i) \<longleftrightarrow> rt_NextHop (tbl ! i) \<notin> instance_addresses w"
      by (simp add: shape none)
  next
    fix i assume "i < length tbl" "Blackhole (routes ! i)"
    then show "TargetNode (routes ! i) = []" by (simp add: shape)
  next
    fix i assume i: "i < length tbl" and nb: "\<not> Blackhole (routes ! i)"
    then obtain n where n: "m (rt_NextHop (tbl ! i)) = Some n" by (auto simp: shape)
    from some[OF n] i n
    show "\<exists>srv \<in> set (servers w).
            rt_NextHop (tbl ! i) \<in> addresses_of srv \<and> TargetNode (routes ! i) = srv_Name srv"
      by (auto simp: shape)
  qed
qed


theorem ListRoutes_one_route_per_entry_witness:
  "fst (ListRoutes ex_engine ex_listed) =
     Inr [\<lparr>Name = ''10.1.0.0/24'', TargetNode = ''n1'', DestinationCIDR = ''10.1.0.0/24'', Blackhole = False\<rparr>,
          \<lparr>Name = ''10.9.0.0/24'', TargetNode = [], DestinationCIDR = ''10.9.0.0/24'', Blackhole = True\<rparr>] \<and>
   ''10.0.0.5'' \<in> instance_addresses ex_listed \<and>
   ''10.0.0.99'' \<notin> instance_addresses ex_listed"
proof -
  let ?routes = "[\<lparr>Name = ''10.1.0.0/24'', TargetNode = ''n1'', DestinationCIDR = ''10.1.0.0/24'', Blackhole = False\<rparr>,
          \<lparr>Name = ''10.9.0.0/24'', TargetNode = [], DestinationCIDR = ''10.9.0.0/24'', Blackhole = True\<rparr>]"
  let ?tbl = "[\<lparr>rt_NextHop = ''10.0.0.5'', rt_DestinationCIDR = ''10.1.0.0/24''\<rparr>,
                 \<lparr>rt_NextHop = ''10.0.0.99'', rt_DestinationCIDR = ''10.9.0.0/24''\<rparr>]"
  have hv: "ListRoutes_handler
      \<lparr>srv_ID = ''s1'', srv_Name = ''n1'',
         srv_Addresses = Inr [\<lparr>na_Type = NodeInternalIP, na_Address = ''10.0.0.5''\<rparr>]\<rparr> Map.empty =
      ((True, None), [''10.0.0.5'' \<mapsto> ''n1''])"
    by (simp add: ListRoutes_handler_apply)
  have val: "fst (ListRoutes ex_engine ex_listed) = Inr ?routes"
    by (simp add: ListRoutes_def foreachServer_def remote_call_cases outcome_def routers_Get_def
        make_slice_def elems_def ex_listed_def ex_world_def ex_engine_def hv Let_def)
  then have run: "ListRoutes ex_engine ex_listed = (Inr ?routes, snd (ListRoutes ex_engine ex_listed))"
    by (simp add: prod_eq_iff)
  have tbl: "routers ex_listed (RouterID (opts ex_engine)) = Some ?tbl"
    by (simp add: ex_listed_def ex_engine_def)
  note T = ListRoutes_one_route_per_entry[OF run tbl, THEN conjunct2, rule_format]
  have "''10.0.0.5'' \<in> instance_addresses ex_listed"
    using T[of 0] by simp
  moreover have "''10.0.0.99'' \<notin> instance_addresses ex_listed"
    using T[of 1] by simp
  ultimately show ?thesis using val by simp
qed

text \<open>
  Claim C1, as stated: whenever the route-table write of a CreateRoute call succeeds and
  its filter-list write fails, the unwind restores the route table to its pre-call
  entries. This fails when the compensating write fails too: the unwinder only logs that
  error, and the new entry stays on the router.
\<close>

theorem CreateRoute_rollback_can_fail:
  "fst (CreateRoute ex_lib ex_engine ex_route ex_faulty) = Some (ErrRemote ''filter write refused'') \<and>
   (RouterUpdate ''r1'' [\<lparr>rt_NextHop = ''10.0.0.5'', rt_DestinationCIDR = ''10.1.0.0/24''\<rparr>], None)
     \<in> set (events_of ex_faulty (snd (CreateRoute ex_lib ex_engine ex_route ex_faulty))) \<and>
   (PortUpdate ''p1'' [\<lparr>IPAddress = ''10.1.0.0/24'', MACAddress = []\<rparr>], Some (ErrRemote ''filter write refused''))
     \<in> set (events_of ex_faulty (snd (CreateRoute ex_lib ex_engine ex_route ex_faulty))) \<and>
   routers ex_faulty ''r1'' = Some [] \<and>
   routers (snd (CreateRoute ex_lib ex_engine ex_route ex_faulty)) ''r1'' =
     Some [\<lparr>rt_NextHop = ''10.0.0.5'', rt_DestinationCIDR = ''10.1.0.0/24''\<rparr>]"
  by (simp add: CreateRoute_view outcome_defs ex_defs ex_faulty_def)

text \<open>
  Claim C1, amended. When the filter-list write of a CreateRoute call fails with an
  error, the call returns that error; the route-table write before it had succeeded; and
  the last remote call is the unwinder's write of exactly the pre-call table. If that
  write is accepted the route table is again its pre-call contents; if it fails, the
  failure is logged as a warning and the table keeps the new entry. The address filters
  are unchanged.
\<close>

theorem CreateRoute_filter_write_failure_unwinds:
  assumes run: "CreateRoute lib r route w = (res, w')"
      and failed: "(PortUpdate pid q, Some e) \<in> set (events_of w w')"
  shows "res = Some e \<and> ports w' = ports w \<and>
         (\<exists>tbl nh out.
            routers w (RouterID (opts r)) = Some tbl \<and>
            events_of w w' ! 2 =
              (RouterUpdate (RouterID (opts r))
                 (tbl @ [\<lparr>rt_NextHop = nh, rt_DestinationCIDR = DestinationCIDR route\<rparr>]), None) \<and>
            last (events_of w w') = (RouterUpdate (RouterID (opts r)) tbl, out) \<and>
            (out = None \<longrightarrow> routers w' = routers w) \<and>
            (\<forall>e'. out = Some e' \<longrightarrow>
               routers w' = (routers w)(RouterID (opts r) \<mapsto>
                   tbl @ [\<lparr>rt_NextHop = nh, rt_DestinationCIDR = DestinationCIDR route\<rparr>]) \<and>
               warnings w' = warnings w @ [(''Unable to reset routes during error unwind: '', e')]))"
proof -
  note facts = run_facts[OF CreateRoute_refines run]
  let ?node = "TargetNode route"
  let ?w1 = "w\<lparr>trace := trace w @ [(ServerGet ?node, None)]\<rparr>"
  show ?thesis
  proof (cases rule: whole_run_cases[of create_attempt lib r route w])
    case (unresolved err out)
    with failed show ?thesis
      by (simp add: facts CreateRoute_outcome_def)
  next
    case (resolved nh)
    note whole = resolved(3)
    show ?thesis
    proof (cases rule: create_attempt_cases[of r route nh ?w1])
      case (get_failed e0)
      with failed show ?thesis
        by (simp add: facts CreateRoute_outcome_def whole settle_def)
    next
      case (present tbl)
      with failed show ?thesis
        by (simp add: facts CreateRoute_outcome_def whole settle_def)
    next
      case (write_failed tbl e0)
      with failed show ?thesis
        by (simp add: facts CreateRoute_outcome_def whole settle_def)
    next
      case (lookup_failed tbl err evs)
      with failed locate_port_no_update(1)[OF lookup_failed(3)] show ?thesis
        by (auto simp: facts CreateRoute_outcome_def whole settle_def split: option.splits)
    next
      case (filter_present tbl pid' ps evs)
      with failed locate_port_no_update(1)[OF filter_present(3)] show ?thesis
        by (auto simp: facts CreateRoute_outcome_def whole settle_def)
    next
      case (created tbl pid' ps evs)
      with failed locate_port_no_update(1)[OF created(3)] show ?thesis
        by (auto simp: facts CreateRoute_outcome_def whole settle_def)
    next
      case (filter_failed tbl pid' ps evs e0)
      have e: "e0 = e"
        using failed locate_port_no_update(1)[OF filter_failed(3)] filter_failed(5)
        by (auto simp: facts CreateRoute_outcome_def whole settle_def split: option.splits)
      have tblw: "routers w (RouterID (opts r)) = Some tbl"
        using filter_failed(1) by simp
      then have undone: "(routers w)(RouterID (opts r) \<mapsto> tbl) = routers w"
        by (simp add: map_upd_triv)
      show ?thesis
      proof (cases "faults w (Suc (length (trace w)) + length (a_events (create_attempt r route nh ?w1)))")
        case None
        then show ?thesis
          using e tblw undone filter_failed(5)
          by (simp add: facts CreateRoute_outcome_def whole settle_def)
      next
        case (Some e')
        then show ?thesis
          using e tblw filter_failed(5)
          by (simp add: facts CreateRoute_outcome_def whole settle_def)
      qed
    qed
  qed
qed


theorem CreateRoute_filter_write_failure_unwinds_witness:
  "fst (CreateRoute ex_lib ex_engine ex_route ex_filter_fails) = Some (ErrRemote ''filter write refused'') \<and>
   (PortUpdate ''p1'' [\<lparr>IPAddress = ''10.1.0.0/24'', MACAddress = []\<rparr>], Some (ErrRemote ''filter write refused''))
     \<in> set (events_of ex_filter_fails (snd (CreateRoute ex_lib ex_engine ex_route ex_filter_fails))) \<and>
   last (events_of ex_filter_fails (snd (CreateRoute ex_lib ex_engine ex_route ex_filter_fails))) =
     (RouterUpdate ''r1'' [], None) \<and>
   routers (snd (CreateRoute ex_lib ex_engine ex_route ex_filter_fails)) = routers ex_filter_fails \<and>
   ports (snd (CreateRoute ex_lib ex_engine ex_route ex_filter_fails)) = ports ex_filter_fails"
proof -
  let ?run = "CreateRoute ex_lib ex_engine ex_route ex_filter_fails"
  have run: "?run = (fst ?run, snd ?run)" by simp
  have failed: "(PortUpdate ''p1'' [\<lparr>IPAddress = ''10.1.0.0/24'', MACAddress = []\<rparr>],
                 Some (ErrRemote ''filter write refused''))
                \<in> set (events_of ex_filter_fails (snd ?run))"
    by (simp add: CreateRoute_view outcome_defs ex_defs ex_filter_fails_def)
  have final: "last (events_of ex_filter_fails (snd ?run)) = (RouterUpdate ''r1'' [], None)"
    by (simp add: CreateRoute_view outcome_defs ex_defs ex_filter_fails_def)
  from CreateRoute_filter_write_failure_unwinds[OF run failed]
  obtain tbl nh out where
    ret: "fst ?run = Some (ErrRemote ''filter write refused'')" and
    ports: "ports (snd ?run) = ports ex_filter_fails" and
    lst: "last (events_of ex_filter_fails (snd ?run)) = (RouterUpdate (RouterID (opts ex_engine)) tbl, out)" and
    ok: "out = None \<longrightarrow> routers (snd ?run) = routers ex_filter_fails"
    by blast
  from lst final have "out = None" by simp
  with ok have "routers (snd ?run) = routers ex_filter_fails" by simp
  with ret ports failed final show ?thesis by simp
qed




text \<open>
  Claim C2: the code at the failing input. The router holds two routes; DeleteRoute
  removes the first; the filter write fails; the unwinder's write is accepted. The
  table written back, and left on the router, is the second route twice: the entry to
  restore was overwritten in the array that \<^verbatim>\<open>origRoutes\<close> shares with \<^verbatim>\<open>routes\<close>.
\<close>

theorem DeleteRoute_unwinder_writes_overwritten_table:
  "fst (DeleteRoute ex_lib ex_engine ex_route ex_two_routes_filter_fails) =
     Some (ErrRemote ''filter write refused'') \<and>
   routers ex_two_routes_filter_fails ''r1'' =
     Some [\<lparr>rt_NextHop = ''10.0.0.5'', rt_DestinationCIDR = ''10.1.0.0/24''\<rparr>,
           \<lparr>rt_NextHop = ''10.0.0.9'', rt_DestinationCIDR = ''10.2.0.0/24''\<rparr>] \<and>
   last (events_of ex_two_routes_filter_fails
           (snd (DeleteRoute ex_lib ex_engine ex_route ex_two_routes_filter_fails))) =
     (RouterUpdate ''r1''
        [\<lparr>rt_NextHop = ''10.0.0.9'', rt_DestinationCIDR = ''10.2.0.0/24''\<rparr>,
         \<lparr>rt_NextHop = ''10.0.0.9'', rt_DestinationCIDR = ''10.2.0.0/24''\<rparr>], None) \<and>
   routers (snd (DeleteRoute ex_lib ex_engine ex_route ex_two_routes_filter_fails)) ''r1'' =
     Some [\<lparr>rt_NextHop = ''10.0.0.9'', rt_DestinationCIDR = ''10.2.0.0/24''\<rparr>,
           \<lparr>rt_NextHop = ''10.0.0.9'', rt_DestinationCIDR = ''10.2.0.0/24''\<rparr>]"
  by (simp add: DeleteRoute_view outcome_defs ex_defs ex_two_routes_def ex_two_routes_filter_fails_def)

text \<open>
  Claim C3, as stated: calling CreateRoute twice for the same CIDR and node leaves
  exactly one matching route entry and exactly one matching filter entry. This fails
  where the route is on the router and its filter is missing (as after a rollback that
  failed): both calls return success at the route check of lines 186-191, before the
  filter list is looked at, and the port keeps no entry for the CIDR.
\<close>

theorem CreateRoute_twice_can_leave_no_filter:
  "fst (CreateRoute ex_lib ex_engine ex_route ex_route_without_filter) = None \<and>
   fst (CreateRoute ex_lib ex_engine ex_route
          (snd (CreateRoute ex_lib ex_engine ex_route ex_route_without_filter))) = None \<and>
   owning_port ''n1'' ''10.0.0.5'' ex_route_without_filter = Some ''p1'' \<and>
   ports (snd (CreateRoute ex_lib ex_engine ex_route
                 (snd (CreateRoute ex_lib ex_engine ex_route ex_route_without_filter)))) ''p1'' = Some [] \<and>
   pair_count ''10.1.0.0/24'' [] = 0"
proof -
  let ?w = "ex_route_without_filter"
  let ?w1 = "snd (CreateRoute ex_lib ex_engine ex_route ?w)"
  have first: "CreateRoute_outcome ex_lib ex_engine ex_route ?w =
      \<lparr>o_ret = None, o_events = [(ServerGet ''n1'', None), (RouterGet ''r1'', None)],
       o_routers = routers ?w, o_ports = ports ?w, o_warnings = []\<rparr>"
    by (simp add: outcome_defs ex_defs ex_route_without_filter_def)
  have w1: "trace ?w1 = [(ServerGet ''n1'', None), (RouterGet ''r1'', None)]"
    "servers ?w1 = servers ex_world" "interfaces ?w1 = interfaces ex_world"
    "faults ?w1 = (\<lambda>n. None)"
    "routers ?w1 = [''r1'' \<mapsto> [\<lparr>rt_NextHop = ''10.0.0.5'', rt_DestinationCIDR = ''10.1.0.0/24''\<rparr>]]"
    "ports ?w1 = [''p1'' \<mapsto> []]"
    by (simp_all add: CreateRoute_frame CreateRoute_view first)
       (simp_all add: ex_route_without_filter_def ex_world_def)
  have second: "CreateRoute_outcome ex_lib ex_engine ex_route ?w1 =
      \<lparr>o_ret = None, o_events = [(ServerGet ''n1'', None), (RouterGet ''r1'', None)],
       o_routers = routers ?w1, o_ports = ports ?w1, o_warnings = []\<rparr>"
    by (simp add: outcome_defs w1 ex_simps)
  have own: "owning_port ''n1'' ''10.0.0.5'' ?w = Some ''p1''"
    by (simp add: owning_port_def ex_defs ex_route_without_filter_def)
  have p: "ports ?w ''p1'' = Some []"
    by (simp add: ex_route_without_filter_def ex_world_def)
  show ?thesis
    by (simp add: CreateRoute_view first second own w1 p pair_count_def)
qed

text \<open>
  Claim C3, amended. (1) A CreateRoute call that fetched a route table which already
  holds an entry for the route's CIDR and resolved next hop returns success, and its
  only remote calls are the two reads. (2) When a first call returns success from a
  state where the table has at most one such entry, the owning port has at most one
  filter entry for the CIDR, and a route entry present comes with its filter entry, then
  a second call writes nothing, succeeds as soon as its two reads are answered, and the
  table holds exactly one matching entry and the port exactly one matching filter entry.
\<close>

theorem CreateRoute_is_idempotent:
  assumes nh: "node_nexthop lib route w = Some nh"
      and tbl: "routers w (RouterID (opts r)) = Some tbl"
  shows "(\<forall>res w'.
            CreateRoute lib r route w = (res, w') \<and>
            (RouterGet (RouterID (opts r)), None) \<in> set (events_of w w') \<and>
            route_count (DestinationCIDR route) nh tbl \<noteq> 0 \<longrightarrow>
              res = None \<and>
              events_of w w' = [(ServerGet (TargetNode route), None), (RouterGet (RouterID (opts r)), None)] \<and>
              routers w' = routers w \<and> ports w' = ports w) \<and>
         (\<forall>w1 res2 w2 pid ps.
            CreateRoute lib r route w = (None, w1) \<and> CreateRoute lib r route w1 = (res2, w2) \<and>
            owning_port (TargetNode route) nh w = Some pid \<and> ports w pid = Some ps \<and>
            route_count (DestinationCIDR route) nh tbl \<le> 1 \<and>
            pair_count (DestinationCIDR route) ps \<le> 1 \<and>
            (route_count (DestinationCIDR route) nh tbl = 1 \<longrightarrow> pair_count (DestinationCIDR route) ps = 1) \<longrightarrow>
              filter is_write (events_of w1 w2) = [] \<and>
              ((RouterGet (RouterID (opts r)), None) \<in> set (events_of w1 w2) \<longrightarrow> res2 = None) \<and>
              (\<exists>tbl2 ps2.
                 routers w2 (RouterID (opts r)) = Some tbl2 \<and>
                 route_count (DestinationCIDR route) nh tbl2 = 1 \<and>
                 ports w2 pid = Some ps2 \<and> pair_count (DestinationCIDR route) ps2 = 1))"
proof (intro conjI allI impI)
  fix res w'
  assume a: "CreateRoute lib r route w = (res, w') \<and>
             (RouterGet (RouterID (opts r)), None) \<in> set (events_of w w') \<and>
             route_count (DestinationCIDR route) nh tbl \<noteq> 0"
  then have run: "CreateRoute lib r route w = (res, w')"
    and pres: "route_count (DestinationCIDR route) nh tbl \<noteq> 0" by simp_all
  from CreateRoute_present_noop[OF run nh tbl pres] a
  have noop: "routers w' = routers w \<and> ports w' = ports w \<and> res = None \<and>
      events_of w w' = [(ServerGet (TargetNode route), None), (RouterGet (RouterID (opts r)), None)]"
    by blast
  from noop show "res = None" by simp
  from noop show "events_of w w' = [(ServerGet (TargetNode route), None), (RouterGet (RouterID (opts r)), None)]"
    by simp
  from noop show "routers w' = routers w" by simp
  from noop show "ports w' = ports w" by simp
next
  fix w1 res2 w2 pid ps
  assume b: "CreateRoute lib r route w = (None, w1) \<and> CreateRoute lib r route w1 = (res2, w2) \<and>
            owning_port (TargetNode route) nh w = Some pid \<and> ports w pid = Some ps \<and>
            route_count (DestinationCIDR route) nh tbl \<le> 1 \<and>
            pair_count (DestinationCIDR route) ps \<le> 1 \<and>
            (route_count (DestinationCIDR route) nh tbl = 1 \<longrightarrow> pair_count (DestinationCIDR route) ps = 1)"
  then have first: "CreateRoute lib r route w = (None, w1)"
    and second: "CreateRoute lib r route w1 = (res2, w2)" by simp_all
  from b have own: "owning_port (TargetNode route) nh w = Some pid" and psw: "ports w pid = Some ps"
    and u1: "route_count (DestinationCIDR route) nh tbl \<le> 1"
    and u2: "pair_count (DestinationCIDR route) ps \<le> 1"
    and ls: "route_count (DestinationCIDR route) nh tbl = 1 \<longrightarrow> pair_count (DestinationCIDR route) ps = 1"
    by simp_all
  from CreateRoute_success_state[OF first nh tbl own psw u1 u2 ls]
  obtain tbl1 ps1 where st: "routers w1 (RouterID (opts r)) = Some tbl1"
    "route_count (DestinationCIDR route) nh tbl1 = 1"
    "ports w1 pid = Some ps1" "pair_count (DestinationCIDR route) ps1 = 1"
    by blast
  have "servers w1 = servers w"
    using CreateRoute_frame(2)[of lib r route w] first by simp
  from node_nexthop_servers[OF this, of lib route] nh
  have nh1: "node_nexthop lib route w1 = Some nh" by simp
  from st(2) have pres: "route_count (DestinationCIDR route) nh tbl1 \<noteq> 0" by simp
  note noop = CreateRoute_present_noop[OF second nh1 st(1) pres]
  from noop show "filter is_write (events_of w1 w2) = []" by simp
  from noop show "res2 = None" if "(RouterGet (RouterID (opts r)), None) \<in> set (events_of w1 w2)"
    using that by simp
  from noop st show "\<exists>tbl2 ps2.
                 routers w2 (RouterID (opts r)) = Some tbl2 \<and>
                 route_count (DestinationCIDR route) nh tbl2 = 1 \<and>
                 ports w2 pid = Some ps2 \<and> pair_count (DestinationCIDR route) ps2 = 1"
    by simp
qed


theorem CreateRoute_is_idempotent_witness:
  "fst (CreateRoute ex_lib ex_engine ex_route ex_route_without_filter) = None \<and>
   events_of ex_route_without_filter (snd (CreateRoute ex_lib ex_engine ex_route ex_route_without_filter)) =
     [(ServerGet ''n1'', None), (RouterGet ''r1'', None)] \<and>
   fst (CreateRoute ex_lib ex_engine ex_route ex_world) = None \<and>
   filter is_write
     (events_of (snd (CreateRoute ex_lib ex_engine ex_route ex_world))
        (snd (CreateRoute ex_lib ex_engine ex_route (snd (CreateRoute ex_lib ex_engine ex_route ex_world))))) = [] \<and>
   (\<exists>tbl2 ps2.
      routers (snd (CreateRoute ex_lib ex_engine ex_route (snd (CreateRoute ex_lib ex_engine ex_route ex_world))))
        ''r1'' = Some tbl2 \<and>
      route_count ''10.1.0.0/24'' ''10.0.0.5'' tbl2 = 1 \<and>
      ports (snd (CreateRoute ex_lib ex_engine ex_route (snd (CreateRoute ex_lib ex_engine ex_route ex_world))))
        ''p1'' = Some ps2 \<and>
      pair_count ''10.1.0.0/24'' ps2 = 1)"
proof -
  let ?v = "ex_route_without_filter"
  let ?X = "CreateRoute ex_lib ex_engine ex_route ?v"
  let ?Y = "CreateRoute ex_lib ex_engine ex_route ex_world"
  let ?Z = "CreateRoute ex_lib ex_engine ex_route (snd ?Y)"
  let ?A = "\<lparr>rt_NextHop = ''10.0.0.5'', rt_DestinationCIDR = ''10.1.0.0/24''\<rparr>"
  have rid: "RouterID (opts ex_engine) = ''r1''" by (simp add: ex_engine_def)
  have cidr: "DestinationCIDR ex_route = ''10.1.0.0/24''" and node: "TargetNode ex_route = ''n1''"
    by (simp_all add: ex_route_def)
  have nhv: "node_nexthop ex_lib ex_route ?v = Some ''10.0.0.5''"
    by (simp add: outcome_defs ex_defs ex_route_without_filter_def)
  have tblv: "routers ?v (RouterID (opts ex_engine)) = Some [?A]"
    by (simp add: ex_defs ex_route_without_filter_def)
  have outv: "CreateRoute_outcome ex_lib ex_engine ex_route ?v =
      \<lparr>o_ret = None, o_events = [(ServerGet ''n1'', None), (RouterGet ''r1'', None)],
       o_routers = routers ?v, o_ports = ports ?v, o_warnings = []\<rparr>"
    by (simp add: outcome_defs ex_defs ex_route_without_filter_def)
  have hypA: "?X = (fst ?X, snd ?X) \<and>
      (RouterGet (RouterID (opts ex_engine)), None) \<in> set (events_of ?v (snd ?X)) \<and>
      route_count (DestinationCIDR ex_route) ''10.0.0.5'' [?A] \<noteq> 0"
    by (simp add: CreateRoute_view outv rid cidr route_count_def prod_eq_iff)
  note A = CreateRoute_is_idempotent[OF nhv tblv, THEN conjunct1, rule_format, OF hypA]
  have nhw: "node_nexthop ex_lib ex_route ex_world = Some ''10.0.0.5''"
    by (simp add: outcome_defs ex_defs)
  have tblw: "routers ex_world (RouterID (opts ex_engine)) = Some []"
    by (simp add: ex_defs)
  have outw: "o_ret (CreateRoute_outcome ex_lib ex_engine ex_route ex_world) = None"
    by (simp add: outcome_defs ex_defs)
  have firstw: "?Y = (None, snd ?Y)"
    using CreateRoute_view(1)[of ex_lib ex_engine ex_route ex_world] outw by (simp add: prod_eq_iff)
  have own: "owning_port (TargetNode ex_route) ''10.0.0.5'' ex_world = Some ''p1''"
    by (simp add: owning_port_def ex_defs)
  have psw: "ports ex_world ''p1'' = Some []" by (simp add: ex_defs)
  have hypB: "?Y = (None, snd ?Y) \<and> ?Z = (fst ?Z, snd ?Z) \<and>
      owning_port (TargetNode ex_route) ''10.0.0.5'' ex_world = Some ''p1'' \<and>
      ports ex_world ''p1'' = Some [] \<and>
      route_count (DestinationCIDR ex_route) ''10.0.0.5'' [] \<le> 1 \<and>
      pair_count (DestinationCIDR ex_route) [] \<le> 1 \<and>
      (route_count (DestinationCIDR ex_route) ''10.0.0.5'' [] = 1 \<longrightarrow>
       pair_count (DestinationCIDR ex_route) [] = 1)"
    using firstw own psw by (simp add: route_count_def pair_count_def)
  note B = CreateRoute_is_idempotent[OF nhw tblw, THEN conjunct2, rule_format, OF hypB]
  from A have a: "fst ?X = None"
    "events_of ?v (snd ?X) = [(ServerGet ''n1'', None), (RouterGet ''r1'', None)]"
    by (simp_all add: rid node)
  from B have b: "filter is_write (events_of (snd ?Y) (snd ?Z)) = []"
    "\<exists>tbl2 ps2. routers (snd ?Z) ''r1'' = Some tbl2 \<and>
       route_count ''10.1.0.0/24'' ''10.0.0.5'' tbl2 = 1 \<and>
       ports (snd ?Z) ''p1'' = Some ps2 \<and> pair_count ''10.1.0.0/24'' ps2 = 1"
    by (simp_all add: rid cidr)
  from firstw have c: "fst ?Y = None" by (simp add: prod_eq_iff)
  from a b c show ?thesis by blast
qed

text \<open>
  Claim C8. A CreateRoute or DeleteRoute call triggers compensation when its route-table
  write was accepted and the call then returns an error. For every such call:

  \<^item> the compensating write is the last remote call of the run; every remote call before
    it but the last one was accepted, and the error returned is the error of that last
    one (the triggering error); when that call too was accepted, it is the listing of the
    instance's interfaces and the error returned is the \<open>ErrNotFound\<close> of line 355, no
    interface holding the next hop;
  \<^item> the error returned does not depend on how the compensating write ends: with any
    other outcome scripted for it, the call returns the same error;
  \<^item> when the compensating write fails, its error is logged as a warning and nothing else
    is; when it is accepted, nothing is logged.
\<close>

theorem compensation_failure_is_logged_and_swallowed:
  assumes op: "op = CreateRoute \<or> op = DeleteRoute"
      and run: "op lib r route w = (res, w')"
      and committed: "find is_write (events_of w w') = Some (RouterUpdate (RouterID (opts r)) p, None)"
      and failed: "res \<noteq> None"
  shows "(\<forall>ev\<in>set (butlast (butlast (events_of w w'))). snd ev = None) \<and>
         res = Some (case snd (last (butlast (events_of w w'))) of
                       Some e \<Rightarrow> e | None \<Rightarrow> ErrNotFound) \<and>
         (snd (last (butlast (events_of w w'))) = None \<longrightarrow>
            (\<exists>sid. fst (last (butlast (events_of w w'))) = InterfacesGet sid)) \<and>
         (\<forall>x. fst (op lib r route (w\<lparr>faults := (faults w)(length (trace w') - 1 := x)\<rparr>)) = res) \<and>
         (\<exists>u. last (events_of w w') =
                (RouterUpdate (RouterID (opts r)) u, faults w (length (trace w') - 1))) \<and>
         warnings w' = warnings w @
           (case faults w (length (trace w') - 1) of
              None \<Rightarrow> []
            | Some e \<Rightarrow> [(''Unable to reset routes during error unwind: '', e)])"
  using op
proof
  assume c: "op = CreateRoute"
  from run c have run': "CreateRoute lib r route w = (res, w')" by simp
  note facts = run_facts[OF CreateRoute_refines run']
  have K: "length (trace w') - 1 =
             length (trace w) + length (o_events (whole_run create_attempt lib r route w)) - 1"
    by (simp add: run_trace[OF CreateRoute_refines run'] CreateRoute_outcome_def)
  have evs: "events_of w w' = o_events (whole_run create_attempt lib r route w)"
    by (simp add: facts CreateRoute_outcome_def)
  have committed': "find is_write (o_events (whole_run create_attempt lib r route w)) =
                      Some (RouterUpdate (RouterID (opts r)) p, None)"
    using committed by (simp add: evs)
  have ret: "o_ret (whole_run create_attempt lib r route w) = res"
    by (simp add: facts CreateRoute_outcome_def)
  with failed have failed': "o_ret (whole_run create_attempt lib r route w) \<noteq> None"
    by simp
  have trig: "a_events (create_attempt r route nh u) \<noteq> [] \<and>
              (\<forall>ev\<in>set (butlast (a_events (create_attempt r route nh u))). snd ev = None) \<and>
              a_ret (create_attempt r route nh u) =
                Some (case snd (last (a_events (create_attempt r route nh u))) of
                        Some e \<Rightarrow> e | None \<Rightarrow> ErrNotFound) \<and>
              (snd (last (a_events (create_attempt r route nh u))) = None \<longrightarrow>
                (\<exists>sid. fst (last (a_events (create_attempt r route nh u))) = InterfacesGet sid))"
    if a: "a_undo (create_attempt r route nh u) = Some x" for nh u x
    using create_attempt_trigger[OF a] by (intro conjI)
  let ?E = "o_events (whole_run create_attempt lib r route w)"
  have cause: "(\<forall>ev\<in>set (butlast (butlast ?E)). snd ev = None) \<and>
         res = Some (case snd (last (butlast ?E)) of Some e \<Rightarrow> e | None \<Rightarrow> ErrNotFound) \<and>
         (snd (last (butlast ?E)) = None \<longrightarrow> (\<exists>sid. fst (last (butlast ?E)) = InterfacesGet sid))"
    by (rule whole_run_trigger[where att = create_attempt, OF _ _ committed' failed', unfolded ret])
      (erule trig, (erule create_attempt_undo; assumption))
  note main = whole_run_compensated[where att = create_attempt, OF create_attempt_local
      create_attempt_undo committed' failed']
  have rest: "(\<forall>x. fst (CreateRoute lib r route
                  (w\<lparr>faults := (faults w)(length (trace w) +
                     length (o_events (whole_run create_attempt lib r route w)) - 1 := x)\<rparr>)) = res) \<and>
         (\<exists>u. last (events_of w w') =
                (RouterUpdate (RouterID (opts r)) u, faults w (length (trace w) +
                     length (o_events (whole_run create_attempt lib r route w)) - 1))) \<and>
         warnings w' = warnings w @
           (case faults w (length (trace w) +
                     length (o_events (whole_run create_attempt lib r route w)) - 1) of
              None \<Rightarrow> []
            | Some e \<Rightarrow> [(''Unable to reset routes during error unwind: '', e)])"
    using main by (simp add: CreateRoute_view(1) CreateRoute_outcome_def facts(2,5) ret)
  show ?thesis
    unfolding c K evs using cause rest[unfolded evs] by blast
next
  assume d: "op = DeleteRoute"
  from run d have run': "DeleteRoute lib r route w = (res, w')" by simp
  note facts = run_facts[OF DeleteRoute_refines run']
  have K: "length (trace w') - 1 =
             length (trace w) + length (o_events (whole_run delete_attempt lib r route w)) - 1"
    by (simp add: run_trace[OF DeleteRoute_refines run'] DeleteRoute_outcome_def)
  have evs: "events_of w w' = o_events (whole_run delete_attempt lib r route w)"
    by (simp add: facts DeleteRoute_outcome_def)
  have committed': "find is_write (o_events (whole_run delete_attempt lib r route w)) =
                      Some (RouterUpdate (RouterID (opts r)) p, None)"
    using committed by (simp add: evs)
  have ret: "o_ret (whole_run delete_attempt lib r route w) = res"
    by (simp add: facts DeleteRoute_outcome_def)
  with failed have failed': "o_ret (whole_run delete_attempt lib r route w) \<noteq> None"
    by simp
  have trig: "a_events (delete_attempt r route nh u) \<noteq> [] \<and>
              (\<forall>ev\<in>set (butlast (a_events (delete_attempt r route nh u))). snd ev = None) \<and>
              a_ret (delete_attempt r route nh u) =
                Some (case snd (last (a_events (delete_attempt r route nh u))) of
                        Some e \<Rightarrow> e | None \<Rightarrow> ErrNotFound) \<and>
              (snd (last (a_events (delete_attempt r route nh u))) = None \<longrightarrow>
                (\<exists>sid. fst (last (a_events (delete_attempt r route nh u))) = InterfacesGet sid))"
    if a: "a_undo (delete_attempt r route nh u) = Some x" for nh u x
    using delete_attempt_trigger[OF a] by (intro conjI)
  let ?E = "o_events (whole_run delete_attempt lib r route w)"
  have cause: "(\<forall>ev\<in>set (butlast (butlast ?E)). snd ev = None) \<and>
         res = Some (case snd (last (butlast ?E)) of Some e \<Rightarrow> e | None \<Rightarrow> ErrNotFound) \<and>
         (snd (last (butlast ?E)) = None \<longrightarrow> (\<exists>sid. fst (last (butlast ?E)) = InterfacesGet sid))"
    by (rule whole_run_trigger[where att = delete_attempt, OF _ _ committed' failed', unfolded ret])
      (erule trig, (erule delete_attempt_undo; assumption))
  note main = whole_run_compensated[where att = delete_attempt, OF delete_attempt_local
      delete_attempt_undo committed' failed']
  have rest: "(\<forall>x. fst (DeleteRoute lib r route
                  (w\<lparr>faults := (faults w)(length (trace w) +
                     length (o_events (whole_run delete_attempt lib r route w)) - 1 := x)\<rparr>)) = res) \<and>
         (\<exists>u. last (events_of w w') =
                (RouterUpdate (RouterID (opts r)) u, faults w (length (trace w) +
                     length (o_events (whole_run delete_attempt lib r route w)) - 1))) \<and>
         warnings w' = warnings w @
           (case faults w (length (trace w) +
                     length (o_events (whole_run delete_attempt lib r route w)) - 1) of
              None \<Rightarrow> []
            | Some e \<Rightarrow> [(''Unable to reset routes during error unwind: '', e)])"
    using main by (simp add: DeleteRoute_view(1) DeleteRoute_outcome_def facts(2,5) ret)
  show ?thesis
    unfolding d K evs using cause rest[unfolded evs] by blast
qed


theorem compensation_failure_is_logged_and_swallowed_witness:
  "fst (CreateRoute ex_lib ex_engine ex_route ex_faulty) = Some (ErrRemote ''filter write refused'') \<and>
   find is_write (events_of ex_faulty (snd (CreateRoute ex_lib ex_engine ex_route ex_faulty))) =
     Some (RouterUpdate ''r1'' [\<lparr>rt_NextHop = ''10.0.0.5'', rt_DestinationCIDR = ''10.1.0.0/24''\<rparr>], None) \<and>
   last (butlast (events_of ex_faulty (snd (CreateRoute ex_lib ex_engine ex_route ex_faulty)))) =
     (PortUpdate ''p1'' [\<lparr>IPAddress = ''10.1.0.0/24'', MACAddress = []\<rparr>],
      Some (ErrRemote ''filter write refused'')) \<and>
   last (events_of ex_faulty (snd (CreateRoute ex_lib ex_engine ex_route ex_faulty))) =
     (RouterUpdate ''r1'' [], Some (ErrRemote ''router write refused'')) \<and>
   fst (CreateRoute ex_lib ex_engine ex_route (ex_faulty\<lparr>faults := (faults ex_faulty)(7 := None)\<rparr>)) =
     Some (ErrRemote ''filter write refused'') \<and>
   warnings (snd (CreateRoute ex_lib ex_engine ex_route ex_faulty)) =
     warnings ex_faulty @ [(''Unable to reset routes during error unwind: '', ErrRemote ''router write refused'')] \<and>
   fst (DeleteRoute ex_lib ex_engine ex_route ex_two_routes_faulty) = Some (ErrRemote ''filter write refused'') \<and>
   find is_write (events_of ex_two_routes_faulty (snd (DeleteRoute ex_lib ex_engine ex_route ex_two_routes_faulty))) =
     Some (RouterUpdate ''r1'' [\<lparr>rt_NextHop = ''10.0.0.9'', rt_DestinationCIDR = ''10.2.0.0/24''\<rparr>], None) \<and>
   last (butlast (events_of ex_two_routes_faulty (snd (DeleteRoute ex_lib ex_engine ex_route ex_two_routes_faulty)))) =
     (PortUpdate ''p1'' [], Some (ErrRemote ''filter write refused'')) \<and>
   fst (DeleteRoute ex_lib ex_engine ex_route
          (ex_two_routes_faulty\<lparr>faults := (faults ex_two_routes_faulty)(7 := None)\<rparr>)) =
     Some (ErrRemote ''filter write refused'') \<and>
   warnings (snd (DeleteRoute ex_lib ex_engine ex_route ex_two_routes_faulty)) =
     warnings ex_two_routes_faulty @
       [(''Unable to reset routes during error unwind: '', ErrRemote ''router write refused'')]"
proof -
  have rid: "RouterID (opts ex_engine) = ''r1''" by (simp add: ex_engine_def)
  let ?msg = "''Unable to reset routes during error unwind: ''"

  let ?c = "CreateRoute ex_lib ex_engine ex_route ex_faulty"
  let ?ctbl = "[\<lparr>rt_NextHop = ''10.0.0.5'', rt_DestinationCIDR = ''10.1.0.0/24''\<rparr>]"
  have c_run: "?c = (fst ?c, snd ?c)" by simp
  have c_failed: "fst ?c \<noteq> None"
    by (simp add: CreateRoute_view outcome_defs ex_defs ex_faulty_def)
  have c_first: "find is_write (events_of ex_faulty (snd ?c)) = Some (RouterUpdate ''r1'' ?ctbl, None)"
    by (simp add: CreateRoute_view outcome_defs ex_defs ex_faulty_def is_write_def)
  then have c_committed: "find is_write (events_of ex_faulty (snd ?c)) =
                            Some (RouterUpdate (RouterID (opts ex_engine)) ?ctbl, None)"
    by (simp only: rid)
  have c_tr: "trace (snd ?c) = trace ex_faulty @ o_events (CreateRoute_outcome ex_lib ex_engine ex_route ex_faulty)"
    by (rule run_trace[OF CreateRoute_refines c_run])
  have "length (trace (snd ?c)) = 8"
    unfolding c_tr by (simp add: outcome_defs ex_defs ex_faulty_def)
  then have c_len: "length (trace (snd ?c)) - 1 = 7" by simp
  have c_f7: "faults ex_faulty 7 = Some (ErrRemote ''router write refused'')"
    by (simp add: ex_faulty_def ex_defs)
  have c_pen: "last (butlast (events_of ex_faulty (snd ?c))) =
      (PortUpdate ''p1'' [\<lparr>IPAddress = ''10.1.0.0/24'', MACAddress = []\<rparr>],
       Some (ErrRemote ''filter write refused''))"
    by (simp add: CreateRoute_view outcome_defs ex_defs ex_faulty_def)
  have c_last: "last (events_of ex_faulty (snd ?c)) =
      (RouterUpdate ''r1'' [], Some (ErrRemote ''router write refused''))"
    by (simp add: CreateRoute_view outcome_defs ex_defs ex_faulty_def)
  note c_th = compensation_failure_is_logged_and_swallowed[OF disjI1[OF refl] c_run c_committed c_failed,
      unfolded c_len c_pen c_f7]
  from c_th have c_ret: "fst ?c = Some (ErrRemote ''filter write refused'')"
    by simp
  from c_th have "\<forall>x. fst (CreateRoute ex_lib ex_engine ex_route
                           (ex_faulty\<lparr>faults := (faults ex_faulty)(7 := x)\<rparr>)) = fst ?c"
    by blast
  then have "fst (CreateRoute ex_lib ex_engine ex_route
                           (ex_faulty\<lparr>faults := (faults ex_faulty)(7 := None)\<rparr>)) = fst ?c"
    by (rule spec)
  with c_ret have c_stable: "fst (CreateRoute ex_lib ex_engine ex_route
      (ex_faulty\<lparr>faults := (faults ex_faulty)(7 := None)\<rparr>)) = Some (ErrRemote ''filter write refused'')"
    by simp
  from c_th have c_logged: "warnings (snd ?c) = warnings ex_faulty @ [(?msg, ErrRemote ''router write refused'')]"
    by simp

  let ?d = "DeleteRoute ex_lib ex_engine ex_route ex_two_routes_faulty"
  let ?dtbl = "[\<lparr>rt_NextHop = ''10.0.0.9'', rt_DestinationCIDR = ''10.2.0.0/24''\<rparr>]"
  note d_defs = ex_defs ex_two_routes_def ex_two_routes_faulty_def
  have d_run: "?d = (fst ?d, snd ?d)" by simp
  have d_failed: "fst ?d \<noteq> None"
    by (simp add: DeleteRoute_view outcome_defs d_defs)
  have d_first: "find is_write (events_of ex_two_routes_faulty (snd ?d)) = Some (RouterUpdate ''r1'' ?dtbl, None)"
    by (simp add: DeleteRoute_view outcome_defs d_defs is_write_def)
  then have d_committed: "find is_write (events_of ex_two_routes_faulty (snd ?d)) =
                            Some (RouterUpdate (RouterID (opts ex_engine)) ?dtbl, None)"
    by (simp only: rid)
  have d_tr: "trace (snd ?d) = trace ex_two_routes_faulty @
                o_events (DeleteRoute_outcome ex_lib ex_engine ex_route ex_two_routes_faulty)"
    by (rule run_trace[OF DeleteRoute_refines d_run])
  have "length (trace (snd ?d)) = 8"
    unfolding d_tr by (simp add: outcome_defs d_defs)
  then have d_len: "length (trace (snd ?d)) - 1 = 7" by simp
  have d_f7: "faults ex_two_routes_faulty 7 = Some (ErrRemote ''router write refused'')"
    by (simp add: d_defs)
  have d_pen: "last (butlast (events_of ex_two_routes_faulty (snd ?d))) =
      (PortUpdate ''p1'' [], Some (ErrRemote ''filter write refused''))"
    by (simp add: DeleteRoute_view outcome_defs d_defs)
  note d_th = compensation_failure_is_logged_and_swallowed[OF disjI2[OF refl] d_run d_committed d_failed,
      unfolded d_len d_pen d_f7]
  from d_th have d_ret: "fst ?d = Some (ErrRemote ''filter write refused'')"
    by simp
  from d_th have "\<forall>x. fst (DeleteRoute ex_lib ex_engine ex_route
                     (ex_two_routes_faulty\<lparr>faults := (faults ex_two_routes_faulty)(7 := x)\<rparr>)) = fst ?d"
    by blast
  then have "fst (DeleteRoute ex_lib ex_engine ex_route
                     (ex_two_routes_faulty\<lparr>faults := (faults ex_two_routes_faulty)(7 := None)\<rparr>)) = fst ?d"
    by (rule spec)
  with d_ret have d_stable: "fst (DeleteRoute ex_lib ex_engine ex_route
      (ex_two_routes_faulty\<lparr>faults := (faults ex_two_routes_faulty)(7 := None)\<rparr>)) =
      Some (ErrRemote ''filter write refused'')"
    by simp
  from d_th have d_logged: "warnings (snd ?d) =
      warnings ex_two_routes_faulty @ [(?msg, ErrRemote ''router write refused'')]"
    by simp

  show ?thesis
    by (intro conjI c_ret c_first c_pen c_last c_stable c_logged d_ret d_first d_pen d_stable d_logged)
qed

end
